theory Spec2Isabelle
  imports Complex_Main
begin

section \<open>Python values\<close>

text \<open>
  The robust Bayesian committee machine of \<^verbatim>\<open>flare/rbcm.py\<close> is a Python class whose
  methods mutate the object and may raise. A method is modelled as a function from the
  object's state to a result and the state it leaves behind; a raised exception is the
  result \<open>Inl e\<close>, and the state beside it is the state at the moment of the raise (the
  mutations made before the raise stay). Floating-point numbers are modelled as reals.
\<close>

datatype py_error =
    IndexError | KeyError | ValueError | UnsupportedFormat "string list"
  | TypeError | AttributeError | AssertionError | Warning | RuntimeError | LinAlgError

type_synonym vec = "real list"
type_synonym mat = "real list list"

text \<open>
  A structure is used through \<^verbatim>\<open>len(struc.positions)\<close> only. An atomic environment is
  built by the constructor \<^verbatim>\<open>AtomicEnvironment(struc, atom, cutoffs, cutoffs_mask)\<close> of
  \<^verbatim>\<open>flare.env\<close>; it is kept as the pair of the arguments that vary.
\<close>

datatype struc = Structure (positions: "vec list")

datatype env = AtomicEnvironment struc int

text \<open>Python list indexing: a negative index counts from the end, anything else out of range raises.\<close>

definition py_norm :: "nat \<Rightarrow> int \<Rightarrow> nat option" where
  "py_norm n i =
     (if 0 \<le> i \<and> i < int n then Some (nat i)
      else if i < 0 \<and> - int n \<le> i then Some (nat (int n + i))
      else None)"

definition py_get :: "'a list \<Rightarrow> int \<Rightarrow> py_error + 'a" where
  "py_get xs i = (case py_norm (length xs) i of None \<Rightarrow> Inl IndexError | Some k \<Rightarrow> Inr (xs ! k))"

definition py_set :: "'a list \<Rightarrow> int \<Rightarrow> 'a \<Rightarrow> py_error + 'a list" where
  "py_set xs i v = (case py_norm (length xs) i of None \<Rightarrow> Inl IndexError | Some k \<Rightarrow> Inr (xs[k := v]))"

text \<open>\<^verbatim>\<open>xss[i].append(x)\<close> and \<^verbatim>\<open>xs[i] += 1\<close>.\<close>

definition append_at :: "'a list list \<Rightarrow> int \<Rightarrow> 'a \<Rightarrow> py_error + 'a list list" where
  "append_at xss i x =
     (case py_norm (length xss) i of None \<Rightarrow> Inl IndexError | Some k \<Rightarrow> Inr (xss[k := xss ! k @ [x]]))"

definition incr_at :: "int list \<Rightarrow> int \<Rightarrow> py_error + int list" where
  "incr_at xs i =
     (case py_norm (length xs) i of None \<Rightarrow> Inl IndexError | Some k \<Rightarrow> Inr (xs[k := xs ! k + 1]))"

text \<open>\<^verbatim>\<open>np.hstack\<close> of a list of one-dimensional arrays; numpy refuses the empty list.\<close>

definition hstack :: "vec list \<Rightarrow> py_error + vec" where
  "hstack vs = (if vs = [] then Inl ValueError else Inr (concat vs))"

text \<open>\<^verbatim>\<open>str.lower\<close> on ASCII text.\<close>

definition lower_char :: "char \<Rightarrow> char" where
  "lower_char c =
     (if 65 \<le> (of_char c :: nat) \<and> (of_char c :: nat) \<le> 90 then char_of (of_char c + (32 :: nat)) else c)"

definition lower :: "string \<Rightarrow> string" where
  "lower s = map lower_char s"

section \<open>The state of the committee machine\<close>

text \<open>
  The fields of \<^verbatim>\<open>RobustBayesianCommitteeMachine\<close>, one list entry per expert as in the
  source. \<open>logger\<close> is \<open>False\<close> when \<^verbatim>\<open>self.logger\<close> is \<^verbatim>\<open>None\<close>. The four
  \<open>global_\<close> fields are the dictionaries \<^verbatim>\<open>_global_training_data\<close>, ... of
  \<^verbatim>\<open>flare.gp_algebra\<close>, restricted to this model's keys \<^verbatim>\<open>f"{self.name}_{i}"\<close> and
  indexed by \<open>i\<close>. A dictionary entry refers to the expert's list itself; the class reads
  an entry only right after \<^verbatim>\<open>sync_data\<close> or \<^verbatim>\<open>sync_one_data\<close> has written that key, so
  the copy taken at that moment is what is read. \<open>n_Ky_builds\<close> is not a field of the
  object: it records the effect "the covariance matrix was rebuilt in full" by
  counting the calls of \<^verbatim>\<open>get_Ky_mat\<close>.
\<close>

record rbcm =
  n_experts :: int
  prior_variance :: real
  log_prior_var :: real
  ndata_per_expert :: int
  current_expert :: int
  hyps :: vec
  opt_algorithm :: string
  bounds :: "(real \<times> real option) list option"
  logger :: bool
  training_data :: "env list list"
  training_labels :: "vec list list"
  training_labels_np :: "vec list"
  n_envs_prev :: "int list"
  training_structures :: "env list list list"
  energy_labels :: "real list list"
  energy_labels_np :: "vec list"
  all_labels :: "vec list"
  ky_mat :: "mat option list"
  force_block :: "mat option list"
  energy_block :: "mat option list"
  force_energy_block :: "mat option list"
  l_mat :: "mat option list"
  alpha :: "vec option list"
  ky_mat_inv :: "mat option list"
  likelihood :: "real option list"
  total_likelihood :: "real option"
  total_likelihood_gradient :: "vec option"
  global_training_data :: "int \<Rightarrow> env list option"
  global_training_labels :: "int \<Rightarrow> vec option"
  global_training_structures :: "int \<Rightarrow> env list list option"
  global_energy_labels :: "int \<Rightarrow> vec option"
  n_Ky_builds :: nat

type_synonym 'a res = "(py_error + 'a) \<times> rbcm"

text \<open>Sequencing: stop at the first exception, keeping the state it left.\<close>

definition then_do :: "'a res \<Rightarrow> ('a \<Rightarrow> rbcm \<Rightarrow> 'b res) \<Rightarrow> 'b res" where
  "then_do r f = (case fst r of Inl e \<Rightarrow> (Inl e, snd r) | Inr a \<Rightarrow> f a (snd r))"

definition try_get :: "py_error + 'a \<Rightarrow> rbcm \<Rightarrow> ('a \<Rightarrow> 'b res) \<Rightarrow> 'b res" where
  "try_get r s f = (case r of Inl e \<Rightarrow> (Inl e, s) | Inr a \<Rightarrow> f a)"

section \<open>Containers and routing\<close>

definition add_container :: "rbcm \<Rightarrow> rbcm" where
  "add_container s = s
     \<lparr> training_data := training_data s @ [[]],
       training_labels := training_labels s @ [[]],
       training_labels_np := training_labels_np s @ [[]],
       n_envs_prev := n_envs_prev s @ [0],
       training_structures := training_structures s @ [[]],
       energy_labels := energy_labels s @ [[]],
       energy_labels_np := energy_labels_np s @ [[]],
       all_labels := all_labels s @ [[]],
       ky_mat := ky_mat s @ [None],
       force_block := force_block s @ [None],
       energy_block := energy_block s @ [None],
       force_energy_block := force_energy_block s @ [None],
       l_mat := l_mat s @ [None],
       alpha := alpha s @ [None],
       ky_mat_inv := ky_mat_inv s @ [None],
       likelihood := likelihood s @ [None] \<rparr>"

text \<open>
  \<^verbatim>\<open>__init__\<close>: the scalar fields, the empty lists, then one container per
  \<^verbatim>\<open>range(n_experts)\<close>. The hyperparameters and the bounds come from the constructor of the
  base class, which also installs a logger.
\<close>

definition rbcm_init :: "int \<Rightarrow> int \<Rightarrow> real \<Rightarrow> vec \<Rightarrow> rbcm" where
  "rbcm_init n ndata prior hs =
     fold (\<lambda>i. add_container) [0..<nat n]
       \<lparr> n_experts = n, prior_variance = prior, log_prior_var = ln prior,
         ndata_per_expert = ndata, current_expert = 0, hyps = hs,
         opt_algorithm = ''L-BFGS-B'', bounds = None, logger = True,
         training_data = [], training_labels = [], training_labels_np = [],
         n_envs_prev = [], training_structures = [], energy_labels = [],
         energy_labels_np = [], all_labels = [], ky_mat = [], force_block = [],
         energy_block = [], force_energy_block = [], l_mat = [], alpha = [],
         ky_mat_inv = [], likelihood = [], total_likelihood = None,
         total_likelihood_gradient = None,
         global_training_data = (\<lambda>i. None), global_training_labels = (\<lambda>i. None),
         global_training_structures = (\<lambda>i. None), global_energy_labels = (\<lambda>i. None),
         n_Ky_builds = 0 \<rparr>"

definition find_expert_to_add :: "rbcm \<Rightarrow> int res" where
  "find_expert_to_add s =
     try_get (py_get (n_envs_prev s) (current_expert s)) s (\<lambda>n.
       if n > ndata_per_expert s
       then (Inr (current_expert s + 1), s\<lparr>current_expert := current_expert s + 1\<rparr>)
       else (Inr (current_expert s), s))"

section \<open>Adding training data\<close>

text \<open>Lines 166--167 and 222--223: a new container, and one expert more.\<close>

definition add_expert :: "rbcm \<Rightarrow> rbcm" where
  "add_expert s = (add_container s)\<lparr>n_experts := n_experts s + 1\<rparr>"

text \<open>Lines 162--167 of \<^verbatim>\<open>update_db\<close>, the same as lines 218--223 of \<^verbatim>\<open>add_one_env\<close>.\<close>

definition route :: "int option \<Rightarrow> rbcm \<Rightarrow> int res" where
  "route expert_id s =
     then_do (case expert_id of None \<Rightarrow> find_expert_to_add s | Some e \<Rightarrow> (Inr e, s)) (\<lambda>e s1.
       if e \<ge> n_experts s1 then (Inr e, add_expert s1) else (Inr e, s1))"

text \<open>The loop over \<^verbatim>\<open>update_indices\<close> (lines 175--183).\<close>

fun update_db_forces :: "struc \<Rightarrow> vec list \<Rightarrow> int \<Rightarrow> int list \<Rightarrow> rbcm \<Rightarrow> unit res" where
  "update_db_forces st forces e [] s = (Inr (), s)"
| "update_db_forces st forces e (atom # rest) s =
     try_get (py_get forces atom) s (\<lambda>forces_curr.
     try_get (append_at (training_data s) e (AtomicEnvironment st atom)) s (\<lambda>td.
     try_get (append_at (training_labels s) e forces_curr) (s\<lparr>training_data := td\<rparr>) (\<lambda>tl.
     try_get (incr_at (n_envs_prev s) e) (s\<lparr>training_data := td, training_labels := tl\<rparr>) (\<lambda>np.
       update_db_forces st forces e rest
         (s\<lparr>training_data := td, training_labels := tl, n_envs_prev := np\<rparr>)))))"

text \<open>Line 185: \<^verbatim>\<open>self.training_labels_np[expert_id] = np.hstack(self.training_labels[expert_id])\<close>.\<close>

definition refresh_labels_np :: "int \<Rightarrow> rbcm \<Rightarrow> unit res" where
  "refresh_labels_np e s =
     try_get (py_get (training_labels s) e) s (\<lambda>ls.
     try_get (hstack ls) s (\<lambda>flat.
     try_get (py_set (training_labels_np s) e flat) s (\<lambda>np.
       (Inr (), s\<lparr>training_labels_np := np\<rparr>))))"

text \<open>Lines 188--198: the energy label and the environments of the whole structure.\<close>

definition update_db_energy :: "struc \<Rightarrow> real \<Rightarrow> int \<Rightarrow> rbcm \<Rightarrow> unit res" where
  "update_db_energy st energy e s =
     (let structure_list = map (\<lambda>atom. AtomicEnvironment st (int atom)) [0..<length (positions st)] in
      try_get (append_at (energy_labels s) e energy) s (\<lambda>el.
      try_get (append_at (training_structures s) e structure_list) (s\<lparr>energy_labels := el\<rparr>) (\<lambda>ts.
      try_get (py_get el e) (s\<lparr>energy_labels := el, training_structures := ts\<rparr>) (\<lambda>els.
      try_get (py_set (energy_labels_np s) e els) (s\<lparr>energy_labels := el, training_structures := ts\<rparr>) (\<lambda>np.
        (Inr (), s\<lparr>energy_labels := el, training_structures := ts, energy_labels_np := np\<rparr>))))))"

text \<open>Lines 201--202 and 233--234: the concatenated label vector.\<close>

definition refresh_all_labels :: "int \<Rightarrow> rbcm \<Rightarrow> unit res" where
  "refresh_all_labels e s =
     try_get (py_get (training_labels_np s) e) s (\<lambda>f.
     try_get (py_get (energy_labels_np s) e) s (\<lambda>en.
     try_get (py_set (all_labels s) e (f @ en)) s (\<lambda>al.
       (Inr (), s\<lparr>all_labels := al\<rparr>))))"

text \<open>Lines 169--202 of \<^verbatim>\<open>update_db\<close>, once the expert is chosen.\<close>

definition update_db_at ::
  "struc \<Rightarrow> vec list option \<Rightarrow> int list \<Rightarrow> real option \<Rightarrow> int \<Rightarrow> rbcm \<Rightarrow> unit res" where
  "update_db_at st forces custom_range energy e s1 =
     (let noa = length (positions st);
          update_indices = (if custom_range = [] then map int [0..<noa] else custom_range)
      in
      then_do (case forces of None \<Rightarrow> (Inr (), s1)
               | Some fs \<Rightarrow> then_do (update_db_forces st fs e update_indices s1)
                              (\<lambda>u s. refresh_labels_np e s)) (\<lambda>u s2.
      then_do (case energy of None \<Rightarrow> (Inr (), s2)
               | Some en \<Rightarrow> update_db_energy st en e s2) (\<lambda>u s3.
        refresh_all_labels e s3)))"

definition update_db ::
  "struc \<Rightarrow> vec list option \<Rightarrow> int list \<Rightarrow> real option \<Rightarrow> int option \<Rightarrow> rbcm \<Rightarrow> unit res" where
  "update_db st forces custom_range energy expert_id s =
     then_do (route expert_id s) (\<lambda>e s1. update_db_at st forces custom_range energy e s1)"

section \<open>Writing the model\<close>

text \<open>
  The class body defines \<^verbatim>\<open>write_model\<close> twice; the second definition (line 636)
  replaces the first, so it is the method. Writing the pickle file itself is taken to
  succeed.
\<close>

definition supported_formats :: "string list" where
  "supported_formats = [''json'', ''pickle'', ''binary'']"

definition write_model :: "string \<Rightarrow> string \<Rightarrow> rbcm \<Rightarrow> unit res" where
  "write_model name format s =
     (let s1 = s\<lparr>logger := False\<rparr> in
      if lower format = ''json'' then (Inl (UnsupportedFormat supported_formats), s1)
      else if lower format = ''pickle'' \<or> lower format = ''binary''
        then (Inr (), s1\<lparr>logger := logger s\<rparr>)
      else (Inl (UnsupportedFormat supported_formats), s1))"

section \<open>Linear algebra on lists\<close>

text \<open>
  A one-dimensional array is a list, a two-dimensional array the list of its rows (all
  of one length, as in a numpy array). \<^verbatim>\<open>np.matmul\<close> raises \<^verbatim>\<open>ValueError\<close> when the
  shapes do not fit, and also when an operand is \<^verbatim>\<open>None\<close>.
\<close>

definition dot :: "vec \<Rightarrow> vec \<Rightarrow> real" where
  "dot xs ys = sum_list (map (\<lambda>(x, y). x * y) (zip xs ys))"

definition ncols :: "mat \<Rightarrow> nat" where
  "ncols m = (case m of [] \<Rightarrow> 0 | r # rs \<Rightarrow> length r)"

definition matmul_vv :: "vec \<Rightarrow> vec option \<Rightarrow> py_error + real" where
  "matmul_vv k a =
     (case a of None \<Rightarrow> Inl ValueError
      | Some av \<Rightarrow> if length k = length av then Inr (dot k av) else Inl ValueError)"

definition matmul_vm :: "vec \<Rightarrow> mat option \<Rightarrow> py_error + vec" where
  "matmul_vm k m =
     (case m of None \<Rightarrow> Inl ValueError
      | Some mv \<Rightarrow>
          if length k = length mv
          then Inr (map (\<lambda>j. sum_list (map (\<lambda>(x, row). x * row ! j) (zip k mv))) [0..<ncols mv])
          else Inl ValueError)"

definition matmul_mv :: "mat \<Rightarrow> vec \<Rightarrow> py_error + vec" where
  "matmul_mv m v =
     (if ncols m = length v then Inr (map (\<lambda>row. dot row v) m) else Inl ValueError)"

text \<open>\<^verbatim>\<open>l_mat_inv.T @ l_mat_inv\<close>: the shapes always fit.\<close>

definition gram :: "mat \<Rightarrow> mat" where
  "gram a = map (\<lambda>i. map (\<lambda>j. sum_list (map (\<lambda>row. row ! i * row ! j) a)) [0..<ncols a]) [0..<ncols a]"

section \<open>The functions the class calls\<close>

text \<open>
  The kernel functions, the builders of \<^verbatim>\<open>flare.gp_algebra\<close>, numpy's factorisation and
  scipy's optimiser are not part of the file; the model takes them as parameters. The
  builders read the training set of expert \<open>i\<close> from the global dictionaries: that entry
  is the argument \<open>reg_entry\<close>. \<open>linalg_cholesky\<close> and \<open>linalg_inv\<close> return \<open>None\<close>
  where numpy raises \<^verbatim>\<open>LinAlgError\<close>; \<open>minimize\<close> returns the exception it raises.
\<close>

record reg_entry =
  g_training_data :: "env list"
  g_training_labels :: vec
  g_training_structures :: "env list list"
  g_energy_labels :: vec

record opt_res =
  res_x :: vec
  res_fun :: real
  res_jac :: vec

datatype opt_method = L_BFGS_B "(real \<times> real option) list" | BFGS

record externals =
  get_kernel_vector :: "reg_entry \<Rightarrow> env \<Rightarrow> int \<Rightarrow> vec \<Rightarrow> vec"
  kernel :: "env \<Rightarrow> env \<Rightarrow> int \<Rightarrow> int \<Rightarrow> vec \<Rightarrow> real"
  get_Ky_mat :: "vec \<Rightarrow> reg_entry \<Rightarrow> mat"
  get_like_from_mats :: "mat option \<Rightarrow> mat option \<Rightarrow> vec option \<Rightarrow> reg_entry \<Rightarrow> real"
  get_neg_like_grad :: "vec \<Rightarrow> reg_entry \<Rightarrow> real \<times> vec"
  linalg_cholesky :: "mat \<Rightarrow> mat option"
  linalg_inv :: "mat \<Rightarrow> mat option"
  minimize :: "(vec \<Rightarrow> py_error + real \<times> vec) \<Rightarrow> vec \<Rightarrow> opt_method \<Rightarrow> py_error + opt_res"

section \<open>The global dictionaries\<close>

definition sync_one_data :: "int \<Rightarrow> rbcm \<Rightarrow> unit res" where
  "sync_one_data expert_id s =
     (if int (length (training_data s)) > expert_id then
        try_get (py_get (training_data s) expert_id) s (\<lambda>td.
        let s1 = s\<lparr>global_training_data := (global_training_data s)(expert_id := Some td)\<rparr> in
        try_get (py_get (training_labels_np s1) expert_id) s1 (\<lambda>tl.
        let s2 = s1\<lparr>global_training_labels := (global_training_labels s1)(expert_id := Some tl)\<rparr> in
        try_get (py_get (training_structures s2) expert_id) s2 (\<lambda>ts.
        let s3 = s2\<lparr>global_training_structures :=
                       (global_training_structures s2)(expert_id := Some ts)\<rparr> in
        try_get (py_get (energy_labels_np s3) expert_id) s3 (\<lambda>el.
          (Inr (), s3\<lparr>global_energy_labels := (global_energy_labels s3)(expert_id := Some el)\<rparr>)))))
      else (Inr (), s))"

fun sync_loop :: "nat list \<Rightarrow> rbcm \<Rightarrow> unit res" where
  "sync_loop [] s = (Inr (), s)"
| "sync_loop (i # rest) s = then_do (sync_one_data (int i) s) (\<lambda>u s1. sync_loop rest s1)"

definition sync_data :: "rbcm \<Rightarrow> unit res" where
  "sync_data s = sync_loop [0..<nat (n_experts s)] s"

text \<open>What a builder finds under the key of expert \<open>i\<close>; a missing key raises.\<close>

definition lookup_globals :: "int \<Rightarrow> rbcm \<Rightarrow> py_error + reg_entry" where
  "lookup_globals i s =
     (case global_training_data s i of None \<Rightarrow> Inl KeyError | Some gd \<Rightarrow>
      case global_training_labels s i of None \<Rightarrow> Inl KeyError | Some gl \<Rightarrow>
      case global_training_structures s i of None \<Rightarrow> Inl KeyError | Some gs \<Rightarrow>
      case global_energy_labels s i of None \<Rightarrow> Inl KeyError | Some ge \<Rightarrow>
        Inr \<lparr>g_training_data = gd, g_training_labels = gl,
             g_training_structures = gs, g_energy_labels = ge\<rparr>)"

section \<open>Factorisation\<close>

definition compute_one_matrices :: "externals \<Rightarrow> mat \<Rightarrow> int \<Rightarrow> rbcm \<Rightarrow> unit res" where
  "compute_one_matrices ext ky e s =
     (case linalg_cholesky ext ky of None \<Rightarrow> (Inl LinAlgError, s) | Some l \<Rightarrow>
      case linalg_inv ext l of None \<Rightarrow> (Inl LinAlgError, s) | Some l_inv \<Rightarrow>
      try_get (py_get (all_labels s) e) s (\<lambda>labels.
      try_get (matmul_mv (gram l_inv) labels) s (\<lambda>a.
      try_get (py_set (ky_mat s) e (Some ky)) s (\<lambda>km.
      let s1 = s\<lparr>ky_mat := km\<rparr> in
      try_get (py_set (l_mat s1) e (Some l)) s1 (\<lambda>lm.
      let s2 = s1\<lparr>l_mat := lm\<rparr> in
      try_get (py_set (alpha s2) e (Some a)) s2 (\<lambda>al.
      let s3 = s2\<lparr>alpha := al\<rparr> in
      try_get (py_set (ky_mat_inv s3) e (Some (gram l_inv))) s3 (\<lambda>ki.
      let s4 = s3\<lparr>ky_mat_inv := ki\<rparr> in
      try_get (py_get (training_data s4) e) s4 (\<lambda>td.
      try_get (py_set (n_envs_prev s4) e (int (length td))) s4 (\<lambda>np.
        (Inr (), s4\<lparr>n_envs_prev := np\<rparr>))))))))))"

text \<open>Lines 497--500 and 524--527: the likelihood of one expert.\<close>

definition set_likelihood :: "externals \<Rightarrow> int \<Rightarrow> rbcm \<Rightarrow> unit res" where
  "set_likelihood ext e s =
     try_get (py_get (ky_mat s) e) s (\<lambda>k.
     try_get (py_get (l_mat s) e) s (\<lambda>l.
     try_get (py_get (alpha s) e) s (\<lambda>a.
     try_get (lookup_globals e s) s (\<lambda>entry.
     try_get (py_set (likelihood s) e (Some (get_like_from_mats ext k l a entry))) s (\<lambda>lk.
       (Inr (), s\<lparr>likelihood := lk\<rparr>))))))"

definition set_L_alpha_part :: "externals \<Rightarrow> int \<Rightarrow> rbcm \<Rightarrow> unit res" where
  "set_L_alpha_part ext e s =
     then_do (sync_one_data e s) (\<lambda>u s1.
     try_get (lookup_globals e s1) s1 (\<lambda>entry.
       then_do (compute_one_matrices ext (get_Ky_mat ext (hyps s1) entry) e
                  (s1\<lparr>n_Ky_builds := n_Ky_builds s1 + 1\<rparr>))
         (\<lambda>u s2. set_likelihood ext e s2)))"

text \<open>
  \<^verbatim>\<open>update_L_alpha\<close>. In the guard, \<^verbatim>\<open>np.array(...) is np.array(None)\<close> compares two new
  objects and is false whatever the covariance matrix is. Past the guard the method
  calls \<^verbatim>\<open>self.sync_data(expert_id)\<close>, but \<^verbatim>\<open>sync_data\<close> takes no argument: the call
  raises \<^verbatim>\<open>TypeError\<close> before \<^verbatim>\<open>get_ky_mat_update\<close> is reached.
\<close>

definition update_L_alpha :: "externals \<Rightarrow> int \<Rightarrow> rbcm \<Rightarrow> unit res" where
  "update_L_alpha ext e s =
     try_get (py_get (l_mat s) e) s (\<lambda>l.
       case l of None \<Rightarrow> set_L_alpha_part ext e s
       | Some lv \<Rightarrow> try_get (py_get (ky_mat s) e) s (\<lambda>k. (Inl TypeError, s)))"

text \<open>\<^verbatim>\<open>self.alpha is None\<close>: the field is a list, and a list object is not \<^verbatim>\<open>None\<close>.\<close>

definition list_is_None :: "'a list \<Rightarrow> bool" where
  "list_is_None xs = False"

fun check_loop :: "externals \<Rightarrow> nat list \<Rightarrow> rbcm \<Rightarrow> unit res" where
  "check_loop ext [] s = (Inr (), s)"
| "check_loop ext (i # rest) s =
     try_get (py_get (training_data s) (int i)) s (\<lambda>td.
       let size3 = length td * 3 in
       if size3 = 0 then (Inr (), s)
       else if list_is_None (alpha s)
         then then_do (update_L_alpha ext (int i) s) (\<lambda>u s1. check_loop ext rest s1)
       else try_get (py_get (alpha s) (int i)) s (\<lambda>a.
         case a of None \<Rightarrow> (Inl AttributeError, s)
         | Some av \<Rightarrow>
             if size3 > length av
               then then_do (update_L_alpha ext (int i) s) (\<lambda>u s1. check_loop ext rest s1)
             else if size3 \<noteq> length av
               then then_do (set_L_alpha_part ext (int i) s) (\<lambda>u s1. check_loop ext rest s1)
             else check_loop ext rest s))"

definition check_L_alpha :: "externals \<Rightarrow> rbcm \<Rightarrow> unit res" where
  "check_L_alpha ext s =
     then_do (sync_data s) (\<lambda>u s1. check_loop ext [0..<nat (n_experts s1)] s1)"

fun set_L_alpha_loop :: "externals \<Rightarrow> nat list \<Rightarrow> rbcm \<Rightarrow> unit res" where
  "set_L_alpha_loop ext [] s = (Inr (), s)"
| "set_L_alpha_loop ext (i # rest) s =
     (if \<not> logger s then (Inl AttributeError, s)
      else try_get (lookup_globals (int i) s) s (\<lambda>entry.
        then_do (compute_one_matrices ext (get_Ky_mat ext (hyps s) entry) (int i)
                   (s\<lparr>n_Ky_builds := n_Ky_builds s + 1\<rparr>)) (\<lambda>u s1.
        then_do (set_likelihood ext (int i) s1) (\<lambda>u s2.
          set_L_alpha_loop ext rest s2))))"

text \<open>\<^verbatim>\<open>np.sum(self.likelihood)\<close> cannot add an entry that is still \<^verbatim>\<open>None\<close>.\<close>

definition set_L_alpha :: "externals \<Rightarrow> rbcm \<Rightarrow> unit res" where
  "set_L_alpha ext s =
     then_do (sync_data s) (\<lambda>u s1.
     then_do (set_L_alpha_loop ext [0..<nat (n_experts s1)] s1) (\<lambda>u s2.
       if list_all (\<lambda>l. l \<noteq> None) (likelihood s2)
       then (Inr (), s2\<lparr>total_likelihood := Some (sum_list (map the (likelihood s2)))\<rparr>)
       else (Inl TypeError, s2)))"

section \<open>Prediction\<close>

text \<open>Lines 378--385: one kernel vector per expert, read from the global dictionaries.\<close>

fun kernel_vectors :: "externals \<Rightarrow> env \<Rightarrow> int \<Rightarrow> nat list \<Rightarrow> rbcm \<Rightarrow> py_error + vec list" where
  "kernel_vectors ext x_t d [] s = Inr []"
| "kernel_vectors ext x_t d (i # rest) s =
     (case lookup_globals (int i) s of Inl e \<Rightarrow> Inl e
      | Inr entry \<Rightarrow>
          (case kernel_vectors ext x_t d rest s of Inl e \<Rightarrow> Inl e
           | Inr ks \<Rightarrow> Inr (get_kernel_vector ext entry x_t d (hyps s) # ks)))"

text \<open>
  Lines 395--408: the accumulators are \<open>(mean, var, beta)\<close>. Where numpy gives
  \<^verbatim>\<open>nan\<close> or \<^verbatim>\<open>inf\<close> with a warning (the logarithm of a variance that is not positive,
  a division by zero) it raises nothing, and neither does the model; the reals have
  no such values, so there the model's numbers mean nothing.
\<close>

fun predict_loop ::
  "externals \<Rightarrow> env \<Rightarrow> int \<Rightarrow> vec list \<Rightarrow> nat list \<Rightarrow> real \<times> real \<times> real \<Rightarrow> rbcm
     \<Rightarrow> py_error + real \<times> real \<times> real" where
  "predict_loop ext x_t d k_v [] acc s = Inr acc"
| "predict_loop ext x_t d k_v (i # rest) (mean, var, beta) s =
     (case py_get k_v (int i) of Inl e \<Rightarrow> Inl e | Inr k \<Rightarrow>
     (case py_get (alpha s) (int i) of Inl e \<Rightarrow> Inl e | Inr a \<Rightarrow>
     (case matmul_vv k a of Inl e \<Rightarrow> Inl e | Inr mean_k \<Rightarrow>
     (case py_get (ky_mat_inv s) (int i) of Inl e \<Rightarrow> Inl e | Inr ki \<Rightarrow>
     (case matmul_vm k ki of Inl e \<Rightarrow> Inl e | Inr kk \<Rightarrow>
     (case matmul_vv kk (Some k) of Inl e \<Rightarrow> Inl e | Inr q \<Rightarrow>
        (let self_kern = kernel ext x_t x_t d d (hyps s);
             var_k = self_kern - q;
             beta_k = 0.5 * (log_prior_var s - ln var_k)
         in predict_loop ext x_t d k_v rest
              (mean + beta_k / var_k * mean_k, var + beta_k / var_k, beta + beta_k) s)))))))"

definition predict :: "externals \<Rightarrow> env \<Rightarrow> int \<Rightarrow> rbcm \<Rightarrow> (real \<times> real) res" where
  "predict ext x_t d s =
     (if \<not> (d = 1 \<or> d = 2 \<or> d = 3) then (Inl AssertionError, s)
      else
        then_do (sync_data s) (\<lambda>u s1.
        try_get (kernel_vectors ext x_t d [0..<nat (n_experts s1)] s1) s1 (\<lambda>k_v.
        then_do (check_L_alpha ext s1) (\<lambda>u s2.
        try_get (predict_loop ext x_t d k_v [0..<nat (n_experts s2)] (0, 0, 0) s2) s2 (\<lambda>acc.
          (let mean = fst acc; var = fst (snd acc); beta = snd (snd acc);
               var1 = var + (1 - beta) / prior_variance s2;
               pred_var = 1 / var1;
               pred_mean = pred_var * mean
           in (Inr (pred_mean, pred_var), s2)))))))"

section \<open>Training\<close>

text \<open>
  \<^verbatim>\<open>rbcm_get_neg_like_grad\<close>: the sum over the experts of the likelihood and of its
  gradient. With no expert, \<^verbatim>\<open>list(like_grad)\<close> is applied to \<^verbatim>\<open>None\<close>.
\<close>

fun neg_like_grad_loop ::
  "externals \<Rightarrow> vec \<Rightarrow> nat list \<Rightarrow> real \<times> vec option \<Rightarrow> rbcm \<Rightarrow> py_error + real \<times> vec option" where
  "neg_like_grad_loop ext hs [] acc s = Inr acc"
| "neg_like_grad_loop ext hs (i # rest) (like, like_grad) s =
     (case lookup_globals (int i) s of Inl e \<Rightarrow> Inl e
      | Inr entry \<Rightarrow>
          (let r = get_neg_like_grad ext hs entry in
           case like_grad of
             None \<Rightarrow> neg_like_grad_loop ext hs rest (like + fst r, Some (snd r)) s
           | Some g \<Rightarrow>
               if length g = length (snd r)
               then neg_like_grad_loop ext hs rest
                      (like + fst r, Some (map (\<lambda>(x, y). x + y) (zip g (snd r)))) s
               else Inl ValueError))"

definition rbcm_get_neg_like_grad :: "externals \<Rightarrow> vec \<Rightarrow> int \<Rightarrow> rbcm \<Rightarrow> py_error + real \<times> vec" where
  "rbcm_get_neg_like_grad ext hs n s =
     (case neg_like_grad_loop ext hs [0..<nat n] (0, None) s of Inl e \<Rightarrow> Inl e
      | Inr acc \<Rightarrow> (case snd acc of None \<Rightarrow> Inl TypeError | Some g \<Rightarrow> Inr (fst acc, g)))"

text \<open>Lines 293--294: the default bounds; \<^verbatim>\<open>bounds[-1, 0]\<close> needs a last row.\<close>

definition default_bounds :: "vec \<Rightarrow> py_error + (real \<times> real option) list" where
  "default_bounds x_0 =
     (if x_0 = [] then Inl IndexError
      else Inr ((replicate (length x_0) (1 / 10 ^ 6, None))[length x_0 - 1 := (1 / 10 ^ 3, None)]))"

text \<open>
  \<^verbatim>\<open>train\<close> with the default \<^verbatim>\<open>logger=None\<close>. The guard of lines 271--274 comes first,
  then the optimiser is tried as lines 289--321 say, and \<^verbatim>\<open>set_L_alpha\<close> refactors
  every expert at the hyperparameters found.
\<close>

definition train ::
  "externals \<Rightarrow> (real \<times> real option) list option \<Rightarrow> rbcm \<Rightarrow> opt_res res" where
  "train ext custom_bounds s =
     (if length (training_data s) = 0 \<or> length (training_labels s) = 0 then (Inl Warning, s)
      else
        then_do (sync_data s) (\<lambda>u s1.
        let x_0 = hyps s1;
            func = (\<lambda>h. rbcm_get_neg_like_grad ext h (n_experts s1) s1)
        in
        then_do
          (if opt_algorithm s1 = ''L-BFGS-B'' then
             try_get (case bounds s1 of None \<Rightarrow> default_bounds x_0 | Some b \<Rightarrow> Inr b) s1 (\<lambda>b.
               case minimize ext func x_0 (L_BFGS_B b) of
                 Inl e \<Rightarrow>
                   if e = LinAlgError
                   then (if logger s1 then (Inr None, s1\<lparr>opt_algorithm := ''BFGS''\<rparr>)
                         else (Inl AttributeError, s1))
                   else (Inl e, s1)
               | Inr r \<Rightarrow> (Inr (Some r), s1))
           else (Inr None, s1)) (\<lambda>res1 s2.
        then_do
          (case custom_bounds of
             Some cb \<Rightarrow>
               (case minimize ext func x_0 (L_BFGS_B cb) of Inl e \<Rightarrow> (Inl e, s2)
                | Inr r \<Rightarrow> (Inr (Some r), s2))
           | None \<Rightarrow>
               if opt_algorithm s2 = ''BFGS''
               then (case minimize ext func x_0 BFGS of Inl e \<Rightarrow> (Inl e, s2)
                     | Inr r \<Rightarrow> (Inr (Some r), s2))
               else (Inr res1, s2)) (\<lambda>res s3.
          case res of
            None \<Rightarrow> (Inl RuntimeError, s3)
          | Some r \<Rightarrow>
              then_do (set_L_alpha ext (s3\<lparr>hyps := res_x r\<rparr>)) (\<lambda>u s4.
                (Inr r, s4\<lparr>total_likelihood := Some (- res_fun r),
                           total_likelihood_gradient := Some (map uminus (res_jac r))\<rparr>))))))"

text \<open>
  \<^verbatim>\<open>add_one_env\<close>, lines 225--237 first; the keyword arguments passed on to \<^verbatim>\<open>train\<close>
  are the custom bounds.
\<close>

definition add_one_env_at ::
  "externals \<Rightarrow> env \<Rightarrow> vec \<Rightarrow> bool \<Rightarrow> (real \<times> real option) list option \<Rightarrow> int
     \<Rightarrow> rbcm \<Rightarrow> unit res" where
  "add_one_env_at ext env_new force do_train custom_bounds e s1 =
     (if \<not> logger s1 then (Inl AttributeError, s1)
      else
        try_get (append_at (training_data s1) e env_new) s1 (\<lambda>td.
        let s2 = s1\<lparr>training_data := td\<rparr> in
        try_get (append_at (training_labels s2) e force) s2 (\<lambda>tlab.
        let s3 = s2\<lparr>training_labels := tlab\<rparr> in
        then_do (refresh_labels_np e s3) (\<lambda>u s4.
        try_get (incr_at (n_envs_prev s4) e) s4 (\<lambda>np.
        then_do (refresh_all_labels e (s4\<lparr>n_envs_prev := np\<rparr>)) (\<lambda>u s5.
          if do_train then then_do (train ext custom_bounds s5) (\<lambda>r s6. (Inr (), s6))
          else (Inr (), s5)))))))"

definition add_one_env ::
  "externals \<Rightarrow> env \<Rightarrow> vec \<Rightarrow> bool \<Rightarrow> int option \<Rightarrow> (real \<times> real option) list option
     \<Rightarrow> rbcm \<Rightarrow> unit res" where
  "add_one_env ext env_new force do_train expert_id custom_bounds s =
     then_do (route expert_id s)
       (\<lambda>e s1. add_one_env_at ext env_new force do_train custom_bounds e s1)"

section \<open>A sample instance of the functions the class calls\<close>

text \<open>
  Environments that do not interact: the kernel of an environment with itself is 1, with
  any training entry 0, so each covariance matrix is the identity matrix of the size of
  the expert's label set (three force components per environment and one energy per
  structure). The factor and the inverse of an identity matrix are the matrix itself.
  The optimiser returns its starting point.
\<close>

definition identity_mat :: "nat \<Rightarrow> mat" where
  "identity_mat n = map (\<lambda>i. map (\<lambda>j. if i = j then 1 else 0) [0..<n]) [0..<n]"

definition n_labels :: "reg_entry \<Rightarrow> nat" where
  "n_labels entry = 3 * length (g_training_data entry) + length (g_training_structures entry)"

definition unit_minimize ::
  "(vec \<Rightarrow> py_error + real \<times> vec) \<Rightarrow> vec \<Rightarrow> opt_method \<Rightarrow> py_error + opt_res" where
  "unit_minimize f x_0 m =
     (case f x_0 of Inl e \<Rightarrow> Inl e
      | Inr r \<Rightarrow> Inr \<lparr>res_x = x_0, res_fun = fst r, res_jac = snd r\<rparr>)"

definition unit_ext :: externals where
  "unit_ext =
     \<lparr> get_kernel_vector = (\<lambda>entry x d h. replicate (n_labels entry) 0),
       kernel = (\<lambda>x y d1 d2 h. 1),
       get_Ky_mat = (\<lambda>h entry. identity_mat (n_labels entry)),
       get_like_from_mats = (\<lambda>k l a entry. 0),
       get_neg_like_grad = (\<lambda>h entry. (0, map (\<lambda>x. 0) h)),
       linalg_cholesky = (\<lambda>m. Some m),
       linalg_inv = (\<lambda>m. Some m),
       minimize = unit_minimize \<rparr>"

text \<open>One atom at the origin, and the force on it.\<close>

definition one_atom :: struc where
  "one_atom = Structure [[0, 0, 0]]"

definition one_force :: "vec list" where
  "one_force = [[1, 2, 3]]"

section \<open>Sample states\<close>

text \<open>
  A model with one expert of capacity 1, prior variance 2 and one hyperparameter, and the
  same with two experts; the one-expert model after \<^verbatim>\<open>update_db(struc, forces)\<close>; and the
  one-expert model after \<^verbatim>\<open>update_db(struc, forces, energy=5)\<close> and \<^verbatim>\<open>set_L_alpha()\<close>.
\<close>

definition fresh :: rbcm where
  "fresh = rbcm_init 1 1 2 [1]"

definition fresh2 :: rbcm where
  "fresh2 = rbcm_init 2 1 2 [1]"

definition with_forces :: rbcm where
  "with_forces = snd (update_db one_atom (Some one_force) [] None None fresh)"

definition with_energy :: rbcm where
  "with_energy =
     snd (set_L_alpha unit_ext (snd (update_db one_atom (Some one_force) [] (Some 5) None fresh)))"

section \<open>Frames, runs and well-formed states\<close>

text \<open>
  \<open>same_stores\<close>: the routing fields and the training stores of two states agree. Every
  method that only refreshes factorisations, predicts, trains or writes keeps them.
\<close>

definition same_stores :: "rbcm \<Rightarrow> rbcm \<Rightarrow> bool" where
  "same_stores s s' \<longleftrightarrow>
     n_experts s' = n_experts s \<and> current_expert s' = current_expert s \<and>
     ndata_per_expert s' = ndata_per_expert s \<and>
     training_data s' = training_data s \<and> training_labels s' = training_labels s \<and>
     training_labels_np s' = training_labels_np s \<and>
     training_structures s' = training_structures s \<and>
     energy_labels s' = energy_labels s \<and> energy_labels_np s' = energy_labels_np s \<and>
     all_labels s' = all_labels s"

text \<open>
  The calls a client can make, the state each leaves behind (whether it returned or
  raised, since a client may catch the exception and go on), and the expert id the
  router returned during the call, if the call asked the router and got an answer.
\<close>

datatype op =
    Op_find_expert_to_add
  | Op_add_container
  | Op_update_db struc "vec list option" "int list" "real option" "int option"
  | Op_add_one_env env vec bool "int option" "(real \<times> real option) list option"
  | Op_train "(real \<times> real option) list option"
  | Op_check_L_alpha
  | Op_predict env int
  | Op_set_L_alpha
  | Op_set_L_alpha_part int
  | Op_update_L_alpha int
  | Op_compute_one_matrices mat int
  | Op_sync_data
  | Op_sync_one_data int
  | Op_write_model string string

fun apply_op :: "externals \<Rightarrow> op \<Rightarrow> rbcm \<Rightarrow> rbcm" where
  "apply_op ext Op_find_expert_to_add s = snd (find_expert_to_add s)"
| "apply_op ext Op_add_container s = add_container s"
| "apply_op ext (Op_update_db st forces custom_range energy expert_id) s =
     snd (update_db st forces custom_range energy expert_id s)"
| "apply_op ext (Op_add_one_env env_new force do_train expert_id custom_bounds) s =
     snd (add_one_env ext env_new force do_train expert_id custom_bounds s)"
| "apply_op ext (Op_train custom_bounds) s = snd (train ext custom_bounds s)"
| "apply_op ext Op_check_L_alpha s = snd (check_L_alpha ext s)"
| "apply_op ext (Op_predict x_t d) s = snd (predict ext x_t d s)"
| "apply_op ext Op_set_L_alpha s = snd (set_L_alpha ext s)"
| "apply_op ext (Op_set_L_alpha_part e) s = snd (set_L_alpha_part ext e s)"
| "apply_op ext (Op_update_L_alpha e) s = snd (update_L_alpha ext e s)"
| "apply_op ext (Op_compute_one_matrices ky e) s = snd (compute_one_matrices ext ky e s)"
| "apply_op ext Op_sync_data s = snd (sync_data s)"
| "apply_op ext (Op_sync_one_data e) s = snd (sync_one_data e s)"
| "apply_op ext (Op_write_model name format) s = snd (write_model name format s)"

definition router_answer :: "rbcm \<Rightarrow> int list" where
  "router_answer s = (case fst (find_expert_to_add s) of Inl e \<Rightarrow> [] | Inr i \<Rightarrow> [i])"

fun routed :: "op \<Rightarrow> rbcm \<Rightarrow> int list" where
  "routed Op_find_expert_to_add s = router_answer s"
| "routed (Op_update_db st forces custom_range energy None) s = router_answer s"
| "routed (Op_add_one_env env_new force do_train None custom_bounds) s = router_answer s"
| "routed c s = []"

fun run :: "externals \<Rightarrow> op list \<Rightarrow> rbcm \<Rightarrow> int list \<times> rbcm" where
  "run ext [] s = ([], s)"
| "run ext (c # cs) s =
     (let r = run ext cs (apply_op ext c s) in (routed c s @ fst r, snd r))"

text \<open>
  \<open>same_factors\<close>: the routing fields and the factorisation fields agree; the methods
  that append training data keep them. \<open>same_routing\<close>: the number of experts and the
  current expert agree.
\<close>

definition same_factors :: "rbcm \<Rightarrow> rbcm \<Rightarrow> bool" where
  "same_factors s s' \<longleftrightarrow>
     n_experts s' = n_experts s \<and> current_expert s' = current_expert s \<and>
     ndata_per_expert s' = ndata_per_expert s \<and> logger s' = logger s \<and>
     ky_mat s' = ky_mat s \<and> force_block s' = force_block s \<and>
     energy_block s' = energy_block s \<and> force_energy_block s' = force_energy_block s \<and>
     l_mat s' = l_mat s \<and> alpha s' = alpha s \<and> ky_mat_inv s' = ky_mat_inv s \<and>
     likelihood s' = likelihood s"

definition same_routing :: "rbcm \<Rightarrow> rbcm \<Rightarrow> bool" where
  "same_routing s s' \<longleftrightarrow> n_experts s' = n_experts s \<and> current_expert s' = current_expert s"

text \<open>
  The per-expert lists all have \<open>n\<close> entries; a well-formed model has as many entries as
  \<^verbatim>\<open>n_experts\<close> says. \<open>cached\<close>: the numpy copies of the label lists are up to date.
\<close>

definition lens :: "rbcm \<Rightarrow> nat \<Rightarrow> bool" where
  "lens s n \<longleftrightarrow>
     length (training_data s) = n \<and> length (training_labels s) = n \<and>
     length (training_labels_np s) = n \<and> length (n_envs_prev s) = n \<and>
     length (training_structures s) = n \<and> length (energy_labels s) = n \<and>
     length (energy_labels_np s) = n \<and> length (all_labels s) = n \<and>
     length (ky_mat s) = n \<and> length (force_block s) = n \<and> length (energy_block s) = n \<and>
     length (force_energy_block s) = n \<and> length (l_mat s) = n \<and> length (alpha s) = n \<and>
     length (ky_mat_inv s) = n \<and> length (likelihood s) = n"

definition well_formed :: "rbcm \<Rightarrow> bool" where
  "well_formed s \<longleftrightarrow> 0 \<le> n_experts s \<and> lens s (nat (n_experts s))"

definition cached :: "rbcm \<Rightarrow> bool" where
  "cached s \<longleftrightarrow>
     training_labels_np s = map concat (training_labels s) \<and>
     energy_labels_np s = energy_labels s"

text \<open>
  The numpy copies of expert \<open>k\<close> that a call relies on: \<^verbatim>\<open>training_labels_np[k]\<close> unless
  the call passes forces (then lines 185 and 229 rewrite it), \<^verbatim>\<open>energy_labels_np[k]\<close>
  unless the call passes an energy (then line 198 rewrites it).
\<close>

definition labels_current :: "rbcm \<Rightarrow> nat \<Rightarrow> bool \<Rightarrow> bool \<Rightarrow> bool" where
  "labels_current s k forces_given energy_given \<longleftrightarrow>
     (forces_given \<or> training_labels_np s ! k = concat (training_labels s ! k)) \<and>
     (energy_given \<or> energy_labels_np s ! k = energy_labels s ! k)"

text \<open>\<open>consistent\<close>: every per-expert list has \<open>n\<close> entries and the copies are up to date.\<close>

definition consistent :: "rbcm \<Rightarrow> nat \<Rightarrow> bool" where
  "consistent s n \<longleftrightarrow> lens s n \<and> cached s"

text \<open>
  The container an update writes to: the expert id (the chosen one, or the router's
  answer) as Python indexes the lists once the container, if any, is created.
\<close>

definition target :: "int option \<Rightarrow> rbcm \<Rightarrow> nat option" where
  "target expert_id s =
     (case fst (route expert_id s) of Inl e \<Rightarrow> None
      | Inr e \<Rightarrow> py_norm (length (training_data (snd (route expert_id s)))) e)"

text \<open>The training stores of expert \<open>j\<close>, and the stores and factors of a new container.\<close>

definition stores_at ::
  "rbcm \<Rightarrow> nat \<Rightarrow> env list \<times> vec list \<times> vec \<times> env list list \<times> real list \<times> vec \<times> vec" where
  "stores_at s j =
     (training_data s ! j, training_labels s ! j, training_labels_np s ! j,
      training_structures s ! j, energy_labels s ! j, energy_labels_np s ! j, all_labels s ! j)"

definition empty_stores ::
  "env list \<times> vec list \<times> vec \<times> env list list \<times> real list \<times> vec \<times> vec" where
  "empty_stores = ([], [], [], [], [], [], [])"

definition no_factors_at :: "rbcm \<Rightarrow> nat \<Rightarrow> bool" where
  "no_factors_at s k \<longleftrightarrow>
     ky_mat s ! k = None \<and> force_block s ! k = None \<and> energy_block s ! k = None \<and>
     force_energy_block s ! k = None \<and> l_mat s ! k = None \<and> alpha s ! k = None \<and>
     ky_mat_inv s ! k = None \<and> likelihood s ! k = None"

text \<open>
  What the steps of a completed update write at container \<open>k\<close>: the force loop, the
  flattened force labels, the energy label with its structure, and the concatenated
  label vector; then \<^verbatim>\<open>update_db\<close> and \<^verbatim>\<open>add_one_env\<close> as a whole.
\<close>

definition forces_done :: "struc \<Rightarrow> vec list \<Rightarrow> int list \<Rightarrow> nat \<Rightarrow> rbcm \<Rightarrow> rbcm" where
  "forces_done st fs atoms k s =
     s\<lparr>training_data := (training_data s)[k := training_data s ! k @ map (AtomicEnvironment st) atoms],
       training_labels :=
         (training_labels s)[k := training_labels s ! k @ map (\<lambda>a. projr (py_get fs a)) atoms],
       n_envs_prev := (n_envs_prev s)[k := n_envs_prev s ! k + int (length atoms)]\<rparr>"

definition labels_np_done :: "nat \<Rightarrow> rbcm \<Rightarrow> rbcm" where
  "labels_np_done k s = s\<lparr>training_labels_np := (training_labels_np s)[k := concat (training_labels s ! k)]\<rparr>"

definition energy_done :: "struc \<Rightarrow> real \<Rightarrow> nat \<Rightarrow> rbcm \<Rightarrow> rbcm" where
  "energy_done st en k s =
     s\<lparr>energy_labels := (energy_labels s)[k := energy_labels s ! k @ [en]],
       training_structures :=
         (training_structures s)[k := training_structures s ! k @
            [map (\<lambda>atom. AtomicEnvironment st (int atom)) [0..<length (positions st)]]],
       energy_labels_np := (energy_labels_np s)[k := energy_labels s ! k @ [en]]\<rparr>"

definition all_labels_done :: "nat \<Rightarrow> rbcm \<Rightarrow> rbcm" where
  "all_labels_done k s =
     s\<lparr>all_labels := (all_labels s)[k := training_labels_np s ! k @ energy_labels_np s ! k]\<rparr>"

definition update_indices_of :: "struc \<Rightarrow> int list \<Rightarrow> int list" where
  "update_indices_of st custom_range =
     (if custom_range = [] then map int [0..<length (positions st)] else custom_range)"

text \<open>
  The calls of a client among which no \<^verbatim>\<open>update_db\<close> can raise inside its loop over
  the atoms: the forces passed have an entry for every atom the loop visits. Calling
  \<^verbatim>\<open>add_container\<close> alone, without the increment of \<^verbatim>\<open>n_experts\<close> that its callers
  do, is not among them.
\<close>

fun well_called :: "op \<Rightarrow> bool" where
  "well_called Op_add_container = False"
| "well_called (Op_update_db st (Some fs) custom_range energy expert_id) =
     list_all (\<lambda>atom. py_norm (length fs) atom \<noteq> None) (update_indices_of st custom_range)"
| "well_called c = True"

definition update_db_done ::
  "struc \<Rightarrow> vec list option \<Rightarrow> int list \<Rightarrow> real option \<Rightarrow> nat \<Rightarrow> rbcm \<Rightarrow> rbcm" where
  "update_db_done st forces custom_range energy k s =
     all_labels_done k
       ((case energy of None \<Rightarrow> (\<lambda>s. s) | Some en \<Rightarrow> energy_done st en k)
          ((case forces of None \<Rightarrow> (\<lambda>s. s)
            | Some fs \<Rightarrow> (\<lambda>s. labels_np_done k
                (forces_done st fs (update_indices_of st custom_range) k s))) s))"

definition add_one_env_done :: "env \<Rightarrow> vec \<Rightarrow> nat \<Rightarrow> rbcm \<Rightarrow> rbcm" where
  "add_one_env_done env_new force k s =
     all_labels_done k
       ((labels_np_done k
          (s\<lparr>training_data := (training_data s)[k := training_data s ! k @ [env_new]],
             training_labels := (training_labels s)[k := training_labels s ! k @ [force]]\<rparr>))
        \<lparr>n_envs_prev := (n_envs_prev s)[k := n_envs_prev s ! k + 1]\<rparr>)"

text \<open>Further sample states: two appends to the one expert of capacity 1.\<close>

definition full_expert :: rbcm where
  "full_expert = snd (update_db one_atom (Some one_force) [] None None with_forces)"

text \<open>
  A structure of two atoms, and the one-expert model after
  \<^verbatim>\<open>update_db(struc, forces)\<close> with that structure and the forces of one atom only: the
  call raises \<^verbatim>\<open>IndexError\<close> at \<^verbatim>\<open>forces[1]\<close>, the first atom already appended.
\<close>

definition two_atoms :: struc where
  "two_atoms = Structure [[0, 0, 0], [1, 0, 0]]"

definition half_added :: rbcm where
  "half_added = snd (update_db two_atoms (Some one_force) [] None None fresh)"

section \<open>The robust combination, as the specification words it\<close>

text \<open>
  For expert \<open>i\<close>: the kernel vector \<open>k\<^sub>i\<close> between the query and the expert's training
  entries (the entries are what \<^verbatim>\<open>sync_data\<close> publishes), the mean \<open>k\<^sub>i \<cdot> alpha\<^sub>i\<close>, the
  variance \<open>kernel(query, query) - k\<^sub>i\<^sup>T K\<^sub>i\<^sup>-\<^sup>1 k\<^sub>i\<close> and the weight
  \<open>beta\<^sub>i = 0.5 (log prior_variance - log var\<^sub>i)\<close>; then the variance and the mean of the
  committee.
\<close>

definition entry_of :: "rbcm \<Rightarrow> nat \<Rightarrow> reg_entry" where
  "entry_of s i =
     \<lparr>g_training_data = training_data s ! i, g_training_labels = training_labels_np s ! i,
      g_training_structures = training_structures s ! i, g_energy_labels = energy_labels_np s ! i\<rparr>"

definition kernel_vector_of :: "externals \<Rightarrow> env \<Rightarrow> int \<Rightarrow> rbcm \<Rightarrow> nat \<Rightarrow> vec" where
  "kernel_vector_of ext x_t d s i = get_kernel_vector ext (entry_of s i) x_t d (hyps s)"

definition quad_form :: "vec \<Rightarrow> mat \<Rightarrow> real" where
  "quad_form k m = (\<Sum>a<length k. \<Sum>b<length k. k ! a * (m ! a ! b) * k ! b)"

definition expert_mean :: "externals \<Rightarrow> env \<Rightarrow> int \<Rightarrow> rbcm \<Rightarrow> nat \<Rightarrow> real" where
  "expert_mean ext x_t d s i = dot (kernel_vector_of ext x_t d s i) (the (alpha s ! i))"

definition expert_var :: "externals \<Rightarrow> env \<Rightarrow> int \<Rightarrow> rbcm \<Rightarrow> nat \<Rightarrow> real" where
  "expert_var ext x_t d s i =
     kernel ext x_t x_t d d (hyps s)
       - quad_form (kernel_vector_of ext x_t d s i) (the (ky_mat_inv s ! i))"

definition expert_beta :: "externals \<Rightarrow> env \<Rightarrow> int \<Rightarrow> rbcm \<Rightarrow> nat \<Rightarrow> real" where
  "expert_beta ext x_t d s i = 0.5 * (ln (prior_variance s) - ln (expert_var ext x_t d s i))"

definition rbcm_variance :: "externals \<Rightarrow> env \<Rightarrow> int \<Rightarrow> rbcm \<Rightarrow> real" where
  "rbcm_variance ext x_t d s =
     1 / ((\<Sum>i<nat (n_experts s). expert_beta ext x_t d s i / expert_var ext x_t d s i)
          + (1 - (\<Sum>i<nat (n_experts s). expert_beta ext x_t d s i)) / prior_variance s)"

definition rbcm_mean :: "externals \<Rightarrow> env \<Rightarrow> int \<Rightarrow> rbcm \<Rightarrow> real" where
  "rbcm_mean ext x_t d s =
     rbcm_variance ext x_t d s *
       (\<Sum>i<nat (n_experts s).
          expert_beta ext x_t d s i / expert_var ext x_t d s i * expert_mean ext x_t d s i)"

text \<open>
  Expert \<open>i\<close> has nothing to refresh: \<^verbatim>\<open>alpha\<close> and the inverse are there, \<^verbatim>\<open>alpha\<close> has
  three entries per environment, and the shapes fit the kernel vector.
\<close>

definition current :: "externals \<Rightarrow> env \<Rightarrow> int \<Rightarrow> rbcm \<Rightarrow> nat \<Rightarrow> bool" where
  "current ext x_t d s i \<longleftrightarrow>
     (case alpha s ! i of None \<Rightarrow> False
      | Some a \<Rightarrow>
          (case ky_mat_inv s ! i of None \<Rightarrow> False
           | Some m \<Rightarrow>
               length a = 3 * length (training_data s ! i) \<and>
               length (kernel_vector_of ext x_t d s i) = length a \<and>
               length m = length a \<and> ncols m = length a))"

definition all_current :: "externals \<Rightarrow> env \<Rightarrow> int \<Rightarrow> rbcm \<Rightarrow> bool" where
  "all_current ext x_t d s \<longleftrightarrow> list_all (current ext x_t d s) [0..<nat (n_experts s)]"

text \<open>
  Expert \<open>i\<close> can take part in the aggregation (lines 395--408): \<^verbatim>\<open>alpha\<close> and the
  inverse are there and their shapes fit the kernel vector, whatever the number of
  environments is.
\<close>

definition fits :: "externals \<Rightarrow> env \<Rightarrow> int \<Rightarrow> rbcm \<Rightarrow> nat \<Rightarrow> bool" where
  "fits ext x_t d s i \<longleftrightarrow>
     (case alpha s ! i of None \<Rightarrow> False
      | Some a \<Rightarrow>
          (case ky_mat_inv s ! i of None \<Rightarrow> False
           | Some m \<Rightarrow>
               length (kernel_vector_of ext x_t d s i) = length a \<and>
               length m = length a \<and> ncols m = length a))"

definition all_fit :: "externals \<Rightarrow> env \<Rightarrow> int \<Rightarrow> rbcm \<Rightarrow> bool" where
  "all_fit ext x_t d s \<longleftrightarrow> list_all (fits ext x_t d s) [0..<nat (n_experts s)]"

text \<open>
  \<open>same_params\<close>: the hyperparameters agree; the methods that refresh factorisations
  keep them. \<open>same_prior\<close>: the prior variance and its logarithm agree; every method
  keeps them.
\<close>

definition same_params :: "rbcm \<Rightarrow> rbcm \<Rightarrow> bool" where
  "same_params s s' \<longleftrightarrow> hyps s' = hyps s"

definition same_prior :: "rbcm \<Rightarrow> rbcm \<Rightarrow> bool" where
  "same_prior s s' \<longleftrightarrow>
     prior_variance s' = prior_variance s \<and> log_prior_var s' = log_prior_var s"

text \<open>\<open>same_but_globals\<close>: two states agree on every field of the object.\<close>

definition same_but_globals :: "rbcm \<Rightarrow> rbcm \<Rightarrow> bool" where
  "same_but_globals s s' \<longleftrightarrow>
     n_experts s' = n_experts s \<and>
     prior_variance s' = prior_variance s \<and>
     log_prior_var s' = log_prior_var s \<and>
     ndata_per_expert s' = ndata_per_expert s \<and>
     current_expert s' = current_expert s \<and>
     hyps s' = hyps s \<and>
     opt_algorithm s' = opt_algorithm s \<and>
     bounds s' = bounds s \<and>
     logger s' = logger s \<and>
     training_data s' = training_data s \<and>
     training_labels s' = training_labels s \<and>
     training_labels_np s' = training_labels_np s \<and>
     n_envs_prev s' = n_envs_prev s \<and>
     training_structures s' = training_structures s \<and>
     energy_labels s' = energy_labels s \<and>
     energy_labels_np s' = energy_labels_np s \<and>
     all_labels s' = all_labels s \<and>
     ky_mat s' = ky_mat s \<and>
     force_block s' = force_block s \<and>
     energy_block s' = energy_block s \<and>
     force_energy_block s' = force_energy_block s \<and>
     l_mat s' = l_mat s \<and>
     alpha s' = alpha s \<and>
     ky_mat_inv s' = ky_mat_inv s \<and>
     likelihood s' = likelihood s \<and>
     total_likelihood s' = total_likelihood s \<and>
     total_likelihood_gradient s' = total_likelihood_gradient s \<and>
     n_Ky_builds s' = n_Ky_builds s"

text \<open>
  The one-expert model after \<^verbatim>\<open>update_db\<close> and \<^verbatim>\<open>set_L_alpha\<close>; and the two-expert
  model after \<^verbatim>\<open>update_db(struc, forces)\<close>, which the router sends to expert 0, and
  \<^verbatim>\<open>set_L_alpha_part(0)\<close>: expert 1 is empty and was never factored.
\<close>

definition factored :: rbcm where
  "factored = snd (set_L_alpha unit_ext with_forces)"

definition one_of_two :: rbcm where
  "one_of_two =
     snd (set_L_alpha_part unit_ext 0
            (snd (update_db one_atom (Some one_force) [] None None fresh2)))"

text \<open>
  \<open>same_shape\<close>: the number of experts and the length of every per-expert list agree.
  Every method keeps them, returning or raising, except the two that add a container.
\<close>

definition same_shape :: "rbcm \<Rightarrow> rbcm \<Rightarrow> bool" where
  "same_shape s s' \<longleftrightarrow>
     n_experts s' = n_experts s \<and>
     length (training_data s') = length (training_data s) \<and>
     length (training_labels s') = length (training_labels s) \<and>
     length (training_labels_np s') = length (training_labels_np s) \<and>
     length (n_envs_prev s') = length (n_envs_prev s) \<and>
     length (training_structures s') = length (training_structures s) \<and>
     length (energy_labels s') = length (energy_labels s) \<and>
     length (energy_labels_np s') = length (energy_labels_np s) \<and>
     length (all_labels s') = length (all_labels s) \<and>
     length (ky_mat s') = length (ky_mat s) \<and>
     length (force_block s') = length (force_block s) \<and>
     length (energy_block s') = length (energy_block s) \<and>
     length (force_energy_block s') = length (force_energy_block s) \<and>
     length (l_mat s') = length (l_mat s) \<and>
     length (alpha s') = length (alpha s) \<and>
     length (ky_mat_inv s') = length (ky_mat_inv s) \<and>
     length (likelihood s') = length (likelihood s)"

section \<open>Evaluation and sequencing lemmas\<close>

lemma then_do_Inl: "then_do (Inl e, s) f = (Inl e, s)"
  by (simp add: then_do_def)

lemma then_do_Inr: "then_do (Inr a, s) f = f a s"
  by (simp add: then_do_def)

lemma try_get_Inl: "try_get (Inl e) s f = (Inl e, s)"
  by (simp add: try_get_def)

lemma try_get_Inr: "try_get (Inr a) s f = f a"
  by (simp add: try_get_def)

lemma then_do_weak_cong: "r = r' \<Longrightarrow> then_do r f = then_do r' f"
  by simp

lemma try_get_weak_cong: "r = r' \<Longrightarrow> s = s' \<Longrightarrow> try_get r s f = try_get r' s' f"
  by simp

lemmas seq_simps = then_do_Inl then_do_Inr try_get_Inl try_get_Inr

lemmas seq_congs = then_do_weak_cong try_get_weak_cong option.case_cong_weak sum.case_cong_weak
  let_weak_cong

lemmas py_defs = py_get_def py_set_def append_at_def incr_at_def hstack_def

lemmas eval_defs = py_defs seq_simps py_norm_def rbcm_init_def add_container_def update_db_def
  update_db_at_def add_expert_def add_one_env_def add_one_env_at_def route_def find_expert_to_add_def one_atom_def one_force_def refresh_labels_np_def
  refresh_all_labels_def update_db_energy_def check_L_alpha_def sync_data_def sync_one_data_def
  list_is_None_def lookup_globals_def compute_one_matrices_def set_likelihood_def
  set_L_alpha_part_def update_L_alpha_def set_L_alpha_def unit_ext_def identity_mat_def
  n_labels_def gram_def matmul_mv_def matmul_vv_def matmul_vm_def dot_def ncols_def
  unit_minimize_def rbcm_get_neg_like_grad_def default_bounds_def Let_def

lemma upt_small:
  "[0..<1] = [0]" "[0..<2] = [0, 1]" "[0..<3] = [0, 1, 2]" "[0..<4] = [0, 1, 2, 3]"
  by (simp_all add: upt_rec)

section \<open>Which exceptions a method can raise\<close>

lemma then_do_no:
  assumes "fst r \<noteq> Inl E" and "\<And>a s1. fst (f a s1) \<noteq> Inl E"
  shows "fst (then_do r f) \<noteq> Inl E"
  using assms by (cases "fst r") (simp_all add: then_do_def)

lemma try_get_no:
  assumes "r \<noteq> Inl E" and "\<And>a. fst (f a) \<noteq> Inl E"
  shows "fst (try_get r s f) \<noteq> Inl E"
  using assms by (cases r) (simp_all add: try_get_def)

lemma py_no_assert:
  "py_get (xs :: 'a list) i \<noteq> Inl AssertionError"
  "py_set (ys :: 'b list) i1 y \<noteq> Inl AssertionError"
  "append_at (xss :: 'c list list) i2 x \<noteq> Inl AssertionError"
  "incr_at ns i3 \<noteq> Inl AssertionError"
  "hstack vs \<noteq> Inl AssertionError"
  "matmul_vv k a \<noteq> Inl AssertionError"
  "matmul_vm k1 m \<noteq> Inl AssertionError"
  "matmul_mv mm v \<noteq> Inl AssertionError"
  "lookup_globals j s \<noteq> Inl AssertionError"
  by (simp_all add: py_defs matmul_vv_def matmul_vm_def matmul_mv_def lookup_globals_def
      split: option.splits)

lemma sync_one_data_no_assert: "fst (sync_one_data e s) \<noteq> Inl AssertionError"
  unfolding sync_one_data_def Let_def
  by (simp, intro impI try_get_no; simp add: py_no_assert)

lemma sync_loop_no_assert: "fst (sync_loop is s) \<noteq> Inl AssertionError"
  by (induction "is" arbitrary: s) (simp_all add: then_do_no sync_one_data_no_assert)

lemma sync_data_no_assert: "fst (sync_data s) \<noteq> Inl AssertionError"
  by (simp add: sync_data_def sync_loop_no_assert)

lemma compute_one_matrices_no_assert: "fst (compute_one_matrices ext ky e s) \<noteq> Inl AssertionError"
  unfolding compute_one_matrices_def Let_def
  by (simp split: option.split, intro allI impI conjI try_get_no; simp add: py_no_assert)

lemma set_likelihood_no_assert: "fst (set_likelihood ext e s) \<noteq> Inl AssertionError"
  unfolding set_likelihood_def
  by (intro try_get_no; simp add: py_no_assert)

lemma set_L_alpha_part_no_assert: "fst (set_L_alpha_part ext e s) \<noteq> Inl AssertionError"
  unfolding set_L_alpha_part_def
  by (intro then_do_no try_get_no;
      simp add: py_no_assert sync_one_data_no_assert compute_one_matrices_no_assert
        set_likelihood_no_assert)

lemma update_L_alpha_no_assert: "fst (update_L_alpha ext e s) \<noteq> Inl AssertionError"
  unfolding update_L_alpha_def
  by (rule try_get_no, rule py_no_assert)
     (simp split: option.split add: set_L_alpha_part_no_assert try_get_no py_no_assert)

lemma check_loop_no_assert: "fst (check_loop ext is s) \<noteq> Inl AssertionError"
proof (induction "is" arbitrary: s)
  case Nil
  show ?case by simp
next
  case (Cons i rest)
  have upd: "fst (then_do (update_L_alpha ext (int i) s) (\<lambda>u s1. check_loop ext rest s1))
      \<noteq> Inl AssertionError"
    by (intro then_do_no; simp add: update_L_alpha_no_assert Cons.IH)
  have part: "fst (then_do (set_L_alpha_part ext (int i) s) (\<lambda>u s1. check_loop ext rest s1))
      \<noteq> Inl AssertionError"
    by (intro then_do_no; simp add: set_L_alpha_part_no_assert Cons.IH)
  show ?case
    unfolding check_loop.simps Let_def
    by (rule try_get_no, rule py_no_assert)
       (simp add: upd part Cons.IH try_get_no py_no_assert split: option.split)
qed

lemma check_L_alpha_no_assert: "fst (check_L_alpha ext s) \<noteq> Inl AssertionError"
  unfolding check_L_alpha_def
  by (intro then_do_no; simp add: sync_data_no_assert check_loop_no_assert)

lemma kernel_vectors_no_assert: "kernel_vectors ext x d is s \<noteq> Inl AssertionError"
  by (induction "is") (auto simp: py_no_assert split: sum.split)

lemma predict_loop_no_assert: "predict_loop ext x d k_v is acc s \<noteq> Inl AssertionError"
proof (induction "is" arbitrary: acc)
  case Nil
  show ?case by simp
next
  case (Cons i rest)
  obtain m v b where acc: "acc = (m, v, b)" by (cases acc) auto
  show ?case
    unfolding acc predict_loop.simps Let_def
    by (auto simp: py_no_assert Cons.IH split: sum.split)
qed

lemma predict_no_assert:
  "d = 1 \<or> d = 2 \<or> d = 3 \<Longrightarrow> fst (predict ext x d s) \<noteq> Inl AssertionError"
  unfolding predict_def Let_def
  by (simp only: not_True_eq_False if_False)
     (intro then_do_no try_get_no;
      simp add: sync_data_no_assert kernel_vectors_no_assert check_L_alpha_no_assert
        predict_loop_no_assert)

section \<open>Methods that keep the training stores\<close>

lemma same_stores_refl [simp]: "same_stores s s"
  by (simp add: same_stores_def)

lemma same_stores_trans: "same_stores s s1 \<Longrightarrow> same_stores s1 s2 \<Longrightarrow> same_stores s s2"
  by (simp add: same_stores_def)

lemma same_stores_upd [simp]:
  "same_stores s (s1\<lparr>prior_variance := x_prior_variance\<rparr>) = same_stores s s1"
  "same_stores (s1\<lparr>prior_variance := x_prior_variance\<rparr>) s2 = same_stores s1 s2"
  "same_stores s (s1\<lparr>log_prior_var := x_log_prior_var\<rparr>) = same_stores s s1"
  "same_stores (s1\<lparr>log_prior_var := x_log_prior_var\<rparr>) s2 = same_stores s1 s2"
  "same_stores s (s1\<lparr>hyps := x_hyps\<rparr>) = same_stores s s1"
  "same_stores (s1\<lparr>hyps := x_hyps\<rparr>) s2 = same_stores s1 s2"
  "same_stores s (s1\<lparr>opt_algorithm := x_opt_algorithm\<rparr>) = same_stores s s1"
  "same_stores (s1\<lparr>opt_algorithm := x_opt_algorithm\<rparr>) s2 = same_stores s1 s2"
  "same_stores s (s1\<lparr>bounds := x_bounds\<rparr>) = same_stores s s1"
  "same_stores (s1\<lparr>bounds := x_bounds\<rparr>) s2 = same_stores s1 s2"
  "same_stores s (s1\<lparr>logger := x_logger\<rparr>) = same_stores s s1"
  "same_stores (s1\<lparr>logger := x_logger\<rparr>) s2 = same_stores s1 s2"
  "same_stores s (s1\<lparr>n_envs_prev := x_n_envs_prev\<rparr>) = same_stores s s1"
  "same_stores (s1\<lparr>n_envs_prev := x_n_envs_prev\<rparr>) s2 = same_stores s1 s2"
  "same_stores s (s1\<lparr>ky_mat := x_ky_mat\<rparr>) = same_stores s s1"
  "same_stores (s1\<lparr>ky_mat := x_ky_mat\<rparr>) s2 = same_stores s1 s2"
  "same_stores s (s1\<lparr>force_block := x_force_block\<rparr>) = same_stores s s1"
  "same_stores (s1\<lparr>force_block := x_force_block\<rparr>) s2 = same_stores s1 s2"
  "same_stores s (s1\<lparr>energy_block := x_energy_block\<rparr>) = same_stores s s1"
  "same_stores (s1\<lparr>energy_block := x_energy_block\<rparr>) s2 = same_stores s1 s2"
  "same_stores s (s1\<lparr>force_energy_block := x_force_energy_block\<rparr>) = same_stores s s1"
  "same_stores (s1\<lparr>force_energy_block := x_force_energy_block\<rparr>) s2 = same_stores s1 s2"
  "same_stores s (s1\<lparr>l_mat := x_l_mat\<rparr>) = same_stores s s1"
  "same_stores (s1\<lparr>l_mat := x_l_mat\<rparr>) s2 = same_stores s1 s2"
  "same_stores s (s1\<lparr>alpha := x_alpha\<rparr>) = same_stores s s1"
  "same_stores (s1\<lparr>alpha := x_alpha\<rparr>) s2 = same_stores s1 s2"
  "same_stores s (s1\<lparr>ky_mat_inv := x_ky_mat_inv\<rparr>) = same_stores s s1"
  "same_stores (s1\<lparr>ky_mat_inv := x_ky_mat_inv\<rparr>) s2 = same_stores s1 s2"
  "same_stores s (s1\<lparr>likelihood := x_likelihood\<rparr>) = same_stores s s1"
  "same_stores (s1\<lparr>likelihood := x_likelihood\<rparr>) s2 = same_stores s1 s2"
  "same_stores s (s1\<lparr>total_likelihood := x_total_likelihood\<rparr>) = same_stores s s1"
  "same_stores (s1\<lparr>total_likelihood := x_total_likelihood\<rparr>) s2 = same_stores s1 s2"
  "same_stores s (s1\<lparr>total_likelihood_gradient := x_total_likelihood_gradient\<rparr>) = same_stores s s1"
  "same_stores (s1\<lparr>total_likelihood_gradient := x_total_likelihood_gradient\<rparr>) s2 = same_stores s1 s2"
  "same_stores s (s1\<lparr>global_training_data := x_global_training_data\<rparr>) = same_stores s s1"
  "same_stores (s1\<lparr>global_training_data := x_global_training_data\<rparr>) s2 = same_stores s1 s2"
  "same_stores s (s1\<lparr>global_training_labels := x_global_training_labels\<rparr>) = same_stores s s1"
  "same_stores (s1\<lparr>global_training_labels := x_global_training_labels\<rparr>) s2 = same_stores s1 s2"
  "same_stores s (s1\<lparr>global_training_structures := x_global_training_structures\<rparr>) = same_stores s s1"
  "same_stores (s1\<lparr>global_training_structures := x_global_training_structures\<rparr>) s2 = same_stores s1 s2"
  "same_stores s (s1\<lparr>global_energy_labels := x_global_energy_labels\<rparr>) = same_stores s s1"
  "same_stores (s1\<lparr>global_energy_labels := x_global_energy_labels\<rparr>) s2 = same_stores s1 s2"
  "same_stores s (s1\<lparr>n_Ky_builds := x_n_Ky_builds\<rparr>) = same_stores s s1"
  "same_stores (s1\<lparr>n_Ky_builds := x_n_Ky_builds\<rparr>) s2 = same_stores s1 s2"
  by (simp_all add: same_stores_def)

lemma then_do_same:
  assumes "same_stores s (snd r)" and "\<And>a s1. same_stores s1 (snd (f a s1))"
  shows "same_stores s (snd (then_do r f))"
proof (cases "fst r")
  case (Inl e)
  then show ?thesis using assms(1) by (simp add: then_do_def)
next
  case (Inr a)
  then show ?thesis
    using same_stores_trans [OF assms(1) assms(2)] by (simp add: then_do_def)
qed

lemma try_get_same:
  assumes "same_stores s0 s" and "\<And>a. same_stores s0 (snd (f a))"
  shows "same_stores s0 (snd (try_get r s f))"
  using assms by (cases r) (simp_all add: try_get_def)

lemma if_same:
  "same_stores s (snd a) \<Longrightarrow> same_stores s (snd b) \<Longrightarrow> same_stores s (snd (if c then a else b))"
  by simp

lemma sync_one_data_same: "same_stores s (snd (sync_one_data e s))"
  unfolding sync_one_data_def Let_def
  by (simp, intro impI try_get_same; simp)

lemma sync_loop_same: "same_stores s (snd (sync_loop is s))"
  by (induction "is" arbitrary: s) (simp_all add: then_do_same sync_one_data_same)

lemma sync_data_same: "same_stores s (snd (sync_data s))"
  by (simp add: sync_data_def sync_loop_same)

lemma compute_one_matrices_same: "same_stores s (snd (compute_one_matrices ext ky e s))"
  unfolding compute_one_matrices_def Let_def
  by (simp split: option.split, intro allI impI conjI try_get_same; simp)

lemma set_likelihood_same: "same_stores s (snd (set_likelihood ext e s))"
  unfolding set_likelihood_def
  by (intro try_get_same; simp)

lemma set_L_alpha_part_same: "same_stores s (snd (set_L_alpha_part ext e s))"
proof -
  have "same_stores s1 (snd (compute_one_matrices ext ky e (s1\<lparr>n_Ky_builds := n\<rparr>)))" for s1 ky n
    using compute_one_matrices_same [of "s1\<lparr>n_Ky_builds := n\<rparr>" ext ky e]
    by simp
  then show ?thesis
    unfolding set_L_alpha_part_def
    by (intro then_do_same try_get_same; simp add: sync_one_data_same set_likelihood_same)
qed

lemma update_L_alpha_same: "same_stores s (snd (update_L_alpha ext e s))"
  unfolding update_L_alpha_def
  by (rule try_get_same, simp)
     (simp split: option.split add: set_L_alpha_part_same try_get_same)

lemma check_loop_same: "same_stores s (snd (check_loop ext is s))"
proof (induction "is" arbitrary: s)
  case Nil
  show ?case by simp
next
  case (Cons i rest)
  have upd: "same_stores s (snd (then_do (update_L_alpha ext (int i) s)
      (\<lambda>u s1. check_loop ext rest s1)))"
    by (intro then_do_same; simp add: update_L_alpha_same Cons.IH)
  have part: "same_stores s (snd (then_do (set_L_alpha_part ext (int i) s)
      (\<lambda>u s1. check_loop ext rest s1)))"
    by (intro then_do_same; simp add: set_L_alpha_part_same Cons.IH)
  show ?case
    unfolding check_loop.simps Let_def
    by (rule try_get_same, simp)
       (simp add: upd part Cons.IH try_get_same split: option.split)
qed

lemma check_L_alpha_same: "same_stores s (snd (check_L_alpha ext s))"
  unfolding check_L_alpha_def
  by (intro then_do_same; simp add: sync_data_same check_loop_same)

lemma set_L_alpha_loop_same: "same_stores s (snd (set_L_alpha_loop ext is s))"
proof (induction "is" arbitrary: s)
  case Nil
  show ?case by simp
next
  case (Cons i rest)
  have "same_stores s (snd (compute_one_matrices ext ky e (s\<lparr>n_Ky_builds := n\<rparr>)))" for ky n e
    using compute_one_matrices_same [of "s\<lparr>n_Ky_builds := n\<rparr>" ext ky e]
    by simp
  then show ?case
    unfolding set_L_alpha_loop.simps
    by (simp, intro impI then_do_same try_get_same; simp add: set_likelihood_same Cons.IH)
qed

lemma set_L_alpha_same: "same_stores s (snd (set_L_alpha ext s))"
  unfolding set_L_alpha_def
  by (intro then_do_same; simp add: sync_data_same set_L_alpha_loop_same)

lemma predict_same: "same_stores s (snd (predict ext x d s))"
  unfolding predict_def Let_def
  by (intro if_same then_do_same try_get_same; simp add: sync_data_same check_L_alpha_same)

lemma minimize_case_same:
  "same_stores s (snd (case r of Inl e \<Rightarrow> (Inl e, s) | Inr x \<Rightarrow> (Inr (Some x), s)))"
  by (cases r) simp_all

lemma train_same: "same_stores s (snd (train ext cb s))"
proof -
  have hy: "same_stores s3 (snd (set_L_alpha ext (s3\<lparr>hyps := h\<rparr>)))" for s3 h
    using set_L_alpha_same [of "s3\<lparr>hyps := h\<rparr>" ext] by simp
  have fin: "same_stores s3 (snd (case res of None \<Rightarrow> (Inl RuntimeError, s3)
      | Some r \<Rightarrow> then_do (set_L_alpha ext (s3\<lparr>hyps := res_x r\<rparr>)) (\<lambda>u s4.
          (Inr r, s4\<lparr>total_likelihood := Some (- res_fun r),
                     total_likelihood_gradient := Some (map uminus (res_jac r))\<rparr>))))" for s3 res
    by (cases res) (simp_all add: then_do_same hy)
  have st1: "same_stores s1 (snd (try_get b s1 (\<lambda>b.
       case minimize ext func x_0 (L_BFGS_B b) of
         Inl e \<Rightarrow>
           if e = LinAlgError
           then (if logger s1 then (Inr None, s1\<lparr>opt_algorithm := ''BFGS''\<rparr>)
                 else (Inl AttributeError, s1))
           else (Inl e, s1)
       | Inr r \<Rightarrow> (Inr (Some r), s1))))" for s1 b func x_0
    by (rule try_get_same) (simp_all split: sum.split)
  have st2: "same_stores s2 (snd (case cb of
             Some cb \<Rightarrow>
               (case minimize ext func x_0 (L_BFGS_B cb) of Inl e \<Rightarrow> (Inl e, s2)
                | Inr r \<Rightarrow> (Inr (Some r), s2))
           | None \<Rightarrow>
               if opt_algorithm s2 = ''BFGS''
               then (case minimize ext func x_0 BFGS of Inl e \<Rightarrow> (Inl e, s2)
                     | Inr r \<Rightarrow> (Inr (Some r), s2))
               else (Inr res1, s2)))" for s2 func x_0 res1
    by (cases cb) (simp_all add: minimize_case_same)
  show ?thesis
    unfolding train_def Let_def
    by (cases "length (training_data s) = 0 \<or> length (training_labels s) = 0")
       (simp_all only: if_True if_False snd_conv same_stores_refl,
        intro then_do_same sync_data_same fin st2, simp add: st1)
qed

section \<open>Methods that keep the factorisations\<close>

lemma same_factors_refl [simp]: "same_factors s s"
  by (simp add: same_factors_def)

lemma same_factors_trans: "same_factors s s1 \<Longrightarrow> same_factors s1 s2 \<Longrightarrow> same_factors s s2"
  by (simp add: same_factors_def)

lemma same_factors_upd [simp]:
  "same_factors s (s1\<lparr>training_data := x1\<rparr>) = same_factors s s1"
  "same_factors s (s1\<lparr>training_labels := x2\<rparr>) = same_factors s s1"
  "same_factors s (s1\<lparr>training_labels_np := x3\<rparr>) = same_factors s s1"
  "same_factors s (s1\<lparr>n_envs_prev := x4\<rparr>) = same_factors s s1"
  "same_factors s (s1\<lparr>training_structures := x5\<rparr>) = same_factors s s1"
  "same_factors s (s1\<lparr>energy_labels := x6\<rparr>) = same_factors s s1"
  "same_factors s (s1\<lparr>energy_labels_np := x7\<rparr>) = same_factors s s1"
  "same_factors s (s1\<lparr>all_labels := x8\<rparr>) = same_factors s s1"
  "same_factors (s1\<lparr>training_data := x1\<rparr>) s2 = same_factors s1 s2"
  "same_factors (s1\<lparr>training_labels := x2\<rparr>) s2 = same_factors s1 s2"
  "same_factors (s1\<lparr>training_labels_np := x3\<rparr>) s2 = same_factors s1 s2"
  "same_factors (s1\<lparr>n_envs_prev := x4\<rparr>) s2 = same_factors s1 s2"
  "same_factors (s1\<lparr>training_structures := x5\<rparr>) s2 = same_factors s1 s2"
  "same_factors (s1\<lparr>energy_labels := x6\<rparr>) s2 = same_factors s1 s2"
  "same_factors (s1\<lparr>energy_labels_np := x7\<rparr>) s2 = same_factors s1 s2"
  "same_factors (s1\<lparr>all_labels := x8\<rparr>) s2 = same_factors s1 s2"
  by (simp_all add: same_factors_def)

lemma then_do_factors:
  assumes "same_factors s (snd r)" and "\<And>a s1. same_factors s1 (snd (f a s1))"
  shows "same_factors s (snd (then_do r f))"
proof (cases "fst r")
  case (Inl e)
  then show ?thesis using assms(1) by (simp add: then_do_def)
next
  case (Inr a)
  then show ?thesis
    using same_factors_trans [OF assms(1) assms(2)] by (simp add: then_do_def)
qed

lemma try_get_factors:
  assumes "same_factors s0 s" and "\<And>a. same_factors s0 (snd (f a))"
  shows "same_factors s0 (snd (try_get r s f))"
  using assms by (cases r) (simp_all add: try_get_def)

lemma update_db_forces_factors: "same_factors s (snd (update_db_forces st fs e atoms s))"
proof (induction atoms arbitrary: s)
  case Nil
  show ?case by simp
next
  case (Cons atom rest)
  have "same_factors s (snd (update_db_forces st fs e rest
      (s\<lparr>training_data := td, training_labels := tl, n_envs_prev := np\<rparr>)))" for td tl np
    using Cons.IH [of "s\<lparr>training_data := td, training_labels := tl, n_envs_prev := np\<rparr>"]
    by simp
  then show ?case
    unfolding update_db_forces.simps
    by (intro try_get_factors; simp)
qed

lemma refresh_labels_np_factors: "same_factors s (snd (refresh_labels_np e s))"
  unfolding refresh_labels_np_def by (intro try_get_factors; simp)

lemma update_db_energy_factors: "same_factors s (snd (update_db_energy st en e s))"
  unfolding update_db_energy_def Let_def by (intro try_get_factors; simp)

lemma refresh_all_labels_factors: "same_factors s (snd (refresh_all_labels e s))"
  unfolding refresh_all_labels_def by (intro try_get_factors; simp)

lemma update_db_at_factors: "same_factors s (snd (update_db_at st forces cr energy e s))"
proof -
  have f: "same_factors s (snd (case forces of None \<Rightarrow> (Inr (), s)
      | Some fs \<Rightarrow> then_do (update_db_forces st fs e ixs s) (\<lambda>u s. refresh_labels_np e s)))" for ixs
    by (cases forces)
       (simp_all add: then_do_factors update_db_forces_factors refresh_labels_np_factors)
  have en: "same_factors s2 (snd (case energy of None \<Rightarrow> (Inr (), s2)
      | Some en \<Rightarrow> update_db_energy st en e s2))" for s2
    by (cases energy) (simp_all add: update_db_energy_factors)
  show ?thesis
    unfolding update_db_at_def Let_def
    by (intro then_do_factors f en refresh_all_labels_factors)
qed

lemma same_routing_refl [simp]: "same_routing s s"
  by (simp add: same_routing_def)

lemma same_routing_trans: "same_routing s s1 \<Longrightarrow> same_routing s1 s2 \<Longrightarrow> same_routing s s2"
  by (simp add: same_routing_def)

lemma same_stores_routing: "same_stores s s' \<Longrightarrow> same_routing s s'"
  by (simp add: same_stores_def same_routing_def)

lemma same_factors_routing: "same_factors s s' \<Longrightarrow> same_routing s s'"
  by (simp add: same_factors_def same_routing_def)

lemma same_routing_upd [simp]:
  "same_routing s (s1\<lparr>prior_variance := x_prior_variance\<rparr>) = same_routing s s1"
  "same_routing (s1\<lparr>prior_variance := x_prior_variance\<rparr>) s2 = same_routing s1 s2"
  "same_routing s (s1\<lparr>log_prior_var := x_log_prior_var\<rparr>) = same_routing s s1"
  "same_routing (s1\<lparr>log_prior_var := x_log_prior_var\<rparr>) s2 = same_routing s1 s2"
  "same_routing s (s1\<lparr>ndata_per_expert := x_ndata_per_expert\<rparr>) = same_routing s s1"
  "same_routing (s1\<lparr>ndata_per_expert := x_ndata_per_expert\<rparr>) s2 = same_routing s1 s2"
  "same_routing s (s1\<lparr>hyps := x_hyps\<rparr>) = same_routing s s1"
  "same_routing (s1\<lparr>hyps := x_hyps\<rparr>) s2 = same_routing s1 s2"
  "same_routing s (s1\<lparr>opt_algorithm := x_opt_algorithm\<rparr>) = same_routing s s1"
  "same_routing (s1\<lparr>opt_algorithm := x_opt_algorithm\<rparr>) s2 = same_routing s1 s2"
  "same_routing s (s1\<lparr>bounds := x_bounds\<rparr>) = same_routing s s1"
  "same_routing (s1\<lparr>bounds := x_bounds\<rparr>) s2 = same_routing s1 s2"
  "same_routing s (s1\<lparr>logger := x_logger\<rparr>) = same_routing s s1"
  "same_routing (s1\<lparr>logger := x_logger\<rparr>) s2 = same_routing s1 s2"
  "same_routing s (s1\<lparr>training_data := x_training_data\<rparr>) = same_routing s s1"
  "same_routing (s1\<lparr>training_data := x_training_data\<rparr>) s2 = same_routing s1 s2"
  "same_routing s (s1\<lparr>training_labels := x_training_labels\<rparr>) = same_routing s s1"
  "same_routing (s1\<lparr>training_labels := x_training_labels\<rparr>) s2 = same_routing s1 s2"
  "same_routing s (s1\<lparr>training_labels_np := x_training_labels_np\<rparr>) = same_routing s s1"
  "same_routing (s1\<lparr>training_labels_np := x_training_labels_np\<rparr>) s2 = same_routing s1 s2"
  "same_routing s (s1\<lparr>n_envs_prev := x_n_envs_prev\<rparr>) = same_routing s s1"
  "same_routing (s1\<lparr>n_envs_prev := x_n_envs_prev\<rparr>) s2 = same_routing s1 s2"
  "same_routing s (s1\<lparr>training_structures := x_training_structures\<rparr>) = same_routing s s1"
  "same_routing (s1\<lparr>training_structures := x_training_structures\<rparr>) s2 = same_routing s1 s2"
  "same_routing s (s1\<lparr>energy_labels := x_energy_labels\<rparr>) = same_routing s s1"
  "same_routing (s1\<lparr>energy_labels := x_energy_labels\<rparr>) s2 = same_routing s1 s2"
  "same_routing s (s1\<lparr>energy_labels_np := x_energy_labels_np\<rparr>) = same_routing s s1"
  "same_routing (s1\<lparr>energy_labels_np := x_energy_labels_np\<rparr>) s2 = same_routing s1 s2"
  "same_routing s (s1\<lparr>all_labels := x_all_labels\<rparr>) = same_routing s s1"
  "same_routing (s1\<lparr>all_labels := x_all_labels\<rparr>) s2 = same_routing s1 s2"
  "same_routing s (s1\<lparr>ky_mat := x_ky_mat\<rparr>) = same_routing s s1"
  "same_routing (s1\<lparr>ky_mat := x_ky_mat\<rparr>) s2 = same_routing s1 s2"
  "same_routing s (s1\<lparr>force_block := x_force_block\<rparr>) = same_routing s s1"
  "same_routing (s1\<lparr>force_block := x_force_block\<rparr>) s2 = same_routing s1 s2"
  "same_routing s (s1\<lparr>energy_block := x_energy_block\<rparr>) = same_routing s s1"
  "same_routing (s1\<lparr>energy_block := x_energy_block\<rparr>) s2 = same_routing s1 s2"
  "same_routing s (s1\<lparr>force_energy_block := x_force_energy_block\<rparr>) = same_routing s s1"
  "same_routing (s1\<lparr>force_energy_block := x_force_energy_block\<rparr>) s2 = same_routing s1 s2"
  "same_routing s (s1\<lparr>l_mat := x_l_mat\<rparr>) = same_routing s s1"
  "same_routing (s1\<lparr>l_mat := x_l_mat\<rparr>) s2 = same_routing s1 s2"
  "same_routing s (s1\<lparr>alpha := x_alpha\<rparr>) = same_routing s s1"
  "same_routing (s1\<lparr>alpha := x_alpha\<rparr>) s2 = same_routing s1 s2"
  "same_routing s (s1\<lparr>ky_mat_inv := x_ky_mat_inv\<rparr>) = same_routing s s1"
  "same_routing (s1\<lparr>ky_mat_inv := x_ky_mat_inv\<rparr>) s2 = same_routing s1 s2"
  "same_routing s (s1\<lparr>likelihood := x_likelihood\<rparr>) = same_routing s s1"
  "same_routing (s1\<lparr>likelihood := x_likelihood\<rparr>) s2 = same_routing s1 s2"
  "same_routing s (s1\<lparr>total_likelihood := x_total_likelihood\<rparr>) = same_routing s s1"
  "same_routing (s1\<lparr>total_likelihood := x_total_likelihood\<rparr>) s2 = same_routing s1 s2"
  "same_routing s (s1\<lparr>total_likelihood_gradient := x_total_likelihood_gradient\<rparr>) = same_routing s s1"
  "same_routing (s1\<lparr>total_likelihood_gradient := x_total_likelihood_gradient\<rparr>) s2 = same_routing s1 s2"
  "same_routing s (s1\<lparr>global_training_data := x_global_training_data\<rparr>) = same_routing s s1"
  "same_routing (s1\<lparr>global_training_data := x_global_training_data\<rparr>) s2 = same_routing s1 s2"
  "same_routing s (s1\<lparr>global_training_labels := x_global_training_labels\<rparr>) = same_routing s s1"
  "same_routing (s1\<lparr>global_training_labels := x_global_training_labels\<rparr>) s2 = same_routing s1 s2"
  "same_routing s (s1\<lparr>global_training_structures := x_global_training_structures\<rparr>) = same_routing s s1"
  "same_routing (s1\<lparr>global_training_structures := x_global_training_structures\<rparr>) s2 = same_routing s1 s2"
  "same_routing s (s1\<lparr>global_energy_labels := x_global_energy_labels\<rparr>) = same_routing s s1"
  "same_routing (s1\<lparr>global_energy_labels := x_global_energy_labels\<rparr>) s2 = same_routing s1 s2"
  "same_routing s (s1\<lparr>n_Ky_builds := x_n_Ky_builds\<rparr>) = same_routing s s1"
  "same_routing (s1\<lparr>n_Ky_builds := x_n_Ky_builds\<rparr>) s2 = same_routing s1 s2"
  by (simp_all add: same_routing_def)

lemma then_do_routing:
  assumes "same_routing s (snd r)" and "\<And>a s1. same_routing s1 (snd (f a s1))"
  shows "same_routing s (snd (then_do r f))"
proof (cases "fst r")
  case (Inl e)
  then show ?thesis using assms(1) by (simp add: then_do_def)
next
  case (Inr a)
  then show ?thesis
    using same_routing_trans [OF assms(1) assms(2)] by (simp add: then_do_def)
qed

lemma try_get_routing:
  assumes "same_routing s0 s" and "\<And>a. same_routing s0 (snd (f a))"
  shows "same_routing s0 (snd (try_get r s f))"
  using assms by (cases r) (simp_all add: try_get_def)

lemma if_routing:
  "same_routing s (snd a) \<Longrightarrow> same_routing s (snd b) \<Longrightarrow> same_routing s (snd (if c then a else b))"
  by simp

lemma add_one_env_at_routing:
  "same_routing s (snd (add_one_env_at ext env_new force do_train cb e s))"
proof -
  have al: "same_routing s4 (snd (refresh_all_labels e (s4\<lparr>n_envs_prev := np\<rparr>)))" for s4 np
    using same_factors_routing [OF refresh_all_labels_factors [of "s4\<lparr>n_envs_prev := np\<rparr>" e]]
    by simp
  have np: "same_routing s1 (snd (refresh_labels_np e (s1\<lparr>training_data := td, training_labels := tl\<rparr>)))"
    for s1 td tl
    using same_factors_routing [OF refresh_labels_np_factors
        [of "s1\<lparr>training_data := td, training_labels := tl\<rparr>" e]]
    by simp
  show ?thesis
    unfolding add_one_env_at_def Let_def
    by (intro if_routing then_do_routing try_get_routing;
        simp add: al np same_stores_routing [OF train_same])
qed

section \<open>The router\<close>

lemma find_expert_to_add_cases:
  "find_expert_to_add s = (Inl IndexError, s) \<or>
   find_expert_to_add s = (Inr (current_expert s), s) \<or>
   find_expert_to_add s = (Inr (current_expert s + 1), s\<lparr>current_expert := current_expert s + 1\<rparr>)"
  by (simp add: find_expert_to_add_def try_get_def py_get_def split: option.split)

lemma find_expert_to_add_mono:
  "current_expert s \<le> current_expert (snd (find_expert_to_add s))"
  using find_expert_to_add_cases [of s] by auto

lemma find_expert_to_add_answer:
  "fst (find_expert_to_add s) = Inr e \<Longrightarrow> e = current_expert (snd (find_expert_to_add s))"
  using find_expert_to_add_cases [of s] by auto

lemma add_expert_current [simp]: "current_expert (add_expert s) = current_expert s"
  by (simp add: add_expert_def add_container_def)

lemma route_None_current:
  "current_expert (snd (route None s)) = current_expert (snd (find_expert_to_add s))"
  by (cases "fst (find_expert_to_add s)") (simp_all add: route_def then_do_def)

lemma route_Some_current: "current_expert (snd (route (Some e) s)) = current_expert s"
  by (simp add: route_def then_do_def)

lemma update_db_current:
  "current_expert (snd (update_db st forces cr energy expert_id s)) =
   current_expert (snd (route expert_id s))"
proof (cases "fst (route expert_id s)")
  case (Inl e)
  then show ?thesis by (simp add: update_db_def then_do_def)
next
  case (Inr e)
  then show ?thesis
    using update_db_at_factors [of "snd (route expert_id s)" st forces cr energy e]
    by (simp add: update_db_def then_do_def same_factors_def)
qed

lemma add_one_env_at_current:
  "current_expert (snd (add_one_env_at ext env_new force do_train cb e s)) = current_expert s"
  using add_one_env_at_routing [of s ext env_new force do_train cb e]
  by (simp add: same_routing_def)

lemma add_one_env_current:
  "current_expert (snd (add_one_env ext env_new force do_train expert_id cb s)) =
   current_expert (snd (route expert_id s))"
  by (cases "fst (route expert_id s)")
     (simp_all add: add_one_env_def then_do_def add_one_env_at_current)

lemma route_current_mono: "current_expert s \<le> current_expert (snd (route expert_id s))"
  by (cases expert_id) (simp_all add: route_None_current route_Some_current find_expert_to_add_mono)

lemma apply_op_mono: "current_expert s \<le> current_expert (apply_op ext c s)"
proof (cases c)
  case Op_find_expert_to_add
  then show ?thesis by (simp add: find_expert_to_add_mono)
next
  case Op_add_container
  then show ?thesis by (simp add: add_container_def)
next
  case (Op_update_db st forces cr energy expert_id)
  then show ?thesis by (simp add: update_db_current route_current_mono)
next
  case (Op_add_one_env env_new force do_train expert_id cb)
  then show ?thesis by (simp add: add_one_env_current route_current_mono)
next
  case (Op_train cb)
  then show ?thesis using train_same [of s ext cb] by (simp add: same_stores_def)
next
  case Op_check_L_alpha
  then show ?thesis using check_L_alpha_same [of s ext] by (simp add: same_stores_def)
next
  case (Op_predict x d)
  then show ?thesis using predict_same [of s ext x d] by (simp add: same_stores_def)
next
  case Op_set_L_alpha
  then show ?thesis using set_L_alpha_same [of s ext] by (simp add: same_stores_def)
next
  case (Op_set_L_alpha_part e)
  then show ?thesis using set_L_alpha_part_same [of s ext e] by (simp add: same_stores_def)
next
  case (Op_update_L_alpha e)
  then show ?thesis using update_L_alpha_same [of s ext e] by (simp add: same_stores_def)
next
  case (Op_compute_one_matrices ky e)
  then show ?thesis using compute_one_matrices_same [of s ext ky e] by (simp add: same_stores_def)
next
  case Op_sync_data
  then show ?thesis using sync_data_same [of s] by (simp add: same_stores_def)
next
  case (Op_sync_one_data e)
  then show ?thesis using sync_one_data_same [of s e] by (simp add: same_stores_def)
next
  case (Op_write_model name format)
  then show ?thesis by (simp add: write_model_def Let_def)
qed

lemma router_answer_current:
  "e \<in> set (router_answer s) \<Longrightarrow> e = current_expert (snd (find_expert_to_add s))"
  using find_expert_to_add_answer [of s e]
  by (cases "fst (find_expert_to_add s)") (simp_all add: router_answer_def)

lemma routed_current: "e \<in> set (routed c s) \<Longrightarrow> e = current_expert (apply_op ext c s)"
proof (induction c s rule: routed.induct)
  case (1 s)
  then show ?case by (simp add: router_answer_current)
next
  case (2 st forces cr energy s)
  then show ?case by (simp add: router_answer_current update_db_current route_None_current)
next
  case (3 env_new force do_train cb s)
  then show ?case by (simp add: router_answer_current add_one_env_current route_None_current)
qed simp_all

lemma run_answers_bound:
  "e \<in> set (fst (run ext cs s)) \<Longrightarrow> current_expert s \<le> e"
proof (induction cs arbitrary: s)
  case Nil
  then show ?case by simp
next
  case (Cons c cs)
  from Cons.prems consider "e \<in> set (routed c s)" | "e \<in> set (fst (run ext cs (apply_op ext c s)))"
    by (auto simp: Let_def)
  then show ?case
  proof cases
    case 1
    then show ?thesis using routed_current [of e c s ext] apply_op_mono [of s ext c] by simp
  next
    case 2
    then show ?thesis using Cons.IH [of "apply_op ext c s"] apply_op_mono [of s ext c] by simp
  qed
qed

lemma run_current_mono: "current_expert s \<le> current_expert (snd (run ext cs s))"
proof (induction cs arbitrary: s)
  case Nil
  show ?case by simp
next
  case (Cons c cs)
  show ?case
    using Cons.IH [of "apply_op ext c s"] apply_op_mono [of s ext c] by (simp add: Let_def)
qed

section \<open>Completed and failed updates\<close>

lemma py_norm_less: "py_norm n e = Some k \<Longrightarrow> k < n"
  by (auto simp: py_norm_def split: if_splits)

lemma update_db_forces_Ok:
  assumes "py_norm n e = Some k"
    and "length (training_data s) = n" "length (training_labels s) = n"
    and "length (n_envs_prev s) = n"
    and "update_db_forces st fs e atoms s = (Inr (), s')"
  shows "s' = forces_done st fs atoms k s"
  using assms(2-)
proof (induction atoms arbitrary: s)
  case Nil
  then show ?case by (simp add: forces_done_def)
next
  case (Cons atom rest)
  have k: "k < n" using assms(1) by (rule py_norm_less)
  from Cons.prems obtain f where f: "py_get fs atom = Inr f"
    by (cases "py_get fs atom") (simp_all add: seq_simps)
  let ?s2 = "s\<lparr>training_data := (training_data s)[k := training_data s ! k @ [AtomicEnvironment st atom]],
      training_labels := (training_labels s)[k := training_labels s ! k @ [f]],
      n_envs_prev := (n_envs_prev s)[k := n_envs_prev s ! k + 1]\<rparr>"
  from Cons.prems f assms(1) have run: "update_db_forces st fs e rest ?s2 = (Inr (), s')"
    by (simp add: seq_simps append_at_def incr_at_def)
  have "s' = forces_done st fs rest k ?s2"
    by (rule Cons.IH [OF _ _ _ run]) (simp_all add: Cons.prems)
  then show ?case
    using k f Cons.prems(1-3) by (simp add: forces_done_def add.assoc)
qed

lemma lens_done [simp]:
  "lens (forces_done st fs atoms k s) n = lens s n"
  "lens (energy_done st en k s) n = lens s n"
  "lens (labels_np_done k s) n = lens s n"
  "lens (all_labels_done k s) n = lens s n"
  by (simp_all add: lens_def forces_done_def energy_done_def labels_np_done_def all_labels_done_def)

lemma refresh_labels_np_Ok:
  assumes "py_norm n e = Some k" and "lens s n" and "refresh_labels_np e s = (Inr (), s')"
  shows "s' = labels_np_done k s"
  using assms
  by (simp add: refresh_labels_np_def lens_def py_get_def py_set_def hstack_def try_get_def
      labels_np_done_def split: if_splits)

lemma update_db_energy_Ok:
  assumes "py_norm n e = Some k" and "lens s n" and "update_db_energy st en e s = (Inr (), s')"
  shows "s' = energy_done st en k s"
  using assms py_norm_less [OF assms(1)]
  by (simp add: update_db_energy_def lens_def py_get_def py_set_def append_at_def try_get_def
      energy_done_def Let_def)

lemma refresh_all_labels_Ok:
  assumes "py_norm n e = Some k" and "lens s n" and "refresh_all_labels e s = (Inr (), s')"
  shows "s' = all_labels_done k s"
  using assms
  by (simp add: refresh_all_labels_def lens_def py_get_def py_set_def try_get_def
      all_labels_done_def)

lemma then_do_OkE:
  assumes "then_do r f = (Inr b, s')"
  obtains a s1 where "r = (Inr a, s1)" and "f a s1 = (Inr b, s')"
  using assms by (cases r; cases "fst r") (simp_all add: then_do_def)

lemma update_db_at_Ok:
  assumes k: "py_norm n e = Some k" and l: "lens s n"
    and run: "update_db_at st forces custom_range energy e s = (Inr (), s')"
  shows "s' = update_db_done st forces custom_range energy k s"
proof -
  let ?ixs = "update_indices_of st custom_range"
  from run obtain s2 s3 where
    f: "(case forces of None \<Rightarrow> (Inr (), s)
         | Some fs \<Rightarrow> then_do (update_db_forces st fs e ?ixs s) (\<lambda>u s. refresh_labels_np e s))
        = (Inr (), s2)"
    and en: "(case energy of None \<Rightarrow> (Inr (), s2) | Some en \<Rightarrow> update_db_energy st en e s2)
        = (Inr (), s3)"
    and al: "refresh_all_labels e s3 = (Inr (), s')"
    unfolding update_db_at_def Let_def update_indices_of_def [symmetric]
    by (elim then_do_OkE) auto
  have s2: "s2 = (case forces of None \<Rightarrow> (\<lambda>s. s)
      | Some fs \<Rightarrow> (\<lambda>s. labels_np_done k (forces_done st fs ?ixs k s))) s"
  proof (cases forces)
    case None
    then show ?thesis using f by simp
  next
    case (Some fs)
    with f obtain s1 where a: "update_db_forces st fs e ?ixs s = (Inr (), s1)"
      and b: "refresh_labels_np e s1 = (Inr (), s2)"
      by (auto elim: then_do_OkE)
    have "s1 = forces_done st fs ?ixs k s"
      using l by (intro update_db_forces_Ok [OF k _ _ _ a]) (simp_all add: lens_def)
    moreover have "s2 = labels_np_done k s1"
      using l calculation by (intro refresh_labels_np_Ok [OF k _ b]) simp
    ultimately show ?thesis using Some by simp
  qed
  have l2: "lens s2 n" using l s2 by (cases forces) simp_all
  have s3: "s3 = (case energy of None \<Rightarrow> (\<lambda>s. s) | Some en \<Rightarrow> energy_done st en k) s2"
  proof (cases energy)
    case None
    then show ?thesis using en by simp
  next
    case (Some x)
    then show ?thesis using en update_db_energy_Ok [OF k l2] by simp
  qed
  have l3: "lens s3 n" using l2 s3 by (cases energy) simp_all
  show ?thesis
    using refresh_all_labels_Ok [OF k l3 al] s2 s3 by (simp add: update_db_done_def)
qed

section \<open>The states that updates leave\<close>

lemma add_one_env_at_Ok:
  assumes k: "py_norm n e = Some k" and l: "lens s n"
    and run: "add_one_env_at ext env_new force do_train cb e s = (Inr (), s')"
  shows "same_stores (add_one_env_done env_new force k s) s'"
proof -
  have kn: "k < n" using k by (rule py_norm_less)
  let ?s3 = "s\<lparr>training_data := (training_data s)[k := training_data s ! k @ [env_new]],
      training_labels := (training_labels s)[k := training_labels s ! k @ [force]]\<rparr>"
  have l3: "lens ?s3 n" using l by (simp add: lens_def)
  from run have lg: "logger s" by (auto simp: add_one_env_at_def split: if_splits)
  from run lg k l obtain s4 where
    np: "refresh_labels_np e ?s3 = (Inr (), s4)"
    and rest: "try_get (incr_at (n_envs_prev s4) e) s4 (\<lambda>np.
        then_do (refresh_all_labels e (s4\<lparr>n_envs_prev := np\<rparr>)) (\<lambda>u s5.
          if do_train then then_do (train ext cb s5) (\<lambda>r s6. (Inr (), s6))
          else (Inr (), s5))) = (Inr (), s')"
    by (auto simp: add_one_env_at_def Let_def lens_def append_at_def try_get_Inr
        elim!: then_do_OkE)
  have s4: "s4 = labels_np_done k ?s3" by (rule refresh_labels_np_Ok [OF k l3 np])
  have l4: "lens s4 n" using l3 s4 by simp
  let ?s4' = "s4\<lparr>n_envs_prev := (n_envs_prev s4)[k := n_envs_prev s4 ! k + 1]\<rparr>"
  have l4': "lens ?s4' n" using l4 by (simp add: lens_def)
  from rest k l4 obtain s5 where
    al: "refresh_all_labels e ?s4' = (Inr (), s5)"
    and tr: "(if do_train then then_do (train ext cb s5) (\<lambda>r s6. (Inr (), s6))
          else (Inr (), s5)) = (Inr (), s')"
    by (auto simp: lens_def incr_at_def try_get_Inr elim!: then_do_OkE)
  have s5: "s5 = all_labels_done k ?s4'" by (rule refresh_all_labels_Ok [OF k l4' al])
  have s5_eq: "s5 = add_one_env_done env_new force k s"
    unfolding s5 s4 by (simp add: add_one_env_done_def labels_np_done_def)
  have "same_stores s5 s'"
  proof (cases do_train)
    case True
    with tr obtain r where "train ext cb s5 = (Inr r, s')"
      by (auto elim!: then_do_OkE)
    then show ?thesis using train_same [of s5 ext cb] by simp
  next
    case False
    then show ?thesis using tr by simp
  qed
  then show ?thesis using s5_eq by simp
qed

lemma update_db_forces_no_index:
  assumes "py_norm (length (training_data s)) e = None"
  shows "update_db_forces st fs e atoms s = (if atoms = [] then (Inr (), s) else (Inl IndexError, s))"
proof (cases atoms)
  case Nil
  then show ?thesis by simp
next
  case (Cons atom rest)
  then show ?thesis using assms
    by (cases "py_norm (length fs) atom") (simp_all add: py_get_def append_at_def seq_simps)
qed

lemma update_db_at_no_index:
  assumes "py_norm n e = None" and "lens s n"
  shows "update_db_at st forces custom_range energy e s = (Inl IndexError, s)"
proof (cases forces)
  case None
  then show ?thesis using assms
    by (cases energy)
       (simp_all add: update_db_at_def update_db_energy_def refresh_all_labels_def Let_def
         lens_def py_get_def append_at_def seq_simps)
next
  case (Some fs)
  have "py_norm (length (training_data s)) e = None" using assms by (simp add: lens_def)
  from update_db_forces_no_index [OF this] Some show ?thesis using assms
    by (simp add: update_db_at_def refresh_labels_np_def Let_def lens_def py_get_def seq_simps)
qed

lemma add_one_env_at_no_index:
  assumes "py_norm n e = None" and "lens s n" and "logger s"
  shows "add_one_env_at ext env_new force do_train cb e s = (Inl IndexError, s)"
  using assms by (simp add: add_one_env_at_def lens_def append_at_def seq_simps)

section \<open>The router and the new container\<close>

lemma route_Some: "route (Some e) s = (Inr e, if e \<ge> n_experts s then add_expert s else s)"
  by (simp add: route_def seq_simps)

lemma lens_add_expert: "lens s n \<Longrightarrow> lens (add_expert s) (Suc n)"
  by (simp add: lens_def add_expert_def add_container_def)

lemma lens_current [simp]: "lens (s\<lparr>current_expert := c\<rparr>) n = lens s n"
  by (simp add: lens_def)

lemma cached_add_expert: "cached s \<Longrightarrow> cached (add_expert s)"
  by (simp add: cached_def add_expert_def add_container_def)

lemma cached_current [simp]: "cached (s\<lparr>current_expert := c\<rparr>) = cached s"
  by (simp add: cached_def)

lemma stores_at_add_expert:
  "lens s n \<Longrightarrow> j < n \<Longrightarrow> stores_at (add_expert s) j = stores_at s j"
  by (simp add: lens_def stores_at_def add_expert_def add_container_def nth_append)

lemma stores_at_current [simp]: "stores_at (s\<lparr>current_expert := c\<rparr>) j = stores_at s j"
  by (simp add: stores_at_def)

lemma add_expert_new:
  assumes "lens s n"
  shows "stores_at (add_expert s) n = empty_stores" and "n_envs_prev (add_expert s) ! n = 0"
    and "no_factors_at (add_expert s) n" and "n_experts (add_expert s) = n_experts s + 1"
  using assms
  by (simp_all add: lens_def stores_at_def empty_stores_def no_factors_at_def add_expert_def
      add_container_def nth_append)

lemma route_shape:
  "\<exists>c. snd (route expert_id s) = s\<lparr>current_expert := c\<rparr> \<or>
       snd (route expert_id s) = add_expert (s\<lparr>current_expert := c\<rparr>)"
proof (cases expert_id)
  case None
  from find_expert_to_add_cases [of s] show ?thesis
  proof (elim disjE)
    assume "find_expert_to_add s = (Inl IndexError, s)"
    then have "snd (route expert_id s) = s\<lparr>current_expert := current_expert s\<rparr>"
      using None by (simp add: route_def seq_simps)
    then show ?thesis by blast
  next
    assume "find_expert_to_add s = (Inr (current_expert s), s)"
    then have "snd (route expert_id s) = s\<lparr>current_expert := current_expert s\<rparr> \<or>
        snd (route expert_id s) = add_expert (s\<lparr>current_expert := current_expert s\<rparr>)"
      using None by (simp add: route_def seq_simps)
    then show ?thesis by blast
  next
    assume "find_expert_to_add s =
      (Inr (current_expert s + 1), s\<lparr>current_expert := current_expert s + 1\<rparr>)"
    then have "snd (route expert_id s) = s\<lparr>current_expert := current_expert s + 1\<rparr> \<or>
        snd (route expert_id s) = add_expert (s\<lparr>current_expert := current_expert s + 1\<rparr>)"
      using None by (simp add: route_def seq_simps)
    then show ?thesis by blast
  qed
next
  case (Some e)
  then have "snd (route expert_id s) = s\<lparr>current_expert := current_expert s\<rparr> \<or>
      snd (route expert_id s) = add_expert (s\<lparr>current_expert := current_expert s\<rparr>)"
    by (simp add: route_Some)
  then show ?thesis by blast
qed

lemma route_lens:
  assumes "lens s n"
  shows "lens (snd (route expert_id s)) n \<or> lens (snd (route expert_id s)) (Suc n)"
    and "j < n \<Longrightarrow> stores_at (snd (route expert_id s)) j = stores_at s j"
  using route_shape [of expert_id s] assms
  by (auto simp: lens_add_expert stores_at_add_expert)

lemma route_cached: "cached s \<Longrightarrow> cached (snd (route expert_id s))"
  using route_shape [of expert_id s] by (auto simp: cached_add_expert)

section \<open>What a completed update holds\<close>

lemmas done_defs = update_db_done_def add_one_env_done_def forces_done_def energy_done_def
  labels_np_done_def all_labels_done_def

lemma same_stores_views:
  assumes "same_stores a b"
  shows "cached b = cached a" and "stores_at b j = stores_at a j"
    and "all_labels b = all_labels a" and "training_labels b = training_labels a"
    and "energy_labels b = energy_labels a" and "training_data b = training_data a"
    and "n_experts b = n_experts a"
  using assms by (simp_all add: same_stores_def cached_def stores_at_def)

lemma update_db_done_cached:
  assumes "lens s n" and "cached s" and "k < n"
  shows "cached (update_db_done st forces cr energy k s)"
  using assms
  by (cases forces; cases energy) (simp_all add: done_defs cached_def lens_def map_update)

lemma add_one_env_done_cached:
  assumes "lens s n" and "cached s" and "k < n"
  shows "cached (add_one_env_done env_new force k s)"
  using assms by (simp add: done_defs cached_def lens_def map_update)

lemma update_db_done_all_labels:
  assumes "lens s n" and "k < n"
  shows "all_labels (update_db_done st forces cr energy k s) ! k =
     training_labels_np (update_db_done st forces cr energy k s) ! k @
     energy_labels_np (update_db_done st forces cr energy k s) ! k"
  using assms by (cases forces; cases energy) (simp_all add: done_defs lens_def)

lemma add_one_env_done_all_labels:
  assumes "lens s n" and "k < n"
  shows "all_labels (add_one_env_done env_new force k s) ! k =
     training_labels_np (add_one_env_done env_new force k s) ! k @
     energy_labels_np (add_one_env_done env_new force k s) ! k"
  using assms by (simp add: done_defs lens_def)

lemma update_db_done_lens [simp]: "lens (update_db_done st forces cr energy k s) n = lens s n"
  by (cases forces; cases energy) (simp_all add: update_db_done_def)

lemma add_one_env_done_lens [simp]: "lens (add_one_env_done env_new force k s) n = lens s n"
  by (simp add: done_defs lens_def)

lemma update_db_done_others:
  "j \<noteq> k \<Longrightarrow> stores_at (update_db_done st forces cr energy k s) j = stores_at s j"
  by (cases forces; cases energy) (simp_all add: done_defs stores_at_def)

lemma add_one_env_done_others:
  "j \<noteq> k \<Longrightarrow> stores_at (add_one_env_done env_new force k s) j = stores_at s j"
  by (simp add: done_defs stores_at_def)

lemma labels_current_views:
  "same_stores a b \<Longrightarrow> labels_current b k ff ef = labels_current a k ff ef"
  by (simp add: same_stores_def labels_current_def)

lemma cached_labels_current: "cached s \<Longrightarrow> lens s n \<Longrightarrow> k < n \<Longrightarrow> labels_current s k ff ef"
  by (simp add: cached_def lens_def labels_current_def)

lemma labels_current_stores:
  "stores_at a k = stores_at b k \<Longrightarrow> labels_current a k ff ef = labels_current b k ff ef"
  by (simp add: stores_at_def labels_current_def)

lemma route_labels_current:
  assumes l: "lens s n" and l1: "lens (snd (route expert_id s)) n1" and k: "k < n1"
    and c: "k < n \<Longrightarrow> labels_current s k ff ef"
  shows "labels_current (snd (route expert_id s)) k ff ef"
proof (cases "k < n")
  case True
  then show ?thesis
    using c labels_current_stores [OF route_lens(2) [OF l True, of expert_id]] by simp
next
  case False
  from route_shape [of expert_id s] obtain cur where
    "snd (route expert_id s) = s\<lparr>current_expert := cur\<rparr> \<or>
     snd (route expert_id s) = add_expert (s\<lparr>current_expert := cur\<rparr>)" by blast
  then show ?thesis
  proof
    assume "snd (route expert_id s) = s\<lparr>current_expert := cur\<rparr>"
    then have "n1 = n" using l l1 by (simp add: lens_def)
    then show ?thesis using False k by simp
  next
    assume a: "snd (route expert_id s) = add_expert (s\<lparr>current_expert := cur\<rparr>)"
    then have "n1 = Suc n" using l l1 by (simp add: lens_def add_expert_def add_container_def)
    then have "k = n" using False k by simp
    then show ?thesis
      using a l by (simp add: labels_current_def lens_def add_expert_def add_container_def nth_append)
  qed
qed

lemma update_db_done_labels:
  assumes "lens s n" and "k < n" and "labels_current s k (forces \<noteq> None) (energy \<noteq> None)"
  shows "all_labels (update_db_done st forces cr energy k s) ! k =
     concat (training_labels (update_db_done st forces cr energy k s) ! k) @
     energy_labels (update_db_done st forces cr energy k s) ! k"
    and "labels_current (update_db_done st forces cr energy k s) k False False"
  using assms
  by (cases forces; cases energy; simp add: done_defs lens_def labels_current_def)+

lemma add_one_env_done_labels:
  assumes "lens s n" and "k < n" and "labels_current s k True False"
  shows "all_labels (add_one_env_done env_new force k s) ! k =
     concat (training_labels (add_one_env_done env_new force k s) ! k) @
     energy_labels (add_one_env_done env_new force k s) ! k"
    and "labels_current (add_one_env_done env_new force k s) k False False"
  using assms by (simp_all add: done_defs lens_def labels_current_def)

lemma update_db_completed_at:
  assumes l: "lens s n" and t: "target expert_id s = Some k"
    and run: "update_db st forces cr energy expert_id s = (Inr (), s')"
  shows "j < n \<Longrightarrow> j \<noteq> k \<Longrightarrow> stores_at s' j = stores_at s j"
    and "(k < n \<Longrightarrow> labels_current s k (forces \<noteq> None) (energy \<noteq> None)) \<Longrightarrow>
      all_labels s' ! k = concat (training_labels s' ! k) @ energy_labels s' ! k \<and>
      labels_current s' k False False"
    and "cached s \<Longrightarrow> cached s'"
proof -
  let ?s1 = "snd (route expert_id s)"
  from run obtain e where r: "fst (route expert_id s) = Inr e"
    and at: "update_db_at st forces cr energy e ?s1 = (Inr (), s')"
    unfolding update_db_def by (auto elim!: then_do_OkE)
  from route_lens(1) [OF l, of expert_id] obtain n1 where l1: "lens ?s1 n1" by blast
  have k: "py_norm n1 e = Some k" using t r l1 by (simp add: target_def lens_def)
  have kn: "k < n1" using k by (rule py_norm_less)
  have s': "s' = update_db_done st forces cr energy k ?s1"
    by (rule update_db_at_Ok [OF k l1 at])
  show "stores_at s' j = stores_at s j" if "j < n" "j \<noteq> k"
    using that update_db_done_others [of j k] route_lens(2) [OF l, of j expert_id] s' by simp
  show "all_labels s' ! k = concat (training_labels s' ! k) @ energy_labels s' ! k \<and>
      labels_current s' k False False"
    if "k < n \<Longrightarrow> labels_current s k (forces \<noteq> None) (energy \<noteq> None)"
    unfolding s'
    using update_db_done_labels [OF l1 kn route_labels_current [OF l l1 kn that]] by simp
  show "cached s'" if "cached s"
    unfolding s' by (rule update_db_done_cached [OF l1 route_cached [OF that] kn])
qed

lemma add_one_env_completed_at:
  assumes l: "lens s n" and t: "target expert_id s = Some k"
    and run: "add_one_env ext env_new force do_train expert_id cb s = (Inr (), s')"
  shows "j < n \<Longrightarrow> j \<noteq> k \<Longrightarrow> stores_at s' j = stores_at s j"
    and "(k < n \<Longrightarrow> labels_current s k True False) \<Longrightarrow>
      all_labels s' ! k = concat (training_labels s' ! k) @ energy_labels s' ! k \<and>
      labels_current s' k False False"
    and "cached s \<Longrightarrow> cached s'"
proof -
  let ?s1 = "snd (route expert_id s)"
  from run obtain e where r: "fst (route expert_id s) = Inr e"
    and at: "add_one_env_at ext env_new force do_train cb e ?s1 = (Inr (), s')"
    unfolding add_one_env_def by (auto elim!: then_do_OkE)
  from route_lens(1) [OF l, of expert_id] obtain n1 where l1: "lens ?s1 n1" by blast
  have k: "py_norm n1 e = Some k" using t r l1 by (simp add: target_def lens_def)
  have kn: "k < n1" using k by (rule py_norm_less)
  let ?d = "add_one_env_done env_new force k ?s1"
  have same: "same_stores ?d s'" by (rule add_one_env_at_Ok [OF k l1 at])
  show "stores_at s' j = stores_at s j" if "j < n" "j \<noteq> k"
    using that add_one_env_done_others [of j k] route_lens(2) [OF l, of j expert_id]
      same_stores_views(2) [OF same, of j] by simp
  show "all_labels s' ! k = concat (training_labels s' ! k) @ energy_labels s' ! k \<and>
      labels_current s' k False False"
    if "k < n \<Longrightarrow> labels_current s k True False"
    using add_one_env_done_labels [OF l1 kn route_labels_current [OF l l1 kn that]]
      same_stores_views(3,4,5) [OF same] labels_current_views [OF same]
    by simp
  show "cached s'" if "cached s"
    using add_one_env_done_cached [OF l1 route_cached [OF that] kn]
      same_stores_views(1) [OF same] by simp
qed

section \<open>The number of experts after an update\<close>

lemma update_db_n_experts:
  "n_experts (snd (update_db st forces cr energy expert_id s)) = n_experts (snd (route expert_id s))"
proof (cases "fst (route expert_id s)")
  case (Inl e)
  then show ?thesis by (simp add: update_db_def then_do_def)
next
  case (Inr e)
  then show ?thesis
    using update_db_at_factors [of "snd (route expert_id s)" st forces cr energy e]
    by (simp add: update_db_def then_do_def same_factors_def)
qed

lemma add_one_env_n_experts:
  "n_experts (snd (add_one_env ext env_new force do_train expert_id cb s)) =
   n_experts (snd (route expert_id s))"
proof (cases "fst (route expert_id s)")
  case (Inl e)
  then show ?thesis by (simp add: add_one_env_def then_do_def)
next
  case (Inr e)
  then show ?thesis
    using add_one_env_at_routing [of "snd (route expert_id s)" ext env_new force do_train cb e]
    by (simp add: add_one_env_def then_do_def same_routing_def)
qed

lemma py_norm_new: "py_norm (Suc n) (int n) = Some n"
  by (simp add: py_norm_def)

lemma py_norm_beyond: "int n < e \<Longrightarrow> py_norm n e = None"
  by (simp add: py_norm_def)

lemma update_db_done_new:
  assumes "lens s (Suc n)" and "stores_at s n = empty_stores"
  shows "training_data (update_db_done st forces cr energy n s) ! n =
           (case forces of None \<Rightarrow> []
            | Some fs \<Rightarrow> map (AtomicEnvironment st) (update_indices_of st cr))"
    and "training_labels (update_db_done st forces cr energy n s) ! n =
           (case forces of None \<Rightarrow> []
            | Some fs \<Rightarrow> map (\<lambda>a. projr (py_get fs a)) (update_indices_of st cr))"
    and "energy_labels (update_db_done st forces cr energy n s) ! n =
           (case energy of None \<Rightarrow> [] | Some en \<Rightarrow> [en])"
  using assms
  by (cases forces; cases energy; simp add: done_defs lens_def stores_at_def empty_stores_def)+

lemma add_one_env_done_new:
  assumes "lens s (Suc n)" and "stores_at s n = empty_stores"
  shows "training_data (add_one_env_done env_new force n s) ! n = [env_new]"
    and "training_labels (add_one_env_done env_new force n s) ! n = [force]"
  using assms by (simp_all add: done_defs lens_def stores_at_def empty_stores_def)

section \<open>Synchronising the global dictionaries\<close>

lemma same_but_globals_refl [simp]: "same_but_globals s s"
  by (simp add: same_but_globals_def)

lemma same_but_globals_trans:
  "same_but_globals s s1 \<Longrightarrow> same_but_globals s1 s2 \<Longrightarrow> same_but_globals s s2"
  by (simp add: same_but_globals_def)

lemma same_but_globals_upd [simp]:
  "same_but_globals s (s1\<lparr>global_training_data := x1\<rparr>) = same_but_globals s s1"
  "same_but_globals s (s1\<lparr>global_training_labels := x2\<rparr>) = same_but_globals s s1"
  "same_but_globals s (s1\<lparr>global_training_structures := x3\<rparr>) = same_but_globals s s1"
  "same_but_globals s (s1\<lparr>global_energy_labels := x4\<rparr>) = same_but_globals s s1"
  by (simp_all add: same_but_globals_def)

lemma same_but_globals_fields:
  assumes "same_but_globals s s'"
  shows "n_experts s' = n_experts s" and "hyps s' = hyps s" and "alpha s' = alpha s"
    and "ky_mat_inv s' = ky_mat_inv s" and "training_data s' = training_data s"
    and "log_prior_var s' = log_prior_var s" and "prior_variance s' = prior_variance s"
    and "lens s' n = lens s n" and "entry_of s' i = entry_of s i"
  using assms by (simp_all add: same_but_globals_def lens_def entry_of_def)

lemma same_but_globals_kernel_vector:
  "same_but_globals s s' \<Longrightarrow> kernel_vector_of ext x d s' i = kernel_vector_of ext x d s i"
  by (simp add: kernel_vector_of_def same_but_globals_fields)

lemma same_but_globals_current:
  "same_but_globals s s' \<Longrightarrow> current ext x d s' i = current ext x d s i"
  by (simp add: current_def same_but_globals_fields same_but_globals_kernel_vector
      cong: option.case_cong)

lemma same_but_globals_all_current:
  "same_but_globals s s' \<Longrightarrow> all_current ext x d s' = all_current ext x d s"
  by (simp add: all_current_def same_but_globals_fields same_but_globals_current cong: list.pred_cong)

lemma same_but_globals_formula:
  assumes "same_but_globals s s'"
  shows "expert_mean ext x d s' i = expert_mean ext x d s i"
    and "expert_var ext x d s' i = expert_var ext x d s i"
    and "expert_beta ext x d s' i = expert_beta ext x d s i"
  using assms
  by (simp_all add: expert_mean_def expert_var_def expert_beta_def same_but_globals_fields
      same_but_globals_kernel_vector)

lemma sync_one_data_Ok:
  assumes "lens s n" and "i < n"
  shows "fst (sync_one_data (int i) s) = Inr ()"
    and "same_but_globals s (snd (sync_one_data (int i) s))"
    and "lookup_globals (int i) (snd (sync_one_data (int i) s)) = Inr (entry_of s i)"
    and "lookup_globals j s = Inr en \<Longrightarrow> lookup_globals j (snd (sync_one_data (int i) s)) \<noteq> Inl KeyError"
  using assms
  by (simp_all add: sync_one_data_def lens_def py_get_def py_norm_def try_get_Inr Let_def
      lookup_globals_def entry_of_def split: option.splits)

lemma then_do_Ok: "fst r = Inr a \<Longrightarrow> then_do r f = f a (snd r)"
  by (simp add: then_do_def)

lemma sync_one_data_keeps:
  assumes "lens s n" and "j < n" and "lookup_globals (int i) s = Inr (entry_of s i)"
  shows "lookup_globals (int i) (snd (sync_one_data (int j) s)) = Inr (entry_of s i)"
  using assms
  by (simp add: sync_one_data_def lens_def py_get_def py_norm_def try_get_Inr Let_def
      lookup_globals_def entry_of_def split: option.splits)

lemma sync_loop_Ok:
  assumes "lens s n" and "same_but_globals s0 s" and "\<forall>i\<in>set is. i < n"
    and "\<forall>i\<in>D. lookup_globals (int i) s = Inr (entry_of s0 i)"
  shows "fst (sync_loop is s) = Inr () \<and> same_but_globals s0 (snd (sync_loop is s)) \<and>
    (\<forall>i\<in>D \<union> set is. lookup_globals (int i) (snd (sync_loop is s)) = Inr (entry_of s0 i))"
  using assms
proof (induction "is" arbitrary: s D)
  case Nil
  then show ?case by simp
next
  case (Cons j rest)
  let ?s1 = "snd (sync_one_data (int j) s)"
  have j: "j < n" using Cons.prems(3) by simp
  note one = sync_one_data_Ok [OF Cons.prems(1) j]
  have e: "entry_of s i = entry_of s0 i" for i
    using same_but_globals_fields(9) [OF Cons.prems(2)] by simp
  have l1: "lens ?s1 n" using same_but_globals_fields(8) [OF one(2)] Cons.prems(1) by simp
  have g1: "same_but_globals s0 ?s1" by (rule same_but_globals_trans [OF Cons.prems(2) one(2)])
  have r1: "\<forall>i\<in>set rest. i < n" using Cons.prems(3) by simp
  have d1: "\<forall>i\<in>insert j D. lookup_globals (int i) ?s1 = Inr (entry_of s0 i)"
  proof
    fix i assume "i \<in> insert j D"
    then show "lookup_globals (int i) ?s1 = Inr (entry_of s0 i)"
    proof
      assume "i = j"
      then show ?thesis using one(3) e by simp
    next
      assume "i \<in> D"
      then have "lookup_globals (int i) s = Inr (entry_of s i)" using Cons.prems(4) e by simp
      from sync_one_data_keeps [OF Cons.prems(1) j this] show ?thesis using e by simp
    qed
  qed
  from Cons.IH [OF l1 g1 r1 d1] show ?case
    by (simp add: then_do_Ok [OF one(1)])
qed

lemma sync_data_Ok:
  assumes "well_formed s" and "same_but_globals s0 s"
  shows "fst (sync_data s) = Inr ()" and "same_but_globals s0 (snd (sync_data s))"
    and "i < nat (n_experts s) \<Longrightarrow>
           lookup_globals (int i) (snd (sync_data s)) = Inr (entry_of s0 i)"
proof -
  have l: "lens s (nat (n_experts s))" using assms(1) by (simp add: well_formed_def)
  have "fst (sync_data s) = Inr () \<and> same_but_globals s0 (snd (sync_data s)) \<and>
    (\<forall>i\<in>{} \<union> set [0..<nat (n_experts s)].
       lookup_globals (int i) (snd (sync_data s)) = Inr (entry_of s0 i))"
    unfolding sync_data_def by (rule sync_loop_Ok [OF l assms(2)]) simp_all
  then show "fst (sync_data s) = Inr ()" and "same_but_globals s0 (snd (sync_data s))"
    and "i < nat (n_experts s) \<Longrightarrow>
           lookup_globals (int i) (snd (sync_data s)) = Inr (entry_of s0 i)"
    by simp_all
qed

lemma well_formed_same_but_globals:
  "same_but_globals s s' \<Longrightarrow> well_formed s' = well_formed s"
  by (simp add: well_formed_def same_but_globals_fields)

lemma kernel_vectors_Ok:
  assumes "\<forall>i\<in>set is. lookup_globals (int i) s1 = Inr (entry_of s0 i)" and "hyps s1 = hyps s0"
  shows "kernel_vectors ext x d is s1 = Inr (map (kernel_vector_of ext x d s0) is)"
  using assms by (induction "is") (simp_all add: kernel_vector_of_def)

section \<open>Nothing to refresh\<close>

lemma check_loop_current:
  assumes "lens s n" and "\<forall>i\<in>set is. i < n \<and> current ext x d s i"
  shows "check_loop ext is s = (Inr (), s)"
  using assms(2)
proof (induction "is")
  case Nil
  show ?case by simp
next
  case (Cons i rest)
  have i: "i < n" and c: "current ext x d s i" using Cons.prems by simp_all
  from c obtain a where a: "alpha s ! i = Some a"
    and la: "length a = 3 * length (training_data s ! i)"
    by (auto simp: current_def split: option.splits)
  have rest: "check_loop ext rest s = (Inr (), s)" using Cons by simp
  show ?case
    using assms(1) i a la rest
    by (simp add: lens_def py_get_def py_norm_def try_get_Inr list_is_None_def Let_def
        mult.commute)
qed

lemma check_L_alpha_current:
  assumes "well_formed s" and "all_current ext x d s"
  shows "fst (check_L_alpha ext s) = Inr ()" and "same_but_globals s (snd (check_L_alpha ext s))"
proof -
  let ?s1 = "snd (sync_data s)"
  note sy = sync_data_Ok [OF assms(1) same_but_globals_refl]
  have n1: "n_experts ?s1 = n_experts s" by (rule same_but_globals_fields(1) [OF sy(2)])
  have l1: "lens ?s1 (nat (n_experts s))"
    using assms(1) same_but_globals_fields(8) [OF sy(2)] by (simp add: well_formed_def)
  have "\<forall>i\<in>set [0..<nat (n_experts s)]. i < nat (n_experts s) \<and> current ext x d ?s1 i"
    using assms(2) same_but_globals_current [OF sy(2)]
    by (simp add: all_current_def list_all_iff)
  from check_loop_current [OF l1 this] have "check_L_alpha ext s = (Inr (), ?s1)"
    using n1 by (simp add: check_L_alpha_def then_do_Ok [OF sy(1)])
  then show "fst (check_L_alpha ext s) = Inr ()"
    and "same_but_globals s (snd (check_L_alpha ext s))"
    using sy(2) by simp_all
qed

section \<open>The aggregation\<close>

lemma sum_list_nth: "sum_list (xs :: real list) = (\<Sum>i<length xs. xs ! i)"
  by (simp add: sum_list_sum_nth atLeast0LessThan)

lemma dot_sum: "length xs = length ys \<Longrightarrow> dot xs ys = (\<Sum>i<length xs. xs ! i * ys ! i)"
  by (simp add: dot_def sum_list_nth)

lemma matmul_quad:
  assumes "length m = length k" and "ncols m = length k"
  shows "\<exists>kk. matmul_vm k (Some m) = Inr kk \<and> matmul_vv kk (Some k) = Inr (quad_form k m)"
proof -
  let ?n = "length k"
  let ?kk = "map (\<lambda>j. sum_list (map (\<lambda>(x, row). x * row ! j) (zip k m))) [0..<?n]"
  have vm: "matmul_vm k (Some m) = Inr ?kk" using assms by (simp add: matmul_vm_def)
  have col: "?kk ! j = (\<Sum>a<?n. k ! a * (m ! a ! j))" if "j < ?n" for j
    using that assms(1) by (simp add: sum_list_nth)
  have "dot ?kk k = (\<Sum>j<?n. ?kk ! j * k ! j)" by (simp add: dot_sum)
  also have "\<dots> = (\<Sum>j<?n. (\<Sum>a<?n. k ! a * (m ! a ! j)) * k ! j)"
    using col by simp
  also have "\<dots> = (\<Sum>j<?n. \<Sum>a<?n. k ! a * (m ! a ! j) * k ! j)"
    by (simp add: sum_distrib_right)
  also have "\<dots> = (\<Sum>a<?n. \<Sum>j<?n. k ! a * (m ! a ! j) * k ! j)"
    by (rule sum.swap)
  finally have "dot ?kk k = quad_form k m" by (simp add: quad_form_def)
  then have "matmul_vv ?kk (Some k) = Inr (quad_form k m)" by (simp add: matmul_vv_def)
  with vm show ?thesis by blast
qed

lemma sum_list_upt: "(\<Sum>i\<leftarrow>[0..<n]. f i) = (\<Sum>i<n. (f i :: real))"
  by (simp add: interv_sum_list_conv_sum_set_nat atLeast0LessThan)

section \<open>Methods that keep the shape of the model\<close>

lemma same_shape_refl [simp]: "same_shape s s"
  by (simp add: same_shape_def)

lemma same_shape_trans: "same_shape s s1 \<Longrightarrow> same_shape s1 s2 \<Longrightarrow> same_shape s s2"
  by (simp add: same_shape_def)

lemma same_shape_upd [simp]:
  "same_shape s (s1\<lparr>prior_variance := x_prior_variance\<rparr>) = same_shape s s1"
  "same_shape (s1\<lparr>prior_variance := x_prior_variance\<rparr>) s2 = same_shape s1 s2"
  "same_shape s (s1\<lparr>log_prior_var := x_log_prior_var\<rparr>) = same_shape s s1"
  "same_shape (s1\<lparr>log_prior_var := x_log_prior_var\<rparr>) s2 = same_shape s1 s2"
  "same_shape s (s1\<lparr>ndata_per_expert := x_ndata_per_expert\<rparr>) = same_shape s s1"
  "same_shape (s1\<lparr>ndata_per_expert := x_ndata_per_expert\<rparr>) s2 = same_shape s1 s2"
  "same_shape s (s1\<lparr>current_expert := x_current_expert\<rparr>) = same_shape s s1"
  "same_shape (s1\<lparr>current_expert := x_current_expert\<rparr>) s2 = same_shape s1 s2"
  "same_shape s (s1\<lparr>hyps := x_hyps\<rparr>) = same_shape s s1"
  "same_shape (s1\<lparr>hyps := x_hyps\<rparr>) s2 = same_shape s1 s2"
  "same_shape s (s1\<lparr>opt_algorithm := x_opt_algorithm\<rparr>) = same_shape s s1"
  "same_shape (s1\<lparr>opt_algorithm := x_opt_algorithm\<rparr>) s2 = same_shape s1 s2"
  "same_shape s (s1\<lparr>bounds := x_bounds\<rparr>) = same_shape s s1"
  "same_shape (s1\<lparr>bounds := x_bounds\<rparr>) s2 = same_shape s1 s2"
  "same_shape s (s1\<lparr>logger := x_logger\<rparr>) = same_shape s s1"
  "same_shape (s1\<lparr>logger := x_logger\<rparr>) s2 = same_shape s1 s2"
  "same_shape s (s1\<lparr>total_likelihood := x_total_likelihood\<rparr>) = same_shape s s1"
  "same_shape (s1\<lparr>total_likelihood := x_total_likelihood\<rparr>) s2 = same_shape s1 s2"
  "same_shape s (s1\<lparr>total_likelihood_gradient := x_total_likelihood_gradient\<rparr>) = same_shape s s1"
  "same_shape (s1\<lparr>total_likelihood_gradient := x_total_likelihood_gradient\<rparr>) s2 = same_shape s1 s2"
  "same_shape s (s1\<lparr>global_training_data := x_global_training_data\<rparr>) = same_shape s s1"
  "same_shape (s1\<lparr>global_training_data := x_global_training_data\<rparr>) s2 = same_shape s1 s2"
  "same_shape s (s1\<lparr>global_training_labels := x_global_training_labels\<rparr>) = same_shape s s1"
  "same_shape (s1\<lparr>global_training_labels := x_global_training_labels\<rparr>) s2 = same_shape s1 s2"
  "same_shape s (s1\<lparr>global_training_structures := x_global_training_structures\<rparr>) = same_shape s s1"
  "same_shape (s1\<lparr>global_training_structures := x_global_training_structures\<rparr>) s2 = same_shape s1 s2"
  "same_shape s (s1\<lparr>global_energy_labels := x_global_energy_labels\<rparr>) = same_shape s s1"
  "same_shape (s1\<lparr>global_energy_labels := x_global_energy_labels\<rparr>) s2 = same_shape s1 s2"
  "same_shape s (s1\<lparr>n_Ky_builds := x_n_Ky_builds\<rparr>) = same_shape s s1"
  "same_shape (s1\<lparr>n_Ky_builds := x_n_Ky_builds\<rparr>) s2 = same_shape s1 s2"
  by (simp_all add: same_shape_def)

lemma same_shape_list_upd:
  "length y_training_data = length (training_data s1) \<Longrightarrow> same_shape s (s1\<lparr>training_data := y_training_data\<rparr>) = same_shape s s1"
  "length y_training_data = length (training_data s1) \<Longrightarrow> same_shape (s1\<lparr>training_data := y_training_data\<rparr>) s2 = same_shape s1 s2"
  "length y_training_labels = length (training_labels s1) \<Longrightarrow> same_shape s (s1\<lparr>training_labels := y_training_labels\<rparr>) = same_shape s s1"
  "length y_training_labels = length (training_labels s1) \<Longrightarrow> same_shape (s1\<lparr>training_labels := y_training_labels\<rparr>) s2 = same_shape s1 s2"
  "length y_training_labels_np = length (training_labels_np s1) \<Longrightarrow> same_shape s (s1\<lparr>training_labels_np := y_training_labels_np\<rparr>) = same_shape s s1"
  "length y_training_labels_np = length (training_labels_np s1) \<Longrightarrow> same_shape (s1\<lparr>training_labels_np := y_training_labels_np\<rparr>) s2 = same_shape s1 s2"
  "length y_n_envs_prev = length (n_envs_prev s1) \<Longrightarrow> same_shape s (s1\<lparr>n_envs_prev := y_n_envs_prev\<rparr>) = same_shape s s1"
  "length y_n_envs_prev = length (n_envs_prev s1) \<Longrightarrow> same_shape (s1\<lparr>n_envs_prev := y_n_envs_prev\<rparr>) s2 = same_shape s1 s2"
  "length y_training_structures = length (training_structures s1) \<Longrightarrow> same_shape s (s1\<lparr>training_structures := y_training_structures\<rparr>) = same_shape s s1"
  "length y_training_structures = length (training_structures s1) \<Longrightarrow> same_shape (s1\<lparr>training_structures := y_training_structures\<rparr>) s2 = same_shape s1 s2"
  "length y_energy_labels = length (energy_labels s1) \<Longrightarrow> same_shape s (s1\<lparr>energy_labels := y_energy_labels\<rparr>) = same_shape s s1"
  "length y_energy_labels = length (energy_labels s1) \<Longrightarrow> same_shape (s1\<lparr>energy_labels := y_energy_labels\<rparr>) s2 = same_shape s1 s2"
  "length y_energy_labels_np = length (energy_labels_np s1) \<Longrightarrow> same_shape s (s1\<lparr>energy_labels_np := y_energy_labels_np\<rparr>) = same_shape s s1"
  "length y_energy_labels_np = length (energy_labels_np s1) \<Longrightarrow> same_shape (s1\<lparr>energy_labels_np := y_energy_labels_np\<rparr>) s2 = same_shape s1 s2"
  "length y_all_labels = length (all_labels s1) \<Longrightarrow> same_shape s (s1\<lparr>all_labels := y_all_labels\<rparr>) = same_shape s s1"
  "length y_all_labels = length (all_labels s1) \<Longrightarrow> same_shape (s1\<lparr>all_labels := y_all_labels\<rparr>) s2 = same_shape s1 s2"
  "length y_ky_mat = length (ky_mat s1) \<Longrightarrow> same_shape s (s1\<lparr>ky_mat := y_ky_mat\<rparr>) = same_shape s s1"
  "length y_ky_mat = length (ky_mat s1) \<Longrightarrow> same_shape (s1\<lparr>ky_mat := y_ky_mat\<rparr>) s2 = same_shape s1 s2"
  "length y_force_block = length (force_block s1) \<Longrightarrow> same_shape s (s1\<lparr>force_block := y_force_block\<rparr>) = same_shape s s1"
  "length y_force_block = length (force_block s1) \<Longrightarrow> same_shape (s1\<lparr>force_block := y_force_block\<rparr>) s2 = same_shape s1 s2"
  "length y_energy_block = length (energy_block s1) \<Longrightarrow> same_shape s (s1\<lparr>energy_block := y_energy_block\<rparr>) = same_shape s s1"
  "length y_energy_block = length (energy_block s1) \<Longrightarrow> same_shape (s1\<lparr>energy_block := y_energy_block\<rparr>) s2 = same_shape s1 s2"
  "length y_force_energy_block = length (force_energy_block s1) \<Longrightarrow> same_shape s (s1\<lparr>force_energy_block := y_force_energy_block\<rparr>) = same_shape s s1"
  "length y_force_energy_block = length (force_energy_block s1) \<Longrightarrow> same_shape (s1\<lparr>force_energy_block := y_force_energy_block\<rparr>) s2 = same_shape s1 s2"
  "length y_l_mat = length (l_mat s1) \<Longrightarrow> same_shape s (s1\<lparr>l_mat := y_l_mat\<rparr>) = same_shape s s1"
  "length y_l_mat = length (l_mat s1) \<Longrightarrow> same_shape (s1\<lparr>l_mat := y_l_mat\<rparr>) s2 = same_shape s1 s2"
  "length y_alpha = length (alpha s1) \<Longrightarrow> same_shape s (s1\<lparr>alpha := y_alpha\<rparr>) = same_shape s s1"
  "length y_alpha = length (alpha s1) \<Longrightarrow> same_shape (s1\<lparr>alpha := y_alpha\<rparr>) s2 = same_shape s1 s2"
  "length y_ky_mat_inv = length (ky_mat_inv s1) \<Longrightarrow> same_shape s (s1\<lparr>ky_mat_inv := y_ky_mat_inv\<rparr>) = same_shape s s1"
  "length y_ky_mat_inv = length (ky_mat_inv s1) \<Longrightarrow> same_shape (s1\<lparr>ky_mat_inv := y_ky_mat_inv\<rparr>) s2 = same_shape s1 s2"
  "length y_likelihood = length (likelihood s1) \<Longrightarrow> same_shape s (s1\<lparr>likelihood := y_likelihood\<rparr>) = same_shape s s1"
  "length y_likelihood = length (likelihood s1) \<Longrightarrow> same_shape (s1\<lparr>likelihood := y_likelihood\<rparr>) s2 = same_shape s1 s2"
  by (simp_all add: same_shape_def)

lemma py_lengths:
  "py_set xs e v = Inr xs' \<Longrightarrow> length xs' = length xs"
  "append_at xss e x = Inr xss' \<Longrightarrow> length xss' = length xss"
  "incr_at ns e = Inr ns' \<Longrightarrow> length ns' = length ns"
  by (auto simp: py_set_def append_at_def incr_at_def split: option.splits)

lemmas shape_simps = same_shape_list_upd py_lengths

lemma then_do_shape:
  assumes "same_shape s (snd r)" and "\<And>a s1. same_shape s1 (snd (f a s1))"
  shows "same_shape s (snd (then_do r f))"
proof (cases "fst r")
  case (Inl e)
  then show ?thesis using assms(1) by (simp add: then_do_def)
next
  case (Inr a)
  then show ?thesis
    using same_shape_trans [OF assms(1) assms(2)] by (simp add: then_do_def)
qed

lemma try_get_shape:
  assumes "same_shape s0 s" and "\<And>a. r = Inr a \<Longrightarrow> same_shape s0 (snd (f a))"
  shows "same_shape s0 (snd (try_get r s f))"
  using assms by (cases r) (simp_all add: try_get_def)

lemma if_shape:
  "same_shape s (snd a) \<Longrightarrow> same_shape s (snd b) \<Longrightarrow> same_shape s (snd (if c then a else b))"
  by simp

lemma sync_one_data_shape: "same_shape s (snd (sync_one_data e s))"
  unfolding sync_one_data_def Let_def
  by (intro if_shape try_get_shape; simp add: shape_simps)

lemma sync_loop_shape: "same_shape s (snd (sync_loop is s))"
  by (induction "is" arbitrary: s) (simp_all add: then_do_shape sync_one_data_shape)

lemma sync_data_shape: "same_shape s (snd (sync_data s))"
  by (simp add: sync_data_def sync_loop_shape)

lemma compute_one_matrices_shape: "same_shape s (snd (compute_one_matrices ext ky e s))"
  unfolding compute_one_matrices_def Let_def
  by (simp split: option.split, intro allI impI conjI try_get_shape; simp add: shape_simps)

lemma set_likelihood_shape: "same_shape s (snd (set_likelihood ext e s))"
  unfolding set_likelihood_def
  by (intro try_get_shape; simp add: shape_simps)

lemma set_L_alpha_part_shape: "same_shape s (snd (set_L_alpha_part ext e s))"
proof -
  have "same_shape s1 (snd (compute_one_matrices ext ky e (s1\<lparr>n_Ky_builds := n\<rparr>)))" for s1 ky n
    using compute_one_matrices_shape [of "s1\<lparr>n_Ky_builds := n\<rparr>" ext ky e] by simp
  then show ?thesis
    unfolding set_L_alpha_part_def
    by (intro then_do_shape try_get_shape; simp add: sync_one_data_shape set_likelihood_shape)
qed

lemma update_L_alpha_shape: "same_shape s (snd (update_L_alpha ext e s))"
  unfolding update_L_alpha_def
  by (rule try_get_shape, simp)
     (simp split: option.split add: set_L_alpha_part_shape try_get_shape)

lemma check_loop_shape: "same_shape s (snd (check_loop ext is s))"
proof (induction "is" arbitrary: s)
  case Nil
  show ?case by simp
next
  case (Cons i rest)
  have upd: "same_shape s (snd (then_do (update_L_alpha ext (int i) s)
      (\<lambda>u s1. check_loop ext rest s1)))"
    by (intro then_do_shape; simp add: update_L_alpha_shape Cons.IH)
  have part: "same_shape s (snd (then_do (set_L_alpha_part ext (int i) s)
      (\<lambda>u s1. check_loop ext rest s1)))"
    by (intro then_do_shape; simp add: set_L_alpha_part_shape Cons.IH)
  show ?case
    unfolding check_loop.simps Let_def
    by (rule try_get_shape, simp)
       (simp add: upd part Cons.IH try_get_shape split: option.split)
qed

lemma check_L_alpha_shape: "same_shape s (snd (check_L_alpha ext s))"
  unfolding check_L_alpha_def
  by (intro then_do_shape; simp add: sync_data_shape check_loop_shape)

lemma set_L_alpha_loop_shape: "same_shape s (snd (set_L_alpha_loop ext is s))"
proof (induction "is" arbitrary: s)
  case Nil
  show ?case by simp
next
  case (Cons i rest)
  have "same_shape s (snd (compute_one_matrices ext ky e (s\<lparr>n_Ky_builds := n\<rparr>)))" for ky n e
    using compute_one_matrices_shape [of "s\<lparr>n_Ky_builds := n\<rparr>" ext ky e] by simp
  then show ?case
    unfolding set_L_alpha_loop.simps
    by (intro if_shape then_do_shape try_get_shape; simp add: set_likelihood_shape Cons.IH shape_simps)
qed

lemma set_L_alpha_shape: "same_shape s (snd (set_L_alpha ext s))"
  unfolding set_L_alpha_def
  by (intro then_do_shape if_shape; simp add: sync_data_shape set_L_alpha_loop_shape)

lemma predict_shape: "same_shape s (snd (predict ext x d s))"
  unfolding predict_def Let_def
  by (intro if_shape then_do_shape try_get_shape; simp add: sync_data_shape check_L_alpha_shape)

lemma minimize_case_shape:
  "same_shape s (snd (case r of Inl e \<Rightarrow> (Inl e, s) | Inr x \<Rightarrow> (Inr (Some x), s)))"
  by (cases r) simp_all

lemma train_shape: "same_shape s (snd (train ext cb s))"
proof -
  have hy: "same_shape s3 (snd (set_L_alpha ext (s3\<lparr>hyps := h\<rparr>)))" for s3 h
    using set_L_alpha_shape [of "s3\<lparr>hyps := h\<rparr>" ext] by simp
  have fin: "same_shape s3 (snd (case res of None \<Rightarrow> (Inl RuntimeError, s3)
      | Some r \<Rightarrow> then_do (set_L_alpha ext (s3\<lparr>hyps := res_x r\<rparr>)) (\<lambda>u s4.
          (Inr r, s4\<lparr>total_likelihood := Some (- res_fun r),
                     total_likelihood_gradient := Some (map uminus (res_jac r))\<rparr>))))" for s3 res
    by (cases res) (simp_all add: then_do_shape hy)
  have st1: "same_shape s1 (snd (try_get b s1 (\<lambda>b.
       case minimize ext func x_0 (L_BFGS_B b) of
         Inl e \<Rightarrow>
           if e = LinAlgError
           then (if logger s1 then (Inr None, s1\<lparr>opt_algorithm := ''BFGS''\<rparr>)
                 else (Inl AttributeError, s1))
           else (Inl e, s1)
       | Inr r \<Rightarrow> (Inr (Some r), s1))))" for s1 b func x_0
    by (rule try_get_shape) (simp_all split: sum.split)
  have st2: "same_shape s2 (snd (case cb of
             Some cb \<Rightarrow>
               (case minimize ext func x_0 (L_BFGS_B cb) of Inl e \<Rightarrow> (Inl e, s2)
                | Inr r \<Rightarrow> (Inr (Some r), s2))
           | None \<Rightarrow>
               if opt_algorithm s2 = ''BFGS''
               then (case minimize ext func x_0 BFGS of Inl e \<Rightarrow> (Inl e, s2)
                     | Inr r \<Rightarrow> (Inr (Some r), s2))
               else (Inr res1, s2)))" for s2 func x_0 res1
    by (cases cb) (simp_all add: minimize_case_shape)
  show ?thesis
    unfolding train_def Let_def
    by (cases "length (training_data s) = 0 \<or> length (training_labels s) = 0")
       (simp_all only: if_True if_False snd_conv same_shape_refl,
        intro then_do_shape sync_data_shape fin st2, simp add: st1)
qed

lemma update_db_forces_shape: "same_shape s (snd (update_db_forces st fs e atoms s))"
proof (induction atoms arbitrary: s)
  case Nil
  show ?case by simp
next
  case (Cons atom rest)
  have "same_shape s (snd (update_db_forces st fs e rest
      (s\<lparr>training_data := td, training_labels := tl, n_envs_prev := np\<rparr>)))"
    if "length td = length (training_data s)" "length tl = length (training_labels s)"
      "length np = length (n_envs_prev s)" for td tl np
    using Cons.IH [of "s\<lparr>training_data := td, training_labels := tl, n_envs_prev := np\<rparr>"] that
    by (simp add: shape_simps)
  then show ?case
    unfolding update_db_forces.simps
    by (intro try_get_shape; simp add: shape_simps)
qed

lemma refresh_labels_np_shape: "same_shape s (snd (refresh_labels_np e s))"
  unfolding refresh_labels_np_def by (intro try_get_shape; simp add: shape_simps)

lemma update_db_energy_shape: "same_shape s (snd (update_db_energy st en e s))"
  unfolding update_db_energy_def Let_def by (intro try_get_shape; simp add: shape_simps)

lemma refresh_all_labels_shape: "same_shape s (snd (refresh_all_labels e s))"
  unfolding refresh_all_labels_def by (intro try_get_shape; simp add: shape_simps)

lemma update_db_at_shape: "same_shape s (snd (update_db_at st forces cr energy e s))"
proof -
  have f: "same_shape s (snd (case forces of None \<Rightarrow> (Inr (), s)
      | Some fs \<Rightarrow> then_do (update_db_forces st fs e ixs s) (\<lambda>u s. refresh_labels_np e s)))" for ixs
    by (cases forces)
       (simp_all add: then_do_shape update_db_forces_shape refresh_labels_np_shape)
  have en: "same_shape s2 (snd (case energy of None \<Rightarrow> (Inr (), s2)
      | Some en \<Rightarrow> update_db_energy st en e s2))" for s2
    by (cases energy) (simp_all add: update_db_energy_shape)
  show ?thesis
    unfolding update_db_at_def Let_def
    by (intro then_do_shape f en refresh_all_labels_shape)
qed

lemma add_one_env_at_shape:
  "same_shape s (snd (add_one_env_at ext env_new force do_train cb e s))"
proof -
  have al: "same_shape s4 (snd (refresh_all_labels e (s4\<lparr>n_envs_prev := np\<rparr>)))"
    if "length np = length (n_envs_prev s4)" for s4 np
    using refresh_all_labels_shape [of "s4\<lparr>n_envs_prev := np\<rparr>" e] that by (simp add: shape_simps)
  have np: "same_shape s1 (snd (refresh_labels_np e (s1\<lparr>training_data := td, training_labels := tl\<rparr>)))"
    if "length td = length (training_data s1)" "length tl = length (training_labels s1)"
    for s1 td tl
    using refresh_labels_np_shape [of "s1\<lparr>training_data := td, training_labels := tl\<rparr>" e] that
    by (simp add: shape_simps)
  show ?thesis
    unfolding add_one_env_at_def Let_def
    by (intro if_shape then_do_shape try_get_shape; simp add: al np train_shape shape_simps)
qed


section \<open>Well-formed models stay well-formed\<close>

lemma well_formed_shape: "same_shape s s' \<Longrightarrow> well_formed s \<Longrightarrow> well_formed s'"
  by (simp add: same_shape_def well_formed_def lens_def)

lemma well_formed_current [simp]: "well_formed (s\<lparr>current_expert := c\<rparr>) = well_formed s"
  by (simp add: well_formed_def)

lemma well_formed_add_expert: "well_formed s \<Longrightarrow> well_formed (add_expert s)"
  by (simp add: well_formed_def lens_def add_expert_def add_container_def nat_add_distrib)

lemma well_formed_route: "well_formed s \<Longrightarrow> well_formed (snd (route expert_id s))"
  using route_shape [of expert_id s] by (auto simp: well_formed_add_expert)

lemma well_formed_find: "well_formed s \<Longrightarrow> well_formed (snd (find_expert_to_add s))"
  using find_expert_to_add_cases [of s] by auto

lemma well_formed_update_db:
  "well_formed s \<Longrightarrow> well_formed (snd (update_db st forces cr energy expert_id s))"
  using well_formed_route [of s expert_id]
    update_db_at_shape [of "snd (route expert_id s)" st forces cr energy]
  by (cases "fst (route expert_id s)")
     (auto simp: update_db_def then_do_def intro: well_formed_shape)

lemma well_formed_add_one_env:
  "well_formed s \<Longrightarrow>
   well_formed (snd (add_one_env ext env_new force do_train expert_id cb s))"
  using well_formed_route [of s expert_id]
    add_one_env_at_shape [of "snd (route expert_id s)" ext env_new force do_train cb]
  by (cases "fst (route expert_id s)")
     (auto simp: add_one_env_def then_do_def intro: well_formed_shape)

lemma well_formed_apply_op:
  assumes "well_formed s" and "c \<noteq> Op_add_container"
  shows "well_formed (apply_op ext c s)"
proof (cases c)
  case Op_add_container
  then show ?thesis using assms(2) by simp
next
  case (Op_write_model name format)
  then show ?thesis using assms(1) by (simp add: write_model_def Let_def well_formed_def lens_def)
qed (use assms(1) in \<open>simp_all add: well_formed_find well_formed_update_db well_formed_add_one_env
      well_formed_shape [OF train_shape] well_formed_shape [OF check_L_alpha_shape]
      well_formed_shape [OF predict_shape] well_formed_shape [OF set_L_alpha_shape]
      well_formed_shape [OF set_L_alpha_part_shape] well_formed_shape [OF update_L_alpha_shape]
      well_formed_shape [OF compute_one_matrices_shape] well_formed_shape [OF sync_data_shape]
      well_formed_shape [OF sync_one_data_shape]\<close>)

lemma well_formed_run:
  assumes "well_formed s" and "Op_add_container \<notin> set cs"
  shows "well_formed (snd (run ext cs s))"
  using assms
proof (induction cs arbitrary: s)
  case Nil
  then show ?case by simp
next
  case (Cons c cs)
  then have "well_formed (apply_op ext c s)" by (auto intro: well_formed_apply_op)
  with Cons show ?case by (simp add: Let_def)
qed

lemma fold_add_container:
  assumes "lens b 0" and "cached b"
  shows "lens (fold (\<lambda>i. add_container) [0..<k] b) k \<and> cached (fold (\<lambda>i. add_container) [0..<k] b)
    \<and> n_experts (fold (\<lambda>i. add_container) [0..<k] b) = n_experts b"
proof (induction k)
  case 0
  show ?case using assms by simp
next
  case (Suc k)
  then show ?case
    by (simp add: lens_def cached_def add_container_def)
qed

lemma rbcm_init_well_formed:
  assumes "0 \<le> n"
  shows "well_formed (rbcm_init n ndata prior hs)" and "cached (rbcm_init n ndata prior hs)"
proof -
  define b where "b = \<lparr> n_experts = n, prior_variance = prior, log_prior_var = ln prior,
         ndata_per_expert = ndata, current_expert = 0, hyps = hs,
         opt_algorithm = ''L-BFGS-B'', bounds = None, logger = True,
         training_data = [], training_labels = [], training_labels_np = [],
         n_envs_prev = [], training_structures = [], energy_labels = [],
         energy_labels_np = [], all_labels = [], ky_mat = [], force_block = [],
         energy_block = [], force_energy_block = [], l_mat = [], alpha = [],
         ky_mat_inv = [], likelihood = [], total_likelihood = None,
         total_likelihood_gradient = None,
         global_training_data = (\<lambda>i. None), global_training_labels = (\<lambda>i. None),
         global_training_structures = (\<lambda>i. None), global_energy_labels = (\<lambda>i. None),
         n_Ky_builds = 0 \<rparr>"
  have "lens b 0" and "cached b" and "n_experts b = n"
    by (simp_all add: b_def lens_def cached_def)
  with fold_add_container [of b "nat n"] assms
  show "well_formed (rbcm_init n ndata prior hs)" and "cached (rbcm_init n ndata prior hs)"
    by (simp_all add: rbcm_init_def b_def [symmetric] well_formed_def)
qed

section \<open>Calls that keep the copies of the labels up to date\<close>

text \<open>
  Whether it returns or raises, every call keeps the numpy copies of the label lists up
  to date, an \<^verbatim>\<open>update_db\<close> that raises inside its loop over the atoms apart. So they
  are up to date in every state that such calls reach from the constructor.
\<close>

lemma then_do_consistent:
  assumes "consistent (snd r) n" and "\<And>a s1. consistent s1 n \<Longrightarrow> consistent (snd (f a s1)) n"
  shows "consistent (snd (then_do r f)) n"
  using assms by (cases "fst r") (simp_all add: then_do_def)

lemma consistent_kept:
  "same_stores s s' \<Longrightarrow> same_shape s s' \<Longrightarrow> consistent s n \<Longrightarrow> consistent s' n"
  by (simp add: consistent_def same_stores_views(1) same_shape_def lens_def)

lemma update_db_forces_all:
  assumes "py_norm n e = Some k"
    and "length (training_data s) = n" "length (training_labels s) = n"
    and "length (n_envs_prev s) = n"
    and "\<forall>atom\<in>set atoms. py_norm (length fs) atom \<noteq> None"
  shows "update_db_forces st fs e atoms s = (Inr (), forces_done st fs atoms k s)"
  using assms(2-)
proof (induction atoms arbitrary: s)
  case Nil
  then show ?case by (simp add: forces_done_def)
next
  case (Cons atom rest)
  have k: "k < n" using assms(1) by (rule py_norm_less)
  from Cons.prems(4) obtain j where j: "py_norm (length fs) atom = Some j" by auto
  let ?s2 = "s\<lparr>training_data := (training_data s)[k := training_data s ! k @ [AtomicEnvironment st atom]],
      training_labels := (training_labels s)[k := training_labels s ! k @ [fs ! j]],
      n_envs_prev := (n_envs_prev s)[k := n_envs_prev s ! k + 1]\<rparr>"
  have step: "update_db_forces st fs e (atom # rest) s = update_db_forces st fs e rest ?s2"
    using j assms(1) Cons.prems(1-3) by (simp add: seq_simps py_get_def append_at_def incr_at_def)
  have "update_db_forces st fs e rest ?s2 = (Inr (), forces_done st fs rest k ?s2)"
    by (rule Cons.IH) (use Cons.prems in simp_all)
  then show ?case
    unfolding step using k j Cons.prems(1-3) by (simp add: forces_done_def py_get_def add.assoc)
qed

lemma forces_step_consistent:
  assumes c: "consistent s n"
    and a: "\<forall>atom\<in>set atoms. py_norm (length fs) atom \<noteq> None"
  shows "consistent (snd (then_do (update_db_forces st fs e atoms s)
                            (\<lambda>u s. refresh_labels_np e s))) n"
proof (cases "py_norm n e")
  case None
  then have "py_norm (length (training_data s)) e = None"
    and "py_norm (length (training_labels s)) e = None"
    using c by (simp_all add: consistent_def lens_def)
  then show ?thesis
    using c update_db_forces_no_index [of s e st fs atoms]
    by (simp add: seq_simps refresh_labels_np_def py_get_def)
next
  case (Some k)
  have k: "k < n" using Some by (rule py_norm_less)
  have l: "lens s n" and ca: "cached s" using c by (simp_all add: consistent_def)
  let ?s1 = "forces_done st fs atoms k s"
  have f: "update_db_forces st fs e atoms s = (Inr (), ?s1)"
    using l by (intro update_db_forces_all [OF Some _ _ _ a]) (simp_all add: lens_def)
  have l1: "lens ?s1 n" using l by simp
  show ?thesis
  proof (cases "training_labels ?s1 ! k = []")
    case True
    then have "refresh_labels_np e ?s1 = (Inl ValueError, ?s1)"
      using l1 Some by (simp add: refresh_labels_np_def lens_def py_get_def hstack_def seq_simps)
    moreover have "atoms = []"
      using True l k by (simp add: forces_done_def lens_def)
    then have "cached ?s1" using ca by (simp add: forces_done_def cached_def)
    ultimately show ?thesis using f l1 by (simp add: seq_simps consistent_def)
  next
    case False
    then have "refresh_labels_np e ?s1 = (Inr (), labels_np_done k ?s1)"
      using l1 Some
      by (simp add: refresh_labels_np_def lens_def py_get_def py_set_def hstack_def seq_simps
          labels_np_done_def)
    moreover have "cached (labels_np_done k ?s1)"
      using ca l k by (simp add: cached_def done_defs lens_def map_update)
    ultimately show ?thesis using f l1 by (simp add: seq_simps consistent_def)
  qed
qed

lemma update_db_energy_consistent:
  assumes "consistent s n"
  shows "consistent (snd (update_db_energy st en e s)) n"
proof (cases "py_norm n e")
  case None
  then show ?thesis
    using assms
    by (simp add: update_db_energy_def consistent_def lens_def append_at_def seq_simps Let_def)
next
  case (Some k)
  have k: "k < n" using Some by (rule py_norm_less)
  have "update_db_energy st en e s = (Inr (), energy_done st en k s)"
    using assms Some k
    by (simp add: update_db_energy_def consistent_def lens_def py_get_def py_set_def
        append_at_def seq_simps energy_done_def Let_def)
  then show ?thesis
    using assms k by (simp add: consistent_def cached_def energy_done_def lens_def)
qed

lemma refresh_all_labels_consistent:
  assumes "consistent s n"
  shows "consistent (snd (refresh_all_labels e s)) n"
  using assms
  by (cases "py_norm n e")
     (simp_all add: refresh_all_labels_def consistent_def lens_def cached_def py_get_def
       py_set_def seq_simps)

lemma update_db_at_consistent:
  assumes "consistent s n"
    and "\<And>fs. forces = Some fs \<Longrightarrow>
           \<forall>atom\<in>set (update_indices_of st custom_range). py_norm (length fs) atom \<noteq> None"
  shows "consistent (snd (update_db_at st forces custom_range energy e s)) n"
  unfolding update_db_at_def Let_def update_indices_of_def [symmetric]
proof (intro then_do_consistent)
  show "consistent (snd (case forces of None \<Rightarrow> (Inr (), s)
      | Some fs \<Rightarrow> then_do (update_db_forces st fs e (update_indices_of st custom_range) s)
                     (\<lambda>u s. refresh_labels_np e s))) n"
    using assms by (cases forces) (simp_all add: forces_step_consistent)
next
  fix u :: unit and s1
  assume "consistent s1 n"
  then show "consistent (snd (case energy of None \<Rightarrow> (Inr (), s1)
      | Some en \<Rightarrow> update_db_energy st en e s1)) n"
    by (cases energy) (simp_all add: update_db_energy_consistent)
next
  fix u :: unit and s1
  assume "consistent s1 n"
  then show "consistent (snd (refresh_all_labels e s1)) n"
    by (rule refresh_all_labels_consistent)
qed

lemma route_consistent:
  assumes "consistent s n"
  shows "consistent (snd (route expert_id s)) n \<or> consistent (snd (route expert_id s)) (Suc n)"
  using assms route_lens(1) [of s n expert_id] route_cached [of s expert_id]
  by (auto simp: consistent_def)

lemma add_one_env_at_consistent:
  assumes c: "consistent s n"
  shows "consistent (snd (add_one_env_at ext env_new force do_train cb e s)) n"
proof (cases "logger s")
  case False
  then show ?thesis using c by (simp add: add_one_env_at_def)
next
  case lg: True
  have l: "lens s n" and ca: "cached s" using c by (simp_all add: consistent_def)
  show ?thesis
  proof (cases "py_norm n e")
    case None
    then show ?thesis using add_one_env_at_no_index [OF None l lg] c by simp
  next
    case (Some k)
    have k: "k < n" using Some by (rule py_norm_less)
    let ?s3 = "s\<lparr>training_data := (training_data s)[k := training_data s ! k @ [env_new]],
        training_labels := (training_labels s)[k := training_labels s ! k @ [force]]\<rparr>"
    let ?s4 = "labels_np_done k ?s3"
    let ?s4' = "?s4\<lparr>n_envs_prev := (n_envs_prev ?s4)[k := n_envs_prev ?s4 ! k + 1]\<rparr>"
    have l3: "lens ?s3 n" using l by (simp add: lens_def)
    have np: "refresh_labels_np e ?s3 = (Inr (), ?s4)"
      using l3 Some k
      by (simp add: refresh_labels_np_def lens_def py_get_def py_set_def hstack_def seq_simps
          labels_np_done_def)
    have c4: "consistent ?s4' n"
      using l ca k by (simp add: consistent_def cached_def labels_np_done_def lens_def map_update)
    have tr: "consistent (snd (if do_train
          then then_do (train ext cb s5) (\<lambda>r s6. (Inr (), s6)) else (Inr (), s5))) n"
      if "consistent s5 n" for s5
      using that consistent_kept [OF train_same train_shape, of s5 n ext cb]
      by (cases "fst (train ext cb s5)") (simp_all add: then_do_def)
    have "add_one_env_at ext env_new force do_train cb e s =
        then_do (refresh_all_labels e ?s4') (\<lambda>u s5.
          if do_train then then_do (train ext cb s5) (\<lambda>r s6. (Inr (), s6))
          else (Inr (), s5))"
      using lg l Some k
      by (simp add: add_one_env_at_def Let_def lens_def append_at_def incr_at_def seq_simps np
          labels_np_done_def)
    then show ?thesis
      by (simp add: then_do_consistent refresh_all_labels_consistent [OF c4] tr)
  qed
qed

lemma consistent_apply_op:
  assumes "well_formed s" and "cached s" and "well_called c"
  shows "cached (apply_op ext c s)"
proof -
  let ?n = "nat (n_experts s)"
  have c0: "consistent s ?n" using assms(1,2) by (simp add: consistent_def well_formed_def)
  have kept: "cached s'" if "same_stores s s'" for s'
    using that assms(2) by (simp add: same_stores_views(1))
  show ?thesis
  proof (cases c)
    case Op_find_expert_to_add
    then show ?thesis
      using find_expert_to_add_cases [of s] assms(2) by auto
  next
    case Op_add_container
    then show ?thesis using assms(3) by simp
  next
    case (Op_update_db st forces cr energy expert_id)
    have cov: "\<forall>atom\<in>set (update_indices_of st cr). py_norm (length fs) atom \<noteq> None"
      if "forces = Some fs" for fs
      using that assms(3) Op_update_db by (simp add: list_all_iff)
    from route_consistent [OF c0, of expert_id]
    have "\<exists>m. consistent (snd (update_db st forces cr energy expert_id s)) m"
      unfolding update_db_def
      by (cases "fst (route expert_id s)")
         (auto simp: then_do_def intro: update_db_at_consistent [OF _ cov])
    then show ?thesis using Op_update_db by (auto simp: consistent_def)
  next
    case (Op_add_one_env env_new force do_train expert_id cb)
    from route_consistent [OF c0, of expert_id]
    have "\<exists>m. consistent (snd (add_one_env ext env_new force do_train expert_id cb s)) m"
      unfolding add_one_env_def
      by (cases "fst (route expert_id s)")
         (auto simp: then_do_def intro: add_one_env_at_consistent)
    then show ?thesis using Op_add_one_env by (auto simp: consistent_def)
  next
    case (Op_write_model name format)
    then show ?thesis using assms(2) by (simp add: write_model_def Let_def cached_def)
  qed (simp_all add: kept train_same check_L_alpha_same predict_same set_L_alpha_same
      set_L_alpha_part_same update_L_alpha_same compute_one_matrices_same sync_data_same
      sync_one_data_same)
qed

lemma well_called_no_container: "well_called c \<Longrightarrow> c \<noteq> Op_add_container"
  by auto

lemma cached_run:
  assumes "well_formed s" and "cached s" and "list_all well_called cs"
  shows "cached (snd (run ext cs s))"
  using assms
proof (induction cs arbitrary: s)
  case Nil
  then show ?case by simp
next
  case (Cons c cs)
  have "well_formed (apply_op ext c s)"
    using Cons.prems by (intro well_formed_apply_op well_called_no_container) simp_all
  moreover have "cached (apply_op ext c s)"
    using Cons.prems by (intro consistent_apply_op) simp_all
  ultimately show ?case using Cons by (simp add: Let_def)
qed

lemma label_vector_reachable:
  assumes "0 \<le> n" and "list_all well_called cs"
    and "s = snd (run ext cs (rbcm_init n ndata prior hs))"
    and "target expert_id s = Some k"
  shows "update_db st forces custom_range energy expert_id s = (Inr (), s') \<Longrightarrow>
           all_labels s' ! k = concat (training_labels s' ! k) @ energy_labels s' ! k"
    and "add_one_env ext2 env_new force do_train expert_id cb s = (Inr (), s2) \<Longrightarrow>
           all_labels s2 ! k = concat (training_labels s2 ! k) @ energy_labels s2 ! k"
proof -
  note init = rbcm_init_well_formed [OF assms(1), of ndata prior hs]
  have "Op_add_container \<notin> set cs"
    using assms(2) well_called_no_container by (auto simp: list_all_iff)
  then have w: "well_formed s" unfolding assms(3) by (rule well_formed_run [OF init(1)])
  have c: "cached s" unfolding assms(3) by (rule cached_run [OF init assms(2)])
  have l: "lens s (nat (n_experts s))" using w by (simp add: well_formed_def)
  have cur: "labels_current s k ff ef" if "k < nat (n_experts s)" for ff ef
    by (rule cached_labels_current [OF c l that])
  show "all_labels s' ! k = concat (training_labels s' ! k) @ energy_labels s' ! k"
    if "update_db st forces custom_range energy expert_id s = (Inr (), s')"
    using update_db_completed_at(2) [OF l assms(4) that] cur by simp
  show "all_labels s2 ! k = concat (training_labels s2 ! k) @ energy_labels s2 ! k"
    if "add_one_env ext2 env_new force do_train expert_id cb s = (Inr (), s2)"
    using add_one_env_completed_at(2) [OF l assms(4) that] cur by simp
qed

section \<open>Methods that keep the prior\<close>

text \<open>
  No method writes \<^verbatim>\<open>prior_variance\<close> or \<^verbatim>\<open>log_prior_var\<close>, so in every state that
  calls reach from the constructor the second is the logarithm of the first.
\<close>

lemma same_prior_refl [simp]: "same_prior s s"
  by (simp add: same_prior_def)

lemma same_prior_trans: "same_prior s s1 \<Longrightarrow> same_prior s1 s2 \<Longrightarrow> same_prior s s2"
  by (simp add: same_prior_def)

lemma same_prior_upd [simp]:
  "same_prior s (s1\<lparr>n_experts := x_n_experts\<rparr>) = same_prior s s1"
  "same_prior (s1\<lparr>n_experts := x_n_experts\<rparr>) s2 = same_prior s1 s2"
  "same_prior s (s1\<lparr>ndata_per_expert := x_ndata_per_expert\<rparr>) = same_prior s s1"
  "same_prior (s1\<lparr>ndata_per_expert := x_ndata_per_expert\<rparr>) s2 = same_prior s1 s2"
  "same_prior s (s1\<lparr>current_expert := x_current_expert\<rparr>) = same_prior s s1"
  "same_prior (s1\<lparr>current_expert := x_current_expert\<rparr>) s2 = same_prior s1 s2"
  "same_prior s (s1\<lparr>hyps := x_hyps\<rparr>) = same_prior s s1"
  "same_prior (s1\<lparr>hyps := x_hyps\<rparr>) s2 = same_prior s1 s2"
  "same_prior s (s1\<lparr>opt_algorithm := x_opt_algorithm\<rparr>) = same_prior s s1"
  "same_prior (s1\<lparr>opt_algorithm := x_opt_algorithm\<rparr>) s2 = same_prior s1 s2"
  "same_prior s (s1\<lparr>bounds := x_bounds\<rparr>) = same_prior s s1"
  "same_prior (s1\<lparr>bounds := x_bounds\<rparr>) s2 = same_prior s1 s2"
  "same_prior s (s1\<lparr>logger := x_logger\<rparr>) = same_prior s s1"
  "same_prior (s1\<lparr>logger := x_logger\<rparr>) s2 = same_prior s1 s2"
  "same_prior s (s1\<lparr>training_data := x_training_data\<rparr>) = same_prior s s1"
  "same_prior (s1\<lparr>training_data := x_training_data\<rparr>) s2 = same_prior s1 s2"
  "same_prior s (s1\<lparr>training_labels := x_training_labels\<rparr>) = same_prior s s1"
  "same_prior (s1\<lparr>training_labels := x_training_labels\<rparr>) s2 = same_prior s1 s2"
  "same_prior s (s1\<lparr>training_labels_np := x_training_labels_np\<rparr>) = same_prior s s1"
  "same_prior (s1\<lparr>training_labels_np := x_training_labels_np\<rparr>) s2 = same_prior s1 s2"
  "same_prior s (s1\<lparr>n_envs_prev := x_n_envs_prev\<rparr>) = same_prior s s1"
  "same_prior (s1\<lparr>n_envs_prev := x_n_envs_prev\<rparr>) s2 = same_prior s1 s2"
  "same_prior s (s1\<lparr>training_structures := x_training_structures\<rparr>) = same_prior s s1"
  "same_prior (s1\<lparr>training_structures := x_training_structures\<rparr>) s2 = same_prior s1 s2"
  "same_prior s (s1\<lparr>energy_labels := x_energy_labels\<rparr>) = same_prior s s1"
  "same_prior (s1\<lparr>energy_labels := x_energy_labels\<rparr>) s2 = same_prior s1 s2"
  "same_prior s (s1\<lparr>energy_labels_np := x_energy_labels_np\<rparr>) = same_prior s s1"
  "same_prior (s1\<lparr>energy_labels_np := x_energy_labels_np\<rparr>) s2 = same_prior s1 s2"
  "same_prior s (s1\<lparr>all_labels := x_all_labels\<rparr>) = same_prior s s1"
  "same_prior (s1\<lparr>all_labels := x_all_labels\<rparr>) s2 = same_prior s1 s2"
  "same_prior s (s1\<lparr>ky_mat := x_ky_mat\<rparr>) = same_prior s s1"
  "same_prior (s1\<lparr>ky_mat := x_ky_mat\<rparr>) s2 = same_prior s1 s2"
  "same_prior s (s1\<lparr>force_block := x_force_block\<rparr>) = same_prior s s1"
  "same_prior (s1\<lparr>force_block := x_force_block\<rparr>) s2 = same_prior s1 s2"
  "same_prior s (s1\<lparr>energy_block := x_energy_block\<rparr>) = same_prior s s1"
  "same_prior (s1\<lparr>energy_block := x_energy_block\<rparr>) s2 = same_prior s1 s2"
  "same_prior s (s1\<lparr>force_energy_block := x_force_energy_block\<rparr>) = same_prior s s1"
  "same_prior (s1\<lparr>force_energy_block := x_force_energy_block\<rparr>) s2 = same_prior s1 s2"
  "same_prior s (s1\<lparr>l_mat := x_l_mat\<rparr>) = same_prior s s1"
  "same_prior (s1\<lparr>l_mat := x_l_mat\<rparr>) s2 = same_prior s1 s2"
  "same_prior s (s1\<lparr>alpha := x_alpha\<rparr>) = same_prior s s1"
  "same_prior (s1\<lparr>alpha := x_alpha\<rparr>) s2 = same_prior s1 s2"
  "same_prior s (s1\<lparr>ky_mat_inv := x_ky_mat_inv\<rparr>) = same_prior s s1"
  "same_prior (s1\<lparr>ky_mat_inv := x_ky_mat_inv\<rparr>) s2 = same_prior s1 s2"
  "same_prior s (s1\<lparr>likelihood := x_likelihood\<rparr>) = same_prior s s1"
  "same_prior (s1\<lparr>likelihood := x_likelihood\<rparr>) s2 = same_prior s1 s2"
  "same_prior s (s1\<lparr>total_likelihood := x_total_likelihood\<rparr>) = same_prior s s1"
  "same_prior (s1\<lparr>total_likelihood := x_total_likelihood\<rparr>) s2 = same_prior s1 s2"
  "same_prior s (s1\<lparr>total_likelihood_gradient := x_total_likelihood_gradient\<rparr>) = same_prior s s1"
  "same_prior (s1\<lparr>total_likelihood_gradient := x_total_likelihood_gradient\<rparr>) s2 = same_prior s1 s2"
  "same_prior s (s1\<lparr>global_training_data := x_global_training_data\<rparr>) = same_prior s s1"
  "same_prior (s1\<lparr>global_training_data := x_global_training_data\<rparr>) s2 = same_prior s1 s2"
  "same_prior s (s1\<lparr>global_training_labels := x_global_training_labels\<rparr>) = same_prior s s1"
  "same_prior (s1\<lparr>global_training_labels := x_global_training_labels\<rparr>) s2 = same_prior s1 s2"
  "same_prior s (s1\<lparr>global_training_structures := x_global_training_structures\<rparr>) = same_prior s s1"
  "same_prior (s1\<lparr>global_training_structures := x_global_training_structures\<rparr>) s2 = same_prior s1 s2"
  "same_prior s (s1\<lparr>global_energy_labels := x_global_energy_labels\<rparr>) = same_prior s s1"
  "same_prior (s1\<lparr>global_energy_labels := x_global_energy_labels\<rparr>) s2 = same_prior s1 s2"
  "same_prior s (s1\<lparr>n_Ky_builds := x_n_Ky_builds\<rparr>) = same_prior s s1"
  "same_prior (s1\<lparr>n_Ky_builds := x_n_Ky_builds\<rparr>) s2 = same_prior s1 s2"
  by (simp_all add: same_prior_def)

lemma then_do_prior:
  assumes "same_prior s (snd r)" and "\<And>a s1. same_prior s1 (snd (f a s1))"
  shows "same_prior s (snd (then_do r f))"
proof (cases "fst r")
  case (Inl e)
  then show ?thesis using assms(1) by (simp add: then_do_def)
next
  case (Inr a)
  then show ?thesis
    using same_prior_trans [OF assms(1) assms(2)] by (simp add: then_do_def)
qed

lemma try_get_prior:
  assumes "same_prior s0 s" and "\<And>a. same_prior s0 (snd (f a))"
  shows "same_prior s0 (snd (try_get r s f))"
  using assms by (cases r) (simp_all add: try_get_def)

lemma if_prior:
  "same_prior s (snd a) \<Longrightarrow> same_prior s (snd b) \<Longrightarrow> same_prior s (snd (if c then a else b))"
  by simp

lemma sync_one_data_prior: "same_prior s (snd (sync_one_data e s))"
  unfolding sync_one_data_def Let_def
  by (intro if_prior try_get_prior; simp)

lemma sync_loop_prior: "same_prior s (snd (sync_loop is s))"
  by (induction "is" arbitrary: s) (simp_all add: then_do_prior sync_one_data_prior)

lemma sync_data_prior: "same_prior s (snd (sync_data s))"
  by (simp add: sync_data_def sync_loop_prior)

lemma compute_one_matrices_prior: "same_prior s (snd (compute_one_matrices ext ky e s))"
  unfolding compute_one_matrices_def Let_def
  by (simp split: option.split, intro allI impI conjI try_get_prior; simp)

lemma set_likelihood_prior: "same_prior s (snd (set_likelihood ext e s))"
  unfolding set_likelihood_def
  by (intro try_get_prior; simp)

lemma set_L_alpha_part_prior: "same_prior s (snd (set_L_alpha_part ext e s))"
proof -
  have "same_prior s1 (snd (compute_one_matrices ext ky e (s1\<lparr>n_Ky_builds := n\<rparr>)))" for s1 ky n
    using compute_one_matrices_prior [of "s1\<lparr>n_Ky_builds := n\<rparr>" ext ky e] by simp
  then show ?thesis
    unfolding set_L_alpha_part_def
    by (intro then_do_prior try_get_prior; simp add: sync_one_data_prior set_likelihood_prior)
qed

lemma update_L_alpha_prior: "same_prior s (snd (update_L_alpha ext e s))"
  unfolding update_L_alpha_def
  by (rule try_get_prior, simp)
     (simp split: option.split add: set_L_alpha_part_prior try_get_prior)

lemma check_loop_prior: "same_prior s (snd (check_loop ext is s))"
proof (induction "is" arbitrary: s)
  case Nil
  show ?case by simp
next
  case (Cons i rest)
  have upd: "same_prior s (snd (then_do (update_L_alpha ext (int i) s)
      (\<lambda>u s1. check_loop ext rest s1)))"
    by (intro then_do_prior; simp add: update_L_alpha_prior Cons.IH)
  have part: "same_prior s (snd (then_do (set_L_alpha_part ext (int i) s)
      (\<lambda>u s1. check_loop ext rest s1)))"
    by (intro then_do_prior; simp add: set_L_alpha_part_prior Cons.IH)
  show ?case
    unfolding check_loop.simps Let_def
    by (rule try_get_prior, simp)
       (simp add: upd part Cons.IH try_get_prior split: option.split)
qed

lemma check_L_alpha_prior: "same_prior s (snd (check_L_alpha ext s))"
  unfolding check_L_alpha_def
  by (intro then_do_prior; simp add: sync_data_prior check_loop_prior)

lemma set_L_alpha_loop_prior: "same_prior s (snd (set_L_alpha_loop ext is s))"
proof (induction "is" arbitrary: s)
  case Nil
  show ?case by simp
next
  case (Cons i rest)
  have "same_prior s (snd (compute_one_matrices ext ky e (s\<lparr>n_Ky_builds := n\<rparr>)))" for ky n e
    using compute_one_matrices_prior [of "s\<lparr>n_Ky_builds := n\<rparr>" ext ky e] by simp
  then show ?case
    unfolding set_L_alpha_loop.simps
    by (intro if_prior then_do_prior try_get_prior; simp add: set_likelihood_prior Cons.IH)
qed

lemma set_L_alpha_prior: "same_prior s (snd (set_L_alpha ext s))"
  unfolding set_L_alpha_def
  by (intro then_do_prior if_prior; simp add: sync_data_prior set_L_alpha_loop_prior)

lemma predict_prior: "same_prior s (snd (predict ext x d s))"
  unfolding predict_def Let_def
  by (intro if_prior then_do_prior try_get_prior; simp add: sync_data_prior check_L_alpha_prior)

lemma minimize_case_prior:
  "same_prior s (snd (case r of Inl e \<Rightarrow> (Inl e, s) | Inr x \<Rightarrow> (Inr (Some x), s)))"
  by (cases r) simp_all

lemma train_prior: "same_prior s (snd (train ext cb s))"
proof -
  have hy: "same_prior s3 (snd (set_L_alpha ext (s3\<lparr>hyps := h\<rparr>)))" for s3 h
    using set_L_alpha_prior [of "s3\<lparr>hyps := h\<rparr>" ext] by simp
  have fin: "same_prior s3 (snd (case res of None \<Rightarrow> (Inl RuntimeError, s3)
      | Some r \<Rightarrow> then_do (set_L_alpha ext (s3\<lparr>hyps := res_x r\<rparr>)) (\<lambda>u s4.
          (Inr r, s4\<lparr>total_likelihood := Some (- res_fun r),
                     total_likelihood_gradient := Some (map uminus (res_jac r))\<rparr>))))" for s3 res
    by (cases res) (simp_all add: then_do_prior hy)
  have st1: "same_prior s1 (snd (try_get b s1 (\<lambda>b.
       case minimize ext func x_0 (L_BFGS_B b) of
         Inl e \<Rightarrow>
           if e = LinAlgError
           then (if logger s1 then (Inr None, s1\<lparr>opt_algorithm := ''BFGS''\<rparr>)
                 else (Inl AttributeError, s1))
           else (Inl e, s1)
       | Inr r \<Rightarrow> (Inr (Some r), s1))))" for s1 b func x_0
    by (rule try_get_prior) (simp_all split: sum.split)
  have st2: "same_prior s2 (snd (case cb of
             Some cb \<Rightarrow>
               (case minimize ext func x_0 (L_BFGS_B cb) of Inl e \<Rightarrow> (Inl e, s2)
                | Inr r \<Rightarrow> (Inr (Some r), s2))
           | None \<Rightarrow>
               if opt_algorithm s2 = ''BFGS''
               then (case minimize ext func x_0 BFGS of Inl e \<Rightarrow> (Inl e, s2)
                     | Inr r \<Rightarrow> (Inr (Some r), s2))
               else (Inr res1, s2)))" for s2 func x_0 res1
    by (cases cb) (simp_all add: minimize_case_prior)
  show ?thesis
    unfolding train_def Let_def
    by (cases "length (training_data s) = 0 \<or> length (training_labels s) = 0")
       (simp_all only: if_True if_False snd_conv same_prior_refl,
        intro then_do_prior sync_data_prior fin st2, simp add: st1)
qed

lemma update_db_forces_prior: "same_prior s (snd (update_db_forces st fs e atoms s))"
proof (induction atoms arbitrary: s)
  case Nil
  show ?case by simp
next
  case (Cons atom rest)
  have "same_prior s (snd (update_db_forces st fs e rest
      (s\<lparr>training_data := td, training_labels := tl, n_envs_prev := np\<rparr>)))" for td tl np
    using Cons.IH [of "s\<lparr>training_data := td, training_labels := tl, n_envs_prev := np\<rparr>"]
    by simp
  then show ?case
    unfolding update_db_forces.simps
    by (intro try_get_prior; simp)
qed

lemma refresh_labels_np_prior: "same_prior s (snd (refresh_labels_np e s))"
  unfolding refresh_labels_np_def by (intro try_get_prior; simp)

lemma update_db_energy_prior: "same_prior s (snd (update_db_energy st en e s))"
  unfolding update_db_energy_def Let_def by (intro try_get_prior; simp)

lemma refresh_all_labels_prior: "same_prior s (snd (refresh_all_labels e s))"
  unfolding refresh_all_labels_def by (intro try_get_prior; simp)

lemma update_db_at_prior: "same_prior s (snd (update_db_at st forces cr energy e s))"
proof -
  have f: "same_prior s (snd (case forces of None \<Rightarrow> (Inr (), s)
      | Some fs \<Rightarrow> then_do (update_db_forces st fs e ixs s) (\<lambda>u s. refresh_labels_np e s)))" for ixs
    by (cases forces)
       (simp_all add: then_do_prior update_db_forces_prior refresh_labels_np_prior)
  have en: "same_prior s2 (snd (case energy of None \<Rightarrow> (Inr (), s2)
      | Some en \<Rightarrow> update_db_energy st en e s2))" for s2
    by (cases energy) (simp_all add: update_db_energy_prior)
  show ?thesis
    unfolding update_db_at_def Let_def
    by (intro then_do_prior f en refresh_all_labels_prior)
qed

lemma add_one_env_at_prior:
  "same_prior s (snd (add_one_env_at ext env_new force do_train cb e s))"
proof -
  have al: "same_prior s4 (snd (refresh_all_labels e (s4\<lparr>n_envs_prev := np\<rparr>)))" for s4 np
    using refresh_all_labels_prior [of "s4\<lparr>n_envs_prev := np\<rparr>" e] by simp
  have np: "same_prior s1 (snd (refresh_labels_np e (s1\<lparr>training_data := td, training_labels := tl\<rparr>)))"
    for s1 td tl
    using refresh_labels_np_prior [of "s1\<lparr>training_data := td, training_labels := tl\<rparr>" e]
    by simp
  show ?thesis
    unfolding add_one_env_at_def Let_def
    by (intro if_prior then_do_prior try_get_prior; simp add: al np train_prior)
qed

lemma add_container_prior: "same_prior s (add_container s)"
  by (simp add: add_container_def)

lemma route_prior: "same_prior s (snd (route expert_id s))"
  using route_shape [of expert_id s] by (auto simp: add_expert_def add_container_def)

lemma find_expert_to_add_prior: "same_prior s (snd (find_expert_to_add s))"
  using find_expert_to_add_cases [of s] by auto

lemma update_db_prior: "same_prior s (snd (update_db st forces cr energy expert_id s))"
  unfolding update_db_def by (intro then_do_prior route_prior update_db_at_prior)

lemma add_one_env_prior:
  "same_prior s (snd (add_one_env ext env_new force do_train expert_id cb s))"
  unfolding add_one_env_def by (intro then_do_prior route_prior add_one_env_at_prior)

lemma write_model_prior: "same_prior s (snd (write_model name format s))"
  by (simp add: write_model_def Let_def)

lemma apply_op_prior: "same_prior s (apply_op ext c s)"
  by (cases c)
     (simp_all add: find_expert_to_add_prior add_container_prior update_db_prior
       add_one_env_prior train_prior check_L_alpha_prior predict_prior set_L_alpha_prior
       set_L_alpha_part_prior update_L_alpha_prior compute_one_matrices_prior sync_data_prior
       sync_one_data_prior write_model_prior)

lemma run_prior: "same_prior s (snd (run ext cs s))"
proof (induction cs arbitrary: s)
  case Nil
  show ?case by simp
next
  case (Cons c cs)
  show ?case
    using same_prior_trans [OF apply_op_prior Cons.IH, of s ext c] by (simp add: Let_def)
qed

lemma fold_add_container_prior: "same_prior b (fold (\<lambda>i. add_container) xs b)"
proof (induction xs arbitrary: b)
  case Nil
  show ?case by simp
next
  case (Cons x xs)
  show ?case using same_prior_trans [OF add_container_prior Cons.IH, of b] by simp
qed

lemma rbcm_init_prior:
  "log_prior_var (rbcm_init n ndata prior hs) = ln (prior_variance (rbcm_init n ndata prior hs))"
  using fold_add_container_prior [of _ "[0..<nat n]"]
  unfolding rbcm_init_def same_prior_def by simp

lemma reachable_prior:
  "log_prior_var (snd (run ext cs (rbcm_init n ndata prior hs))) =
     ln (prior_variance (snd (run ext cs (rbcm_init n ndata prior hs))))"
  using run_prior [of "rbcm_init n ndata prior hs" ext cs] rbcm_init_prior [of n ndata prior hs]
  by (simp add: same_prior_def)

section \<open>Methods that keep the hyperparameters\<close>

lemma same_params_refl [simp]: "same_params s s"
  by (simp add: same_params_def)

lemma same_params_trans: "same_params s s1 \<Longrightarrow> same_params s1 s2 \<Longrightarrow> same_params s s2"
  by (simp add: same_params_def)

lemma same_params_upd [simp]:
  "same_params s (s1\<lparr>n_envs_prev := x_n_envs_prev\<rparr>) = same_params s s1"
  "same_params (s1\<lparr>n_envs_prev := x_n_envs_prev\<rparr>) s2 = same_params s1 s2"
  "same_params s (s1\<lparr>ky_mat := x_ky_mat\<rparr>) = same_params s s1"
  "same_params (s1\<lparr>ky_mat := x_ky_mat\<rparr>) s2 = same_params s1 s2"
  "same_params s (s1\<lparr>l_mat := x_l_mat\<rparr>) = same_params s s1"
  "same_params (s1\<lparr>l_mat := x_l_mat\<rparr>) s2 = same_params s1 s2"
  "same_params s (s1\<lparr>alpha := x_alpha\<rparr>) = same_params s s1"
  "same_params (s1\<lparr>alpha := x_alpha\<rparr>) s2 = same_params s1 s2"
  "same_params s (s1\<lparr>ky_mat_inv := x_ky_mat_inv\<rparr>) = same_params s s1"
  "same_params (s1\<lparr>ky_mat_inv := x_ky_mat_inv\<rparr>) s2 = same_params s1 s2"
  "same_params s (s1\<lparr>likelihood := x_likelihood\<rparr>) = same_params s s1"
  "same_params (s1\<lparr>likelihood := x_likelihood\<rparr>) s2 = same_params s1 s2"
  "same_params s (s1\<lparr>global_training_data := x_global_training_data\<rparr>) = same_params s s1"
  "same_params (s1\<lparr>global_training_data := x_global_training_data\<rparr>) s2 = same_params s1 s2"
  "same_params s (s1\<lparr>global_training_labels := x_global_training_labels\<rparr>) = same_params s s1"
  "same_params (s1\<lparr>global_training_labels := x_global_training_labels\<rparr>) s2 = same_params s1 s2"
  "same_params s (s1\<lparr>global_training_structures := x_global_training_structures\<rparr>) = same_params s s1"
  "same_params (s1\<lparr>global_training_structures := x_global_training_structures\<rparr>) s2 = same_params s1 s2"
  "same_params s (s1\<lparr>global_energy_labels := x_global_energy_labels\<rparr>) = same_params s s1"
  "same_params (s1\<lparr>global_energy_labels := x_global_energy_labels\<rparr>) s2 = same_params s1 s2"
  "same_params s (s1\<lparr>n_Ky_builds := x_n_Ky_builds\<rparr>) = same_params s s1"
  "same_params (s1\<lparr>n_Ky_builds := x_n_Ky_builds\<rparr>) s2 = same_params s1 s2"
  by (simp_all add: same_params_def)

lemma then_do_params:
  assumes "same_params s (snd r)" and "\<And>a s1. same_params s1 (snd (f a s1))"
  shows "same_params s (snd (then_do r f))"
proof (cases "fst r")
  case (Inl e)
  then show ?thesis using assms(1) by (simp add: then_do_def)
next
  case (Inr a)
  then show ?thesis
    using same_params_trans [OF assms(1) assms(2)] by (simp add: then_do_def)
qed

lemma try_get_params:
  assumes "same_params s0 s" and "\<And>a. same_params s0 (snd (f a))"
  shows "same_params s0 (snd (try_get r s f))"
  using assms by (cases r) (simp_all add: try_get_def)

lemma sync_one_data_params: "same_params s (snd (sync_one_data e s))"
  unfolding sync_one_data_def Let_def
  by (simp, intro impI try_get_params; simp)

lemma sync_loop_params: "same_params s (snd (sync_loop is s))"
  by (induction "is" arbitrary: s) (simp_all add: then_do_params sync_one_data_params)

lemma sync_data_params: "same_params s (snd (sync_data s))"
  by (simp add: sync_data_def sync_loop_params)

lemma compute_one_matrices_params: "same_params s (snd (compute_one_matrices ext ky e s))"
  unfolding compute_one_matrices_def Let_def
  by (simp split: option.split, intro allI impI conjI try_get_params; simp)

lemma set_likelihood_params: "same_params s (snd (set_likelihood ext e s))"
  unfolding set_likelihood_def
  by (intro try_get_params; simp)

lemma set_L_alpha_part_params: "same_params s (snd (set_L_alpha_part ext e s))"
proof -
  have "same_params s1 (snd (compute_one_matrices ext ky e (s1\<lparr>n_Ky_builds := n\<rparr>)))" for s1 ky n
    using compute_one_matrices_params [of "s1\<lparr>n_Ky_builds := n\<rparr>" ext ky e]
    by simp
  then show ?thesis
    unfolding set_L_alpha_part_def
    by (intro then_do_params try_get_params; simp add: sync_one_data_params set_likelihood_params)
qed

lemma update_L_alpha_params: "same_params s (snd (update_L_alpha ext e s))"
  unfolding update_L_alpha_def
  by (rule try_get_params, simp)
     (simp split: option.split add: set_L_alpha_part_params try_get_params)

lemma check_loop_params: "same_params s (snd (check_loop ext is s))"
proof (induction "is" arbitrary: s)
  case Nil
  show ?case by simp
next
  case (Cons i rest)
  have upd: "same_params s (snd (then_do (update_L_alpha ext (int i) s)
      (\<lambda>u s1. check_loop ext rest s1)))"
    by (intro then_do_params; simp add: update_L_alpha_params Cons.IH)
  have part: "same_params s (snd (then_do (set_L_alpha_part ext (int i) s)
      (\<lambda>u s1. check_loop ext rest s1)))"
    by (intro then_do_params; simp add: set_L_alpha_part_params Cons.IH)
  show ?case
    unfolding check_loop.simps Let_def
    by (rule try_get_params, simp)
       (simp add: upd part Cons.IH try_get_params split: option.split)
qed

lemma check_L_alpha_params: "same_params s (snd (check_L_alpha ext s))"
  unfolding check_L_alpha_def
  by (intro then_do_params; simp add: sync_data_params check_loop_params)

section \<open>Synchronising twice\<close>

lemma sync_one_data_again:
  assumes "lens s n" and "i < n" and "lookup_globals (int i) s = Inr (entry_of s i)"
  shows "sync_one_data (int i) s = (Inr (), s)"
  using assms
  by (simp add: sync_one_data_def lens_def py_get_def py_norm_def try_get_Inr Let_def
      lookup_globals_def entry_of_def fun_upd_idem split: option.splits)

lemma sync_loop_again:
  assumes "lens s n" and "\<forall>i\<in>set is. i < n \<and> lookup_globals (int i) s = Inr (entry_of s i)"
  shows "sync_loop is s = (Inr (), s)"
  using assms(2)
  by (induction "is") (simp_all add: sync_one_data_again [OF assms(1)] then_do_Inr)

lemma sync_data_again:
  assumes "well_formed s"
  shows "sync_data (snd (sync_data s)) = (Inr (), snd (sync_data s))"
proof -
  let ?s1 = "snd (sync_data s)"
  note sy = sync_data_Ok [OF assms same_but_globals_refl]
  have n1: "n_experts ?s1 = n_experts s" by (rule same_but_globals_fields(1) [OF sy(2)])
  have l1: "lens ?s1 (nat (n_experts s))"
    using assms same_but_globals_fields(8) [OF sy(2)] by (simp add: well_formed_def)
  have "\<forall>i\<in>set [0..<nat (n_experts s)].
      i < nat (n_experts s) \<and> lookup_globals (int i) ?s1 = Inr (entry_of ?s1 i)"
    using sy(3) same_but_globals_fields(9) [OF sy(2)] by simp
  from sync_loop_again [OF l1 this] show ?thesis
    by (simp add: sync_data_def [of ?s1] n1)
qed

lemma check_L_alpha_synced:
  assumes "well_formed s"
  shows "check_L_alpha ext (snd (sync_data s)) = check_L_alpha ext s"
  using sync_data_Ok(1) [OF assms same_but_globals_refl]
  by (simp add: check_L_alpha_def sync_data_again [OF assms] then_do_Inr then_do_Ok)

section \<open>Prediction after the refresh\<close>

text \<open>
  Once \<^verbatim>\<open>check_L_alpha\<close> has returned, \<^verbatim>\<open>predict\<close> returns the robust combination of
  the factorisations it finds if every expert has \<^verbatim>\<open>alpha\<close> and an inverse that fit its
  kernel vector, and raises \<^verbatim>\<open>ValueError\<close> in \<^verbatim>\<open>np.matmul\<close> if one has not.
\<close>

lemma current_fits: "current ext x d s i \<Longrightarrow> fits ext x d s i"
  by (simp add: current_def fits_def split: option.splits)

lemma all_current_fit: "all_current ext x d s \<Longrightarrow> all_fit ext x d s"
  by (simp add: all_current_def all_fit_def list_all_iff current_fits)

lemma same_but_globals_fits:
  "same_but_globals s s' \<Longrightarrow> fits ext x d s' i = fits ext x d s i"
  by (simp add: fits_def same_but_globals_fields same_but_globals_kernel_vector
      cong: option.case_cong)

lemma same_but_globals_all_fit:
  "same_but_globals s s' \<Longrightarrow> all_fit ext x d s' = all_fit ext x d s"
  by (simp add: all_fit_def same_but_globals_fields same_but_globals_fits cong: list.pred_cong)

lemma predict_loop_step:
  assumes "lens s n" and "length k_v = n"
    and "\<forall>i<n. k_v ! i = kernel_vector_of ext x d s i"
    and "log_prior_var s = ln (prior_variance s)"
    and "i < n" and "fits ext x d s i"
  shows "predict_loop ext x d k_v (i # rest) (mean, var, beta) s =
      predict_loop ext x d k_v rest
        (mean + expert_beta ext x d s i / expert_var ext x d s i * expert_mean ext x d s i,
         var + expert_beta ext x d s i / expert_var ext x d s i,
         beta + expert_beta ext x d s i) s"
proof -
  let ?k = "kernel_vector_of ext x d s i"
  from assms(6) obtain a m where a: "alpha s ! i = Some a" and m: "ky_mat_inv s ! i = Some m"
    and la: "length ?k = length a" and lm: "length m = length a" and cm: "ncols m = length a"
    by (auto simp: fits_def split: option.splits)
  from matmul_quad [of m ?k] la lm cm obtain kk where
    vm: "matmul_vm ?k (Some m) = Inr kk" and vv: "matmul_vv kk (Some ?k) = Inr (quad_form ?k m)"
    by auto
  have k: "py_get k_v (int i) = Inr ?k"
    using assms(2,3,5) by (simp add: py_get_def py_norm_def)
  have ga: "py_get (alpha s) (int i) = Inr (Some a)"
    and gm: "py_get (ky_mat_inv s) (int i) = Inr (Some m)"
    using assms(1,5) a m by (simp_all add: py_get_def py_norm_def lens_def)
  have mean_k: "matmul_vv ?k (Some a) = Inr (expert_mean ext x d s i)"
    using la a by (simp add: matmul_vv_def expert_mean_def)
  have var_k: "kernel ext x x d d (hyps s) - quad_form ?k m = expert_var ext x d s i"
    using m by (simp add: expert_var_def)
  have beta_k: "0.5 * (log_prior_var s - ln (expert_var ext x d s i)) = expert_beta ext x d s i"
    using assms(4) by (simp add: expert_beta_def)
  show ?thesis
    by (simp only: predict_loop.simps k ga gm mean_k vm vv sum.case Let_def var_k beta_k)
qed

lemma predict_loop_fits:
  assumes "lens s n" and "length k_v = n"
    and "\<forall>i<n. k_v ! i = kernel_vector_of ext x d s i"
    and "log_prior_var s = ln (prior_variance s)"
    and "\<forall>i\<in>set is. i < n \<and> fits ext x d s i"
  shows "predict_loop ext x d k_v is (mean, var, beta) s =
     Inr (mean + (\<Sum>i\<leftarrow>is. expert_beta ext x d s i / expert_var ext x d s i
                       * expert_mean ext x d s i),
          var + (\<Sum>i\<leftarrow>is. expert_beta ext x d s i / expert_var ext x d s i),
          beta + (\<Sum>i\<leftarrow>is. expert_beta ext x d s i))"
  using assms(5)
proof (induction "is" arbitrary: mean var beta)
  case Nil
  show ?case by simp
next
  case (Cons i rest)
  have i: "i < n" and c: "fits ext x d s i" using Cons.prems by simp_all
  have rest: "\<forall>i\<in>set rest. i < n \<and> fits ext x d s i" using Cons.prems by simp
  show ?case
    unfolding predict_loop_step [OF assms(1-4) i c] Cons.IH [OF rest] by (simp add: add.assoc)
qed

lemma predict_loop_misfit:
  assumes "lens s n" and "length k_v = n"
    and "\<forall>i<n. k_v ! i = kernel_vector_of ext x d s i"
    and "i < n" and "\<not> fits ext x d s i"
  shows "predict_loop ext x d k_v (i # rest) (mean, var, beta) s = Inl ValueError"
proof -
  let ?k = "kernel_vector_of ext x d s i"
  have k: "py_get k_v (int i) = Inr ?k"
    using assms(2,3,4) by (simp add: py_get_def py_norm_def)
  have ga: "py_get (alpha s) (int i) = Inr (alpha s ! i)"
    and gm: "py_get (ky_mat_inv s) (int i) = Inr (ky_mat_inv s ! i)"
    using assms(1,4) by (simp_all add: py_get_def py_norm_def lens_def)
  show ?thesis
    using assms(5)
    by (auto simp: k ga gm fits_def matmul_vv_def matmul_vm_def split: option.splits)
qed

lemma predict_loop_raises:
  assumes "lens s n" and "length k_v = n"
    and "\<forall>i<n. k_v ! i = kernel_vector_of ext x d s i"
    and "log_prior_var s = ln (prior_variance s)"
    and "\<forall>i\<in>set is. i < n" and "\<exists>i\<in>set is. \<not> fits ext x d s i"
  shows "predict_loop ext x d k_v is (mean, var, beta) s = Inl ValueError"
  using assms(5,6)
proof (induction "is" arbitrary: mean var beta)
  case Nil
  then show ?case by simp
next
  case (Cons i rest)
  have i: "i < n" using Cons.prems(1) by simp
  show ?case
  proof (cases "fits ext x d s i")
    case True
    then have "\<exists>i\<in>set rest. \<not> fits ext x d s i" using Cons.prems(2) by auto
    moreover have "\<forall>i\<in>set rest. i < n" using Cons.prems(1) by simp
    ultimately show ?thesis
      unfolding predict_loop_step [OF assms(1-4) i True] by (rule Cons.IH [rotated])
  next
    case False
    show ?thesis by (rule predict_loop_misfit [OF assms(1-3) i False])
  qed
qed

lemma same_stores_entry: "same_stores s s' \<Longrightarrow> entry_of s' i = entry_of s i"
  by (simp add: same_stores_def entry_of_def)

lemma predict_after_refresh:
  assumes d: "d = 1 \<or> d = 2 \<or> d = 3" and w: "well_formed s"
    and lp: "log_prior_var s = ln (prior_variance s)"
    and ch: "check_L_alpha ext s = (Inr (), s2)"
  shows "all_fit ext x_t d s2 \<Longrightarrow>
      predict ext x_t d s = (Inr (rbcm_mean ext x_t d s2, rbcm_variance ext x_t d s2), s2)"
    and "\<not> all_fit ext x_t d s2 \<Longrightarrow> predict ext x_t d s = (Inl ValueError, s2)"
proof -
  let ?n = "nat (n_experts s)"
  let ?s1 = "snd (sync_data s)"
  let ?k_v = "map (kernel_vector_of ext x_t d s) [0..<?n]"
  note sy = sync_data_Ok [OF w same_but_globals_refl]
  have n1: "n_experts ?s1 = n_experts s" by (rule same_but_globals_fields(1) [OF sy(2)])
  have kv: "kernel_vectors ext x_t d [0..<?n] ?s1 = Inr ?k_v"
    by (rule kernel_vectors_Ok) (simp_all add: sy(3) same_but_globals_fields(2) [OF sy(2)])
  have ch1: "check_L_alpha ext ?s1 = (Inr (), s2)"
    using check_L_alpha_synced [OF w, of ext] ch by simp
  have st: "same_stores s s2" and pa: "same_params s s2" and sh: "same_shape s s2"
    and pr: "same_prior s s2"
    using check_L_alpha_same [of s ext] check_L_alpha_params [of s ext]
      check_L_alpha_shape [of s ext] check_L_alpha_prior [of s ext] ch by simp_all
  have n2: "n_experts s2 = n_experts s" using st by (simp add: same_stores_def)
  have w2: "well_formed s2" by (rule well_formed_shape [OF sh w])
  have l2: "lens s2 ?n" using w2 n2 by (simp add: well_formed_def)
  have h2: "hyps s2 = hyps s" and p2: "prior_variance s2 = prior_variance s"
    and lp2: "log_prior_var s2 = ln (prior_variance s2)"
    using pa pr lp by (simp_all add: same_params_def same_prior_def)
  have kv2: "\<forall>i<?n. ?k_v ! i = kernel_vector_of ext x_t d s2 i"
    by (simp add: kernel_vector_of_def same_stores_entry [OF st] h2)
  have start: "predict ext x_t d s =
      try_get (predict_loop ext x_t d ?k_v [0..<?n] (0, 0, 0) s2) s2 (\<lambda>acc.
          (let mean = fst acc; var = fst (snd acc); beta = snd (snd acc);
               var1 = var + (1 - beta) / prior_variance s2;
               pred_var = 1 / var1;
               pred_mean = pred_var * mean
           in (Inr (pred_mean, pred_var), s2)))"
    using d kv n1 n2
    by (simp add: predict_def then_do_Ok [OF sy(1)] ch1 then_do_Inr try_get_Inr)
  show "predict ext x_t d s = (Inr (rbcm_mean ext x_t d s2, rbcm_variance ext x_t d s2), s2)"
    if "all_fit ext x_t d s2"
  proof -
    have f2: "\<forall>i\<in>set [0..<?n]. i < ?n \<and> fits ext x_t d s2 i"
      using that n2 by (simp add: all_fit_def list_all_iff)
    have loop: "predict_loop ext x_t d ?k_v [0..<?n] (0, 0, 0) s2 =
        Inr ((\<Sum>i<?n. expert_beta ext x_t d s2 i / expert_var ext x_t d s2 i
                         * expert_mean ext x_t d s2 i),
             (\<Sum>i<?n. expert_beta ext x_t d s2 i / expert_var ext x_t d s2 i),
             (\<Sum>i<?n. expert_beta ext x_t d s2 i))"
      using predict_loop_fits [OF l2 _ kv2 lp2 f2, of 0 0 0] by (simp add: sum_list_upt)
    show ?thesis
      unfolding start loop
      by (simp add: try_get_Inr rbcm_mean_def rbcm_variance_def Let_def n2)
  qed
  show "predict ext x_t d s = (Inl ValueError, s2)" if "\<not> all_fit ext x_t d s2"
  proof -
    have "\<exists>i\<in>set [0..<?n]. \<not> fits ext x_t d s2 i"
      using that n2 by (simp add: all_fit_def list_all_iff)
    from predict_loop_raises [OF l2 _ kv2 lp2 _ this, of 0 0 0]
    have "predict_loop ext x_t d ?k_v [0..<?n] (0, 0, 0) s2 = Inl ValueError" by simp
    then show ?thesis unfolding start by (simp add: try_get_Inl)
  qed
qed

lemma predict_reachable:
  assumes "0 \<le> n" and "Op_add_container \<notin> set cs"
    and "s = snd (run ext cs (rbcm_init n ndata prior hs))"
    and "d = 1 \<or> d = 2 \<or> d = 3"
    and "check_L_alpha ext2 s = (Inr (), s2)"
  shows "all_fit ext2 x_t d s2 \<Longrightarrow>
      predict ext2 x_t d s = (Inr (rbcm_mean ext2 x_t d s2, rbcm_variance ext2 x_t d s2), s2)"
    and "\<not> all_fit ext2 x_t d s2 \<Longrightarrow> predict ext2 x_t d s = (Inl ValueError, s2)"
proof -
  have w: "well_formed s"
    unfolding assms(3)
    by (rule well_formed_run [OF rbcm_init_well_formed(1) [OF assms(1)] assms(2)])
  have lp: "log_prior_var s = ln (prior_variance s)"
    unfolding assms(3) by (rule reachable_prior)
  show "all_fit ext2 x_t d s2 \<Longrightarrow>
      predict ext2 x_t d s = (Inr (rbcm_mean ext2 x_t d s2, rbcm_variance ext2 x_t d s2), s2)"
    and "\<not> all_fit ext2 x_t d s2 \<Longrightarrow> predict ext2 x_t d s = (Inl ValueError, s2)"
    using predict_after_refresh [OF assms(4) w lp assms(5)] by simp_all
qed

section \<open>The force component\<close>

text \<open>
  Claim C8. For every environment and every integer \<open>d\<close> outside \<open>{1, 2, 3}\<close>,
  \<^verbatim>\<open>predict\<close> fails on its assertion before it computes or changes anything; for
  \<open>d\<close> in \<open>{1, 2, 3}\<close> it never raises that assertion error, whatever else happens.
\<close>

theorem predict_component_assertion:
  "(\<not> (d = 1 \<or> d = 2 \<or> d = 3) \<longrightarrow> predict ext x_t d s = (Inl AssertionError, s)) \<and>
   ((d = 1 \<or> d = 2 \<or> d = 3) \<longrightarrow> fst (predict ext x_t d s) \<noteq> Inl AssertionError)"
  using predict_no_assert [of d ext x_t s] by (auto simp: predict_def)

theorem predict_component_assertion_witness:
  "predict unit_ext (AtomicEnvironment one_atom 0) 0 fresh = (Inl AssertionError, fresh) \<and>
   fst (predict unit_ext (AtomicEnvironment one_atom 0) 4 fresh) = Inl AssertionError \<and>
   fst (predict unit_ext (AtomicEnvironment one_atom 0) 1 fresh) \<noteq> Inl AssertionError \<and>
   fst (predict unit_ext (AtomicEnvironment one_atom 0) 3 fresh) \<noteq> Inl AssertionError"
  using predict_component_assertion [of 0 unit_ext "AtomicEnvironment one_atom 0" fresh]
    predict_component_assertion [of 4 unit_ext "AtomicEnvironment one_atom 0" fresh]
    predict_component_assertion [of 1 unit_ext "AtomicEnvironment one_atom 0" fresh]
    predict_component_assertion [of 3 unit_ext "AtomicEnvironment one_atom 0" fresh]
  by simp

section \<open>The refresh decision\<close>

text \<open>
  Claim C2. The claim says that \<^verbatim>\<open>check_L_alpha\<close> rebuilds an expert that holds data
  but no factorisation, updates an expert that has grown, and goes on past an empty
  expert. The code does none of the three. After \<^verbatim>\<open>update_db\<close> on a new model the
  expert's \<^verbatim>\<open>alpha\<close> is \<^verbatim>\<open>None\<close> and \<^verbatim>\<open>self.alpha[i].shape\<close> raises
  \<^verbatim>\<open>AttributeError\<close>. With an empty expert 0 and data in expert 1 the loop returns at
  expert 0 and leaves expert 1 without factorisation. After a factorisation and one more
  \<^verbatim>\<open>update_db\<close> on the same expert the update path raises \<^verbatim>\<open>TypeError\<close>.
\<close>

theorem check_L_alpha_refresh_fails:
  "fst (update_db one_atom (Some one_force) [] None None fresh) = Inr () \<and>
   fst (check_L_alpha unit_ext with_forces) = Inl AttributeError \<and>
   training_data (snd (update_db one_atom (Some one_force) [] None (Some 1) fresh2))
     = [[], [AtomicEnvironment one_atom 0]] \<and>
   fst (check_L_alpha unit_ext (snd (update_db one_atom (Some one_force) [] None (Some 1) fresh2)))
     = Inr () \<and>
   alpha (snd (check_L_alpha unit_ext
            (snd (update_db one_atom (Some one_force) [] None (Some 1) fresh2)))) = [None, None] \<and>
   fst (set_L_alpha unit_ext with_forces) = Inr () \<and>
   alpha (snd (set_L_alpha unit_ext with_forces)) = [Some [1, 2, 3]] \<and>
   fst (check_L_alpha unit_ext
          (snd (update_db one_atom (Some one_force) [] None (Some 0)
                  (snd (set_L_alpha unit_ext with_forces))))) = Inl TypeError"
  by (simp add: with_forces_def fresh_def fresh2_def eval_defs upt_small cong: seq_congs)

section \<open>Repeated refresh\<close>

text \<open>
  Claim C3. The claim says that a second \<^verbatim>\<open>check_L_alpha\<close> with no new data rebuilds
  nothing, also for an expert with an energy label. The code compares three times the
  number of environments with the length of \<^verbatim>\<open>alpha\<close>, which counts the energy labels
  too: for an expert with one environment and one energy label the two differ (3 and 4)
  after every factorisation, and every call rebuilds the covariance matrix again.
\<close>

theorem check_L_alpha_rebuilds_again:
  "alpha with_energy = [Some [1, 2, 3, 5]] \<and>
   n_Ky_builds with_energy = 1 \<and>
   fst (check_L_alpha unit_ext with_energy) = Inr () \<and>
   n_Ky_builds (snd (check_L_alpha unit_ext with_energy)) = 2 \<and>
   fst (check_L_alpha unit_ext (snd (check_L_alpha unit_ext with_energy))) = Inr () \<and>
   n_Ky_builds (snd (check_L_alpha unit_ext (snd (check_L_alpha unit_ext with_energy)))) = 3"
  by (simp add: with_energy_def fresh_def eval_defs upt_small cong: seq_congs)

section \<open>Training an empty model\<close>

text \<open>
  Claim C4. The claim says that \<^verbatim>\<open>train\<close> on a model without any labelled entry fails
  with the empty-model warning before any optimisation. The guard tests the number of
  expert containers, not the number of entries: a new model with one expert holds one
  empty container, passes the guard, and the optimiser runs.
\<close>

theorem train_without_data_optimises:
  "training_data fresh = [[]] \<and> energy_labels fresh = [[]] \<and>
   fst (train unit_ext None fresh) = Inr \<lparr>res_x = [1], res_fun = 0, res_jac = [0]\<rparr>"
  by (simp add: train_def fresh_def eval_defs upt_small cong: seq_congs)

section \<open>Output formats\<close>

text \<open>
  Claim C5, as stated, fails: \<^verbatim>\<open>'json'\<close> is in the list of supported formats and is the
  default, and \<^verbatim>\<open>write_model\<close> raises the unsupported-format error for it.
\<close>

theorem write_model_json_unsupported:
  "''json'' \<in> set supported_formats \<and>
   fst (write_model ''model'' ''json'' fresh) = Inl (UnsupportedFormat supported_formats)"
  by (simp add: write_model_def supported_formats_def lower_def lower_char_def)

text \<open>
  Claim C5, amended. \<^verbatim>\<open>write_model(name, f)\<close> raises the unsupported-format error, which
  reports the list \<^verbatim>\<open>['json', 'pickle', 'binary']\<close>, if and only if \<open>f\<close> in lower case is
  neither \<^verbatim>\<open>'pickle'\<close> nor \<^verbatim>\<open>'binary'\<close>; otherwise it succeeds and leaves the model as it
  was. It raises in particular for \<^verbatim>\<open>'json'\<close>, the default format.
\<close>

theorem write_model_formats:
  "(fst (write_model name f s) = Inl (UnsupportedFormat supported_formats)
      \<longleftrightarrow> \<not> (lower f = ''pickle'' \<or> lower f = ''binary'')) \<and>
   (lower f = ''pickle'' \<or> lower f = ''binary'' \<longrightarrow> write_model name f s = (Inr (), s))"
  by (auto simp: write_model_def Let_def)

lemma lower_samples:
  "lower ''xml'' = ''xml''" "lower ''Pickle'' = ''pickle''" "lower ''binary'' = ''binary''"
  by code_simp+

theorem write_model_formats_witness:
  "fst (write_model ''model'' ''xml'' fresh) = Inl (UnsupportedFormat supported_formats) \<and>
   write_model ''model'' ''Pickle'' fresh = (Inr (), fresh) \<and>
   write_model ''model'' ''binary'' fresh = (Inr (), fresh)"
  using write_model_formats [of "''model''" "''xml''" fresh]
    write_model_formats [of "''model''" "''Pickle''" fresh]
    write_model_formats [of "''model''" "''binary''" fresh]
  by (simp add: lower_samples)

section \<open>Monotonic routing\<close>

text \<open>
  Claim C6. Over every sequence of calls (router calls, appends routed automatically or
  to a chosen expert, and every other method), the expert ids that the router returns
  never decrease, and the model's current expert never decreases.
\<close>

theorem routing_monotonic:
  "sorted (fst (run ext cs s)) \<and> current_expert s \<le> current_expert (snd (run ext cs s))"
proof (induction cs arbitrary: s)
  case Nil
  show ?case by simp
next
  case (Cons c cs)
  have "sorted (routed c s)"
    by (induction c s rule: routed.induct) (simp_all add: router_answer_def split: sum.split)
  moreover have "sorted (fst (run ext cs (apply_op ext c s)))"
    using Cons.IH by simp
  moreover have "a \<le> b" if "a \<in> set (routed c s)" "b \<in> set (fst (run ext cs (apply_op ext c s)))"
    for a b
    using routed_current [OF that(1), of ext] run_answers_bound [OF that(2)] by simp
  ultimately have "sorted (fst (run ext (c # cs) s))"
    by (simp add: Let_def sorted_append)
  then show ?case using run_current_mono [of s ext "c # cs"] by simp
qed

theorem routing_monotonic_witness:
  "fst (run unit_ext
          [Op_update_db one_atom (Some one_force) [] None None,
           Op_update_db one_atom (Some one_force) [] None None,
           Op_find_expert_to_add] fresh) = [0, 0, 1] \<and>
   sorted (fst (run unit_ext
          [Op_update_db one_atom (Some one_force) [] None None,
           Op_update_db one_atom (Some one_force) [] None None,
           Op_find_expert_to_add] fresh)) \<and>
   current_expert fresh \<le> current_expert (snd (run unit_ext
          [Op_update_db one_atom (Some one_force) [] None None,
           Op_update_db one_atom (Some one_force) [] None None,
           Op_find_expert_to_add] fresh))"
  using routing_monotonic [of unit_ext
          "[Op_update_db one_atom (Some one_force) [] None None,
            Op_update_db one_atom (Some one_force) [] None None,
            Op_find_expert_to_add]" fresh]
  by (simp add: fresh_def router_answer_def eval_defs upt_small cong: seq_congs)

section \<open>The concatenated label vector\<close>

text \<open>
  Claim C9, as stated, fails. \<^verbatim>\<open>update_db\<close> with a structure of two atoms and the
  forces of one raises \<^verbatim>\<open>IndexError\<close> at the second atom: the force label of the first
  is in \<^verbatim>\<open>training_labels[0]\<close>, and \<^verbatim>\<open>training_labels_np[0]\<close> is still empty. A later
  \<^verbatim>\<open>update_db\<close> on expert 0 that passes an energy and no forces completes, and leaves
  \<^verbatim>\<open>all_labels[0] = [5]\<close>, where the flattened force labels followed by the energy
  labels are \<open>[1, 2, 3, 5]\<close>.
\<close>

theorem label_vector_after_failed_update:
  "fst (update_db two_atoms (Some one_force) [] None None fresh) = Inl IndexError \<and>
   training_labels half_added = [[[1, 2, 3]]] \<and> training_labels_np half_added = [[]] \<and>
   fst (update_db one_atom None [] (Some 5) (Some 0) half_added) = Inr () \<and>
   all_labels (snd (update_db one_atom None [] (Some 5) (Some 0) half_added)) ! 0 = [5] \<and>
   concat (training_labels (snd (update_db one_atom None [] (Some 5) (Some 0) half_added)) ! 0) @
     energy_labels (snd (update_db one_atom None [] (Some 5) (Some 0) half_added)) ! 0
     = [1, 2, 3, 5]"
  by (simp add: half_added_def two_atoms_def fresh_def eval_defs upt_small cong: seq_congs)

text \<open>
  Claim C9, amended. After every completed \<^verbatim>\<open>update_db\<close> or \<^verbatim>\<open>add_one_env\<close> that writes
  to expert \<open>k\<close>, the stores and label vectors of every other expert are as before; and
  if the numpy copies of the labels of \<open>k\<close> that the call does not rewrite were up to
  date before the call (\<^verbatim>\<open>training_labels_np[k]\<close> when no forces are passed,
  \<^verbatim>\<open>energy_labels_np[k]\<close> when no energy is passed; nothing is asked of a container
  that the call creates), then \<^verbatim>\<open>all_labels[k]\<close> is the flattened force labels of \<open>k\<close>
  followed by its energy labels, and both copies of \<open>k\<close> are up to date afterwards. If
  the copies of all experts were up to date before, they all are afterwards. (They are
  up to date after the constructor and stay so under every call that is not an
  \<^verbatim>\<open>update_db\<close> raising inside its loop over the atoms: \<open>cached_run\<close>.)
\<close>

theorem label_vector_after_mutation:
  assumes "lens s n" and "target expert_id s = Some k"
  shows
    "(update_db st forces custom_range energy expert_id s = (Inr (), s') \<longrightarrow>
        (\<forall>j<n. j \<noteq> k \<longrightarrow> stores_at s' j = stores_at s j) \<and>
        ((k < n \<longrightarrow> labels_current s k (forces \<noteq> None) (energy \<noteq> None)) \<longrightarrow>
           all_labels s' ! k = concat (training_labels s' ! k) @ energy_labels s' ! k \<and>
           labels_current s' k False False) \<and>
        (cached s \<longrightarrow> cached s')) \<and>
     (add_one_env ext env_new force do_train expert_id cb s = (Inr (), s2) \<longrightarrow>
        (\<forall>j<n. j \<noteq> k \<longrightarrow> stores_at s2 j = stores_at s j) \<and>
        ((k < n \<longrightarrow> labels_current s k True False) \<longrightarrow>
           all_labels s2 ! k = concat (training_labels s2 ! k) @ energy_labels s2 ! k \<and>
           labels_current s2 k False False) \<and>
        (cached s \<longrightarrow> cached s2))"
  using update_db_completed_at [OF assms, of st forces custom_range energy s']
    add_one_env_completed_at [OF assms, of ext env_new force do_train cb s2]
  by blast

theorem label_vector_after_mutation_witness:
  "lens half_added 1 \<and> \<not> cached half_added \<and> target (Some 0) half_added = Some 0 \<and>
   labels_current half_added 0 True False \<and>
   fst (update_db one_atom (Some one_force) [] None (Some 0) half_added) = Inr () \<and>
   all_labels (snd (update_db one_atom (Some one_force) [] None (Some 0) half_added)) ! 0 =
     concat (training_labels
        (snd (update_db one_atom (Some one_force) [] None (Some 0) half_added)) ! 0) @
     energy_labels (snd (update_db one_atom (Some one_force) [] None (Some 0) half_added)) ! 0 \<and>
   all_labels (snd (update_db one_atom (Some one_force) [] None (Some 0) half_added)) ! 0 =
     [1, 2, 3, 1, 2, 3] \<and>
   lens fresh2 2 \<and> cached fresh2 \<and> target (Some 1) fresh2 = Some 1 \<and>
   fst (add_one_env unit_ext (AtomicEnvironment one_atom 0) [1, 2, 3] False (Some 1) None fresh2)
     = Inr () \<and>
   all_labels (snd (add_one_env unit_ext (AtomicEnvironment one_atom 0) [1, 2, 3] False (Some 1)
     None fresh2)) ! 1 =
     concat (training_labels (snd (add_one_env unit_ext (AtomicEnvironment one_atom 0) [1, 2, 3]
       False (Some 1) None fresh2)) ! 1) @
     energy_labels (snd (add_one_env unit_ext (AtomicEnvironment one_atom 0) [1, 2, 3]
       False (Some 1) None fresh2)) ! 1 \<and>
   stores_at (snd (add_one_env unit_ext (AtomicEnvironment one_atom 0) [1, 2, 3] False (Some 1)
     None fresh2)) 0 = stores_at fresh2 0 \<and>
   cached (snd (add_one_env unit_ext (AtomicEnvironment one_atom 0) [1, 2, 3] False (Some 1)
     None fresh2))"
proof -
  let ?u = "update_db one_atom (Some one_force) [] None (Some 0) half_added"
  let ?a = "add_one_env unit_ext (AtomicEnvironment one_atom 0) [1, 2, 3] False (Some 1)
     None fresh2"
  have l: "lens half_added 1" and nc: "\<not> cached half_added"
    and lc: "labels_current half_added 0 True False"
    by (simp_all add: lens_def cached_def labels_current_def half_added_def two_atoms_def
        fresh_def eval_defs upt_small cong: seq_congs)
  have t: "target (Some 0) half_added = Some 0"
    by (simp add: target_def half_added_def two_atoms_def fresh_def eval_defs upt_small
        cong: seq_congs)
  have u: "fst ?u = Inr ()" and v: "all_labels (snd ?u) ! 0 = [1, 2, 3, 1, 2, 3]"
    by (simp_all add: half_added_def two_atoms_def fresh_def eval_defs upt_small cong: seq_congs)
  have l2: "lens fresh2 2" and c2: "cached fresh2"
    by (simp_all add: lens_def cached_def fresh2_def eval_defs upt_small)
  have t2: "target (Some 1) fresh2 = Some 1"
    by (simp add: target_def fresh2_def eval_defs upt_small cong: seq_congs)
  have a: "fst ?a = Inr ()"
    by (simp add: fresh2_def eval_defs upt_small cong: seq_congs)
  from u have u': "?u = (Inr (), snd ?u)" by (simp add: prod_eq_iff)
  from a have a': "?a = (Inr (), snd ?a)" by (simp add: prod_eq_iff)
  have lc2: "labels_current fresh2 1 True False"
    by (rule cached_labels_current [OF c2 l2]) simp
  from label_vector_after_mutation [OF l t, of one_atom "Some one_force" "[]" None "snd ?u"
      unit_ext "AtomicEnvironment one_atom 0" "[1, 2, 3]" False None
      "snd (add_one_env unit_ext (AtomicEnvironment one_atom 0) [1, 2, 3] False (Some 0) None
         half_added)"] u' lc
  have r1: "all_labels (snd ?u) ! 0 =
      concat (training_labels (snd ?u) ! 0) @ energy_labels (snd ?u) ! 0"
    by simp
  from label_vector_after_mutation [OF l2 t2, of one_atom "Some one_force" "[]" None
      "snd (update_db one_atom (Some one_force) [] None (Some 1) fresh2)"
      unit_ext "AtomicEnvironment one_atom 0" "[1, 2, 3]" False None "snd ?a"] a' lc2 c2
  have r2: "all_labels (snd ?a) ! 1 =
      concat (training_labels (snd ?a) ! 1) @ energy_labels (snd ?a) ! 1"
    and r3: "stores_at (snd ?a) 0 = stores_at fresh2 0" and r4: "cached (snd ?a)"
    by simp_all
  show ?thesis using l nc t lc u r1 v l2 c2 t2 a r2 r3 r4 by simp
qed

section \<open>A chosen expert id\<close>

text \<open>
  Claim C10. In a well-formed model, \<^verbatim>\<open>update_db\<close> and \<^verbatim>\<open>add_one_env\<close> with the chosen
  expert id \<open>e\<close>: if \<open>e\<close> equals \<^verbatim>\<open>n_experts\<close>, one expert is created and a completed
  call leaves exactly its data there, the other experts untouched; if \<open>e\<close> is greater,
  the call raises \<^verbatim>\<open>IndexError\<close> (for \<^verbatim>\<open>add_one_env\<close>, when the model has its logger)
  and leaves the model with one empty container appended and \<^verbatim>\<open>n_experts\<close> incremented.
\<close>

theorem explicit_expert_id:
  assumes "well_formed s" and "n = nat (n_experts s)"
  shows
    "(e = n_experts s \<longrightarrow>
        n_experts (snd (update_db st forces cr energy (Some e) s)) = n_experts s + 1 \<and>
        n_experts (snd (add_one_env ext env_new force do_train (Some e) cb s)) = n_experts s + 1 \<and>
        (update_db st forces cr energy (Some e) s = (Inr (), s1) \<longrightarrow>
           lens s1 (Suc n) \<and>
           training_data s1 ! n =
             (case forces of None \<Rightarrow> []
              | Some fs \<Rightarrow> map (AtomicEnvironment st) (update_indices_of st cr)) \<and>
           training_labels s1 ! n =
             (case forces of None \<Rightarrow> []
              | Some fs \<Rightarrow> map (\<lambda>a. projr (py_get fs a)) (update_indices_of st cr)) \<and>
           energy_labels s1 ! n = (case energy of None \<Rightarrow> [] | Some en \<Rightarrow> [en]) \<and>
           (\<forall>j<n. stores_at s1 j = stores_at s j)) \<and>
        (add_one_env ext env_new force do_train (Some e) cb s = (Inr (), s2) \<longrightarrow>
           training_data s2 ! n = [env_new] \<and> training_labels s2 ! n = [force] \<and>
           (\<forall>j<n. stores_at s2 j = stores_at s j))) \<and>
     (e > n_experts s \<longrightarrow>
        update_db st forces cr energy (Some e) s = (Inl IndexError, add_expert s) \<and>
        (logger s \<longrightarrow>
           add_one_env ext env_new force do_train (Some e) cb s = (Inl IndexError, add_expert s)) \<and>
        n_experts (add_expert s) = n_experts s + 1 \<and>
        lens (add_expert s) (Suc n) \<and>
        stores_at (add_expert s) n = empty_stores)"
proof -
  have l: "lens s n" and n0: "0 \<le> n_experts s" and ni: "int n = n_experts s"
    using assms by (simp_all add: well_formed_def)
  have la: "lens (add_expert s) (Suc n)" by (rule lens_add_expert [OF l])
  note new = add_expert_new [OF l]
  have old: "stores_at (add_expert s) j = stores_at s j" if "j < n" for j
    by (rule stores_at_add_expert [OF l that])
  have eq: ?thesis if e: "e = n_experts s"
  proof -
    have r: "route (Some e) s = (Inr e, add_expert s)" using e by (simp add: route_Some)
    have k: "py_norm (Suc n) e = Some n" using e ni py_norm_new [of n] by simp
    have upd: "lens s1 (Suc n) \<and>
           training_data s1 ! n =
             (case forces of None \<Rightarrow> []
              | Some fs \<Rightarrow> map (AtomicEnvironment st) (update_indices_of st cr)) \<and>
           training_labels s1 ! n =
             (case forces of None \<Rightarrow> []
              | Some fs \<Rightarrow> map (\<lambda>a. projr (py_get fs a)) (update_indices_of st cr)) \<and>
           energy_labels s1 ! n = (case energy of None \<Rightarrow> [] | Some en \<Rightarrow> [en]) \<and>
           (\<forall>j<n. stores_at s1 j = stores_at s j)"
      if run: "update_db st forces cr energy (Some e) s = (Inr (), s1)"
    proof -
      from run r have "update_db_at st forces cr energy e (add_expert s) = (Inr (), s1)"
        by (simp add: update_db_def then_do_Inr)
      then have s1: "s1 = update_db_done st forces cr energy n (add_expert s)"
        by (rule update_db_at_Ok [OF k la])
      show ?thesis
        unfolding s1
        using la update_db_done_new [OF la new(1)] update_db_done_others [of _ n] old
        by simp
    qed
    have add: "training_data s2 ! n = [env_new] \<and> training_labels s2 ! n = [force] \<and>
           (\<forall>j<n. stores_at s2 j = stores_at s j)"
      if run: "add_one_env ext env_new force do_train (Some e) cb s = (Inr (), s2)"
    proof -
      from run r have "add_one_env_at ext env_new force do_train cb e (add_expert s) = (Inr (), s2)"
        by (simp add: add_one_env_def then_do_Inr)
      then have same: "same_stores (add_one_env_done env_new force n (add_expert s)) s2"
        by (rule add_one_env_at_Ok [OF k la])
      show ?thesis
        using add_one_env_done_new [OF la new(1)] add_one_env_done_others [of _ n] old
          same_stores_views(2,4,6) [OF same]
        by simp
    qed
    show ?thesis
      using e r upd add new(4)
      by (simp add: update_db_n_experts add_one_env_n_experts)
  qed
  have gt: ?thesis if e: "e > n_experts s"
  proof -
    have r: "route (Some e) s = (Inr e, add_expert s)" using e by (simp add: route_Some)
    have k: "py_norm (Suc n) e = None" using e ni by (simp add: py_norm_def)
    have "update_db st forces cr energy (Some e) s = (Inl IndexError, add_expert s)"
      using r update_db_at_no_index [OF k la] by (simp add: update_db_def then_do_Inr)
    moreover have "add_one_env ext env_new force do_train (Some e) cb s
        = (Inl IndexError, add_expert s)" if "logger s"
    proof -
      have "logger (add_expert s)" using that by (simp add: add_expert_def add_container_def)
      from add_one_env_at_no_index [OF k la this] r show ?thesis
        by (simp add: add_one_env_def then_do_Inr)
    qed
    ultimately show ?thesis using e la new by simp
  qed
  show ?thesis
    using eq gt by (cases "e = n_experts s"; cases "e > n_experts s") simp_all
qed

theorem explicit_expert_id_witness:
  "well_formed fresh \<and> n_experts fresh = 1 \<and> logger fresh \<and>
   n_experts (snd (update_db one_atom (Some one_force) [] None (Some 1) fresh)) = 2 \<and>
   update_db one_atom (Some one_force) [] None (Some 5) fresh = (Inl IndexError, add_expert fresh) \<and>
   add_one_env unit_ext (AtomicEnvironment one_atom 0) [1, 2, 3] False (Some 5) None fresh
     = (Inl IndexError, add_expert fresh) \<and>
   n_experts (add_expert fresh) = 2 \<and> stores_at (add_expert fresh) 1 = empty_stores"
proof -
  have w: "well_formed fresh" and n: "n_experts fresh = 1" and lg: "logger fresh"
    by (simp_all add: well_formed_def lens_def fresh_def eval_defs upt_small)
  have n1: "(1 :: nat) = nat (n_experts fresh)" using n by simp
  have a: "n_experts (snd (update_db one_atom (Some one_force) [] None (Some 1) fresh)) = 2"
    using explicit_expert_id [OF w n1, where e = 1 and st = one_atom and forces = "Some one_force"
        and cr = "[]" and energy = None and ext = unit_ext
        and env_new = "AtomicEnvironment one_atom 0" and force = "[1, 2, 3]" and do_train = False
        and cb = None and ?s1.0 = fresh and ?s2.0 = fresh] n
    by simp
  have b: "update_db one_atom (Some one_force) [] None (Some 5) fresh = (Inl IndexError, add_expert fresh) \<and>
   add_one_env unit_ext (AtomicEnvironment one_atom 0) [1, 2, 3] False (Some 5) None fresh
     = (Inl IndexError, add_expert fresh) \<and>
   n_experts (add_expert fresh) = 2 \<and> stores_at (add_expert fresh) 1 = empty_stores"
    using explicit_expert_id [OF w n1, where e = 5 and st = one_atom and forces = "Some one_force"
        and cr = "[]" and energy = None and ext = unit_ext
        and env_new = "AtomicEnvironment one_atom 0" and force = "[1, 2, 3]" and do_train = False
        and cb = None and ?s1.0 = fresh and ?s2.0 = fresh] n lg
    by simp
  show ?thesis using w n lg a b by simp
qed

section \<open>Overflow of the current expert\<close>

text \<open>
  Claim C7. In a well-formed model, when the router is asked by \<^verbatim>\<open>update_db\<close>, the
  current expert holds more than \<^verbatim>\<open>ndata_per_expert\<close> environments and no later expert
  exists, exactly one expert is created: \<^verbatim>\<open>n_experts\<close> grows by 1, and the new expert
  starts with empty stores, zero observations and no factorisation. A completed call
  leaves in it the data of this call and nothing else, still without factorisation.
\<close>

theorem overflow_creates_one_expert:
  assumes "well_formed s" and "n = nat (n_experts s)"
    and "py_get (n_envs_prev s) (current_expert s) = Inr c"
    and "c > ndata_per_expert s"
    and "current_expert s + 1 \<ge> n_experts s"
  shows
    "route None s = (Inr (n_experts s), add_expert (s\<lparr>current_expert := n_experts s\<rparr>)) \<and>
     stores_at (add_expert (s\<lparr>current_expert := n_experts s\<rparr>)) n = empty_stores \<and>
     n_envs_prev (add_expert (s\<lparr>current_expert := n_experts s\<rparr>)) ! n = 0 \<and>
     no_factors_at (add_expert (s\<lparr>current_expert := n_experts s\<rparr>)) n \<and>
     n_experts (snd (update_db st forces cr energy None s)) = n_experts s + 1 \<and>
     (update_db st forces cr energy None s = (Inr (), s1) \<longrightarrow>
        lens s1 (Suc n) \<and> no_factors_at s1 n \<and>
        training_data s1 ! n =
          (case forces of None \<Rightarrow> []
           | Some fs \<Rightarrow> map (AtomicEnvironment st) (update_indices_of st cr)) \<and>
        training_labels s1 ! n =
          (case forces of None \<Rightarrow> []
           | Some fs \<Rightarrow> map (\<lambda>a. projr (py_get fs a)) (update_indices_of st cr)) \<and>
        energy_labels s1 ! n = (case energy of None \<Rightarrow> [] | Some en \<Rightarrow> [en]))"
proof -
  have l: "lens s n" and n0: "0 \<le> n_experts s" and ni: "int n = n_experts s"
    using assms(1,2) by (simp_all add: well_formed_def)
  from assms(3) obtain k where "py_norm n (current_expert s) = Some k"
    using l by (auto simp: py_get_def lens_def split: option.splits)
  then have "current_expert s < n_experts s"
    using ni by (auto simp: py_norm_def split: if_splits)
  with assms(5) have cur: "current_expert s + 1 = n_experts s" by simp
  let ?s0 = "s\<lparr>current_expert := n_experts s\<rparr>"
  let ?s1 = "add_expert ?s0"
  have f: "find_expert_to_add s = (Inr (n_experts s), ?s0)"
    using assms(3,4) cur by (simp add: find_expert_to_add_def try_get_Inr)
  have r: "route None s = (Inr (n_experts s), ?s1)"
    using f by (simp add: route_def then_do_Inr)
  have l0: "lens ?s0 n" using l by simp
  have la: "lens ?s1 (Suc n)" by (rule lens_add_expert [OF l0])
  note new = add_expert_new [OF l0]
  have k: "py_norm (Suc n) (n_experts s) = Some n" using ni py_norm_new [of n] by simp
  have ne: "n_experts (snd (update_db st forces cr energy None s)) = n_experts s + 1"
    using r new(4) by (simp add: update_db_n_experts)
  have upd: "lens s1 (Suc n) \<and> no_factors_at s1 n \<and>
        training_data s1 ! n =
          (case forces of None \<Rightarrow> []
           | Some fs \<Rightarrow> map (AtomicEnvironment st) (update_indices_of st cr)) \<and>
        training_labels s1 ! n =
          (case forces of None \<Rightarrow> []
           | Some fs \<Rightarrow> map (\<lambda>a. projr (py_get fs a)) (update_indices_of st cr)) \<and>
        energy_labels s1 ! n = (case energy of None \<Rightarrow> [] | Some en \<Rightarrow> [en])"
    if run: "update_db st forces cr energy None s = (Inr (), s1)"
  proof -
    from run r have at: "update_db_at st forces cr energy (n_experts s) ?s1 = (Inr (), s1)"
      by (simp add: update_db_def then_do_Inr)
    then have s1: "s1 = update_db_done st forces cr energy n ?s1"
      by (rule update_db_at_Ok [OF k la])
    have "same_factors ?s1 s1"
      using update_db_at_factors [of ?s1 st forces cr energy "n_experts s"] at by simp
    then have "no_factors_at s1 n"
      using new(3) by (simp add: same_factors_def no_factors_at_def)
    then show ?thesis
      unfolding s1 using la update_db_done_new [OF la new(1)] by simp
  qed
  show ?thesis using r new(1,2,3) ne upd by simp
qed

theorem overflow_creates_one_expert_witness:
  "well_formed full_expert \<and>
   py_get (n_envs_prev full_expert) (current_expert full_expert) = Inr 2 \<and>
   2 > ndata_per_expert full_expert \<and>
   current_expert full_expert + 1 \<ge> n_experts full_expert \<and>
   n_experts full_expert = 1 \<and>
   n_experts (snd (update_db one_atom (Some one_force) [] None None full_expert)) = 2 \<and>
   n_envs_prev (add_expert (full_expert\<lparr>current_expert := 1\<rparr>)) ! 1 = 0 \<and>
   no_factors_at (add_expert (full_expert\<lparr>current_expert := 1\<rparr>)) 1"
proof -
  have w: "well_formed full_expert" and n: "n_experts full_expert = 1"
    and g: "py_get (n_envs_prev full_expert) (current_expert full_expert) = Inr 2"
    and c: "2 > ndata_per_expert full_expert"
    and e: "current_expert full_expert + 1 \<ge> n_experts full_expert"
    by (simp_all add: well_formed_def lens_def full_expert_def with_forces_def fresh_def
        eval_defs upt_small cong: seq_congs)
  have n1: "(1 :: nat) = nat (n_experts full_expert)" using n by simp
  show ?thesis
    using overflow_creates_one_expert [OF w n1 g c e, where st = one_atom
        and forces = "Some one_force" and cr = "[]" and energy = None and ?s1.0 = full_expert]
      w n g c e
    by simp
qed

section \<open>The robust product of experts\<close>

text \<open>
  Claim C1, as stated, fails: one expert with a current factorisation is not enough.
  In a model of two experts where expert 0 holds one environment and its factorisation
  and expert 1 is empty and was never factored, \<^verbatim>\<open>check_L_alpha\<close> returns (it stops at
  the empty expert) and \<^verbatim>\<open>predict\<close> raises \<^verbatim>\<open>ValueError\<close> in the aggregation, at
  \<^verbatim>\<open>np.matmul(k_v[1], self.alpha[1])\<close> with \<^verbatim>\<open>alpha[1]\<close> still \<^verbatim>\<open>None\<close>.
\<close>

theorem predict_empty_expert_fails:
  "current unit_ext (AtomicEnvironment one_atom 0) 1 one_of_two 0 \<and>
   training_data one_of_two ! 1 = [] \<and> alpha one_of_two ! 1 = None \<and>
   fst (check_L_alpha unit_ext one_of_two) = Inr () \<and>
   fst (predict unit_ext (AtomicEnvironment one_atom 0) 1 one_of_two) = Inl ValueError"
  by (simp add: one_of_two_def fresh2_def current_def
      kernel_vector_of_def entry_of_def predict_def eval_defs upt_small cong: seq_congs)

text \<open>
  Claim C1, amended. For every query environment, every force component \<open>d\<close> in
  \<open>{1, 2, 3}\<close> and every well-formed model on which the refresh \<^verbatim>\<open>check_L_alpha\<close>
  returns: if the refresh leaves every expert with an \<^verbatim>\<open>alpha\<close> and an inverse whose
  shapes fit the expert's kernel vector, \<^verbatim>\<open>predict\<close> returns the robust combination of
  the refreshed factorisations: with \<open>mean\<^sub>i = k\<^sub>i \<cdot> alpha\<^sub>i\<close>,
  \<open>var\<^sub>i = kernel(query, query) - k\<^sub>i\<^sup>T K\<^sub>i\<^sup>-\<^sup>1 k\<^sub>i\<close> and
  \<open>beta\<^sub>i = 0.5 (log prior_variance - log var\<^sub>i)\<close>, the variance is
  \<open>1 / (\<Sum>\<^sub>i beta\<^sub>i / var\<^sub>i + (1 - \<Sum>\<^sub>i beta\<^sub>i) / prior_variance)\<close> and the mean is that variance
  times \<open>\<Sum>\<^sub>i beta\<^sub>i / var\<^sub>i \<cdot> mean\<^sub>i\<close>; if the refresh leaves some expert without, \<^verbatim>\<open>predict\<close>
  raises \<^verbatim>\<open>ValueError\<close>. In particular, when every expert has a factorisation with
  nothing to refresh, \<^verbatim>\<open>predict\<close> returns the robust combination of the factorisations
  of the model as it is. What \<^verbatim>\<open>predict\<close> does when the refresh itself raises is not
  part of the statement. The model is one whose \<^verbatim>\<open>log_prior_var\<close> is the logarithm of
  its \<^verbatim>\<open>prior_variance\<close>, as in every state that calls reach from the constructor.
  Numbers are reals here; the rounding of floating-point arithmetic is outside the
  model.
\<close>

theorem predict_robust_combination:
  assumes "d = 1 \<or> d = 2 \<or> d = 3" and "well_formed s"
    and "log_prior_var s = ln (prior_variance s)"
  shows "(check_L_alpha ext s = (Inr (), s2) \<longrightarrow>
           (if all_fit ext x_t d s2
            then predict ext x_t d s =
                   (Inr (rbcm_mean ext x_t d s2, rbcm_variance ext x_t d s2), s2)
            else predict ext x_t d s = (Inl ValueError, s2))) \<and>
         (all_current ext x_t d s \<longrightarrow>
            fst (predict ext x_t d s) =
              Inr (rbcm_mean ext x_t d s, rbcm_variance ext x_t d s))"
proof (intro conjI impI)
  assume "check_L_alpha ext s = (Inr (), s2)"
  from predict_after_refresh [OF assms this, of x_t]
  show "if all_fit ext x_t d s2
        then predict ext x_t d s =
               (Inr (rbcm_mean ext x_t d s2, rbcm_variance ext x_t d s2), s2)
        else predict ext x_t d s = (Inl ValueError, s2)"
    by simp
next
  assume c: "all_current ext x_t d s"
  let ?s2 = "snd (check_L_alpha ext s)"
  note ch = check_L_alpha_current [OF assms(2) c]
  have eq: "check_L_alpha ext s = (Inr (), ?s2)" using ch(1) by (simp add: prod_eq_iff)
  have "all_fit ext x_t d ?s2"
    using all_current_fit [OF c] same_but_globals_all_fit [OF ch(2)] by simp
  from predict_after_refresh(1) [OF assms eq this]
  show "fst (predict ext x_t d s) = Inr (rbcm_mean ext x_t d s, rbcm_variance ext x_t d s)"
    using same_but_globals_formula [OF ch(2), of ext x_t d] same_but_globals_fields(1,7) [OF ch(2)]
    by (simp add: rbcm_mean_def rbcm_variance_def)
qed

theorem predict_robust_combination_witness:
  "well_formed with_energy \<and> log_prior_var with_energy = ln (prior_variance with_energy) \<and>
   energy_labels with_energy ! 0 = [5] \<and>
   \<not> current unit_ext (AtomicEnvironment one_atom 0) 1 with_energy 0 \<and>
   fst (check_L_alpha unit_ext with_energy) = Inr () \<and>
   all_fit unit_ext (AtomicEnvironment one_atom 0) 1 (snd (check_L_alpha unit_ext with_energy)) \<and>
   predict unit_ext (AtomicEnvironment one_atom 0) 1 with_energy =
     (Inr (rbcm_mean unit_ext (AtomicEnvironment one_atom 0) 1
             (snd (check_L_alpha unit_ext with_energy)),
           rbcm_variance unit_ext (AtomicEnvironment one_atom 0) 1
             (snd (check_L_alpha unit_ext with_energy))),
      snd (check_L_alpha unit_ext with_energy)) \<and>
   well_formed factored \<and> log_prior_var factored = ln (prior_variance factored) \<and>
   all_current unit_ext (AtomicEnvironment one_atom 0) 1 factored \<and>
   fst (predict unit_ext (AtomicEnvironment one_atom 0) 1 factored) =
     Inr (rbcm_mean unit_ext (AtomicEnvironment one_atom 0) 1 factored,
          rbcm_variance unit_ext (AtomicEnvironment one_atom 0) 1 factored) \<and>
   well_formed one_of_two \<and> log_prior_var one_of_two = ln (prior_variance one_of_two) \<and>
   fst (check_L_alpha unit_ext one_of_two) = Inr () \<and>
   \<not> all_fit unit_ext (AtomicEnvironment one_atom 0) 1 (snd (check_L_alpha unit_ext one_of_two)) \<and>
   predict unit_ext (AtomicEnvironment one_atom 0) 1 one_of_two =
     (Inl ValueError, snd (check_L_alpha unit_ext one_of_two))"
proof -
  let ?q = "AtomicEnvironment one_atom 0"
  let ?s2 = "snd (check_L_alpha unit_ext with_energy)"
  have d: "(1 :: int) = 1 \<or> (1 :: int) = 2 \<or> (1 :: int) = 3" by simp
  have w: "well_formed with_energy"
    and lp: "log_prior_var with_energy = ln (prior_variance with_energy)"
    and en: "energy_labels with_energy ! 0 = [5]"
    and nc: "\<not> current unit_ext ?q 1 with_energy 0"
    by (simp_all add: with_energy_def fresh_def well_formed_def lens_def
        current_def kernel_vector_of_def entry_of_def eval_defs upt_small
        cong: seq_congs)
  have ch: "fst (check_L_alpha unit_ext with_energy) = Inr ()"
    and f: "all_fit unit_ext ?q 1 ?s2"
    by (simp_all add: with_energy_def fresh_def all_fit_def fits_def
        kernel_vector_of_def entry_of_def eval_defs upt_small cong: seq_congs)
  have eq: "check_L_alpha unit_ext with_energy = (Inr (), ?s2)"
    using ch by (simp add: prod_eq_iff)
  have w': "well_formed factored"
    and lp': "log_prior_var factored = ln (prior_variance factored)"
    and c': "all_current unit_ext ?q 1 factored"
    by (simp_all add: factored_def with_forces_def fresh_def well_formed_def lens_def
        all_current_def current_def kernel_vector_of_def entry_of_def eval_defs upt_small
        cong: seq_congs)
  let ?s3 = "snd (check_L_alpha unit_ext one_of_two)"
  have w3: "well_formed one_of_two"
    and lp3: "log_prior_var one_of_two = ln (prior_variance one_of_two)"
    by (simp_all add: one_of_two_def fresh2_def well_formed_def lens_def eval_defs upt_small
        cong: seq_congs)
  have ch3: "fst (check_L_alpha unit_ext one_of_two) = Inr ()"
    and nf3: "\<not> all_fit unit_ext ?q 1 ?s3"
    by (simp_all add: one_of_two_def fresh2_def all_fit_def fits_def
        kernel_vector_of_def entry_of_def eval_defs upt_small cong: seq_congs)
  have eq3: "check_L_alpha unit_ext one_of_two = (Inr (), ?s3)"
    using ch3 by (simp add: prod_eq_iff)
  have r1: "predict unit_ext ?q 1 with_energy =
      (Inr (rbcm_mean unit_ext ?q 1 ?s2, rbcm_variance unit_ext ?q 1 ?s2), ?s2)"
    using predict_robust_combination [OF d w lp, of unit_ext ?s2 ?q] eq f by simp
  have r2: "fst (predict unit_ext ?q 1 factored) =
      Inr (rbcm_mean unit_ext ?q 1 factored, rbcm_variance unit_ext ?q 1 factored)"
    using predict_robust_combination [OF d w' lp',
        of unit_ext "snd (check_L_alpha unit_ext factored)" ?q] c'
    by simp
  have r3: "predict unit_ext ?q 1 one_of_two = (Inl ValueError, ?s3)"
    using predict_robust_combination [OF d w3 lp3, of unit_ext ?s3 ?q] eq3 nf3 by simp
  show ?thesis
    using w lp en nc ch f r1 w' lp' c' r2 w3 lp3 ch3 nf3 r3 by simp
qed
end
